(* ===== verification/Prelude.thy ===== *)
theory Prelude
  imports Main "HOL-Library.Word"
begin

text \<open>
  Shared vocabulary of the development: JavaScript strings as lists of UTF-16 code
  units (\<open>16 word\<close>), the string operations of the ECMAScript library the sources
  call (\<open>trim\<close>, \<open>toLowerCase\<close>, \<open>startsWith\<close>, \<open>replace\<close> with a run-collapsing
  regular expression, \<open>slice(0, n)\<close> which is \<open>take n\<close>), JavaScript values and their
  truthiness, and the property read \<open>obj[key]\<close> on an object literal, which also
  sees the properties inherited from \<open>Object.prototype\<close>.
\<close>

section \<open>Strings as UTF-16 code units\<close>

type_synonym code_unit = "16 word"
type_synonym jsstr = "code_unit list"

named_theorems js_eval \<open>definitions unfolded to evaluate string operations on literals\<close>

definition js :: "string \<Rightarrow> jsstr" where
  [js_eval]: "js s = map (\<lambda>c. of_nat (of_char c)) s"

text \<open>
  ECMAScript WhiteSpace and LineTerminator code units: the set that
  \<open>String.prototype.trim\<close> removes and that \<open>\s\<close> matches in a regular expression.
\<close>

definition js_ws :: "code_unit \<Rightarrow> bool" where
  [js_eval]: "js_ws c \<longleftrightarrow>
     (let n = unat c in
      n \<in> {9, 10, 11, 12, 13, 32, 160, 5760, 8232, 8233, 8239, 8287, 12288, 65279}
      \<or> (8192 \<le> n \<and> n \<le> 8202))"

definition js_trim :: "jsstr \<Rightarrow> jsstr" where
  "js_trim s = rev (dropWhile js_ws (rev (dropWhile js_ws s)))"

text \<open>
  \<open>toLowerCase\<close> of one code unit (read as the number \<open>unat c\<close>). The mapping is
  exact for every code unit of Basic Latin, Latin-1 and Latin Extended-A (U+0000 to
  U+017F) and for the three code units outside that block whose lower case lies inside
  it (U+1E9E, U+212A, U+212B); U+0130 lowers to two code units. Other scripts are left
  unchanged (their lower case never meets the ASCII and Latin keys the sources compare
  with).
\<close>

definition lower_unit :: "code_unit \<Rightarrow> jsstr" where
  [js_eval]: "lower_unit c =
     (let n = unat c in
      if 65 \<le> n \<and> n \<le> 90 then [c + 0x20]
      else if 192 \<le> n \<and> n \<le> 222 \<and> n \<noteq> 215 then [c + 0x20]
      else if n = 304 then [0x69, 0x307]
      else if (256 \<le> n \<and> n \<le> 311 \<or> 330 \<le> n \<and> n \<le> 375) \<and> even n then [c + 1]
      else if (313 \<le> n \<and> n \<le> 328 \<or> 377 \<le> n \<and> n \<le> 382) \<and> odd n then [c + 1]
      else if n = 376 then [0xFF]
      else if n = 7838 then [0xDF]
      else if n = 8490 then [0x6B]
      else if n = 8491 then [0xE5]
      else [c])"

definition js_to_lower :: "jsstr \<Rightarrow> jsstr" where
  "js_to_lower s = concat (map lower_unit s)"

definition starts_with :: "jsstr \<Rightarrow> jsstr \<Rightarrow> bool" where
  "starts_with p s \<longleftrightarrow> take (length p) s = p"

text \<open>
  \<open>s.replace(/R+/g, r)\<close> for a one-character class \<open>R\<close>: every maximal run of
  code units satisfying \<open>P\<close> becomes the replacement \<open>r\<close>. Both \<open>/\s+/g\<close> (with
  \<open>" "\<close>) and \<open>/\/{2,}/g\<close> (with \<open>"/"\<close>; a single slash is replaced by itself)
  are of this form.
\<close>

function collapse_runs :: "(code_unit \<Rightarrow> bool) \<Rightarrow> code_unit \<Rightarrow> jsstr \<Rightarrow> jsstr" where
  "collapse_runs P r [] = []"
| "collapse_runs P r (c # cs) =
     (if P c then r # collapse_runs P r (dropWhile P cs) else c # collapse_runs P r cs)"
  by pat_completeness auto
termination
  by (relation "measure (\<lambda>(P, r, s). length s)") (auto simp: le_imp_less_Suc length_dropWhile_le)

section \<open>JavaScript values\<close>

text \<open>
  The values the sources pass around: strings, booleans, and objects (the functions
  and the object that a read of an \<open>Object.prototype\<close> property returns). An absent
  value (\<open>undefined\<close>) is \<open>None\<close> of a \<open>jsval option\<close>.
\<close>

datatype jsval = JStr jsstr | JBool bool | JObj

fun js_truthy :: "jsval option \<Rightarrow> bool" where
  "js_truthy None = False"
| "js_truthy (Some (JStr s)) = (s \<noteq> [])"
| "js_truthy (Some (JBool b)) = b"
| "js_truthy (Some JObj) = True"

text \<open>\<open>a || b\<close>.\<close>

definition js_or :: "jsval option \<Rightarrow> jsval option \<Rightarrow> jsval option" where
  "js_or a b = (if js_truthy a then a else b)"

text \<open>
  The names of the properties of \<open>Object.prototype\<close>; a read of one of them on an
  object literal that does not define it returns a function (or, for
  \<open>__proto__\<close>, the prototype object itself).
\<close>

definition object_prototype_keys :: "jsstr list" where
  [js_eval]: "object_prototype_keys = map js
     [''constructor'', ''__defineGetter__'', ''__defineSetter__'', ''hasOwnProperty'',
      ''__lookupGetter__'', ''__lookupSetter__'', ''isPrototypeOf'',
      ''propertyIsEnumerable'', ''toString'', ''valueOf'', ''__proto__'', ''toLocaleString'']"

text \<open>\<open>obj[key]\<close> for an object literal whose own properties are string-valued.\<close>

definition js_obj_get :: "(jsstr \<times> jsstr) list \<Rightarrow> jsstr \<Rightarrow> jsval option" where
  "js_obj_get obj k =
     (case map_of obj k of
        Some v \<Rightarrow> Some (JStr v)
      | None \<Rightarrow> if k \<in> set object_prototype_keys then Some JObj else None)"

section \<open>Shared lemmas\<close>

lemma js_Nil [simp]: "js [] = []" and js_Cons [simp]: "js (c # s) = of_nat (of_char c) # js s"
  by (simp_all add: js_def)

lemma js_append [simp]: "js (s @ t) = js s @ js t"
  by (simp add: js_def)

lemma length_js [simp]: "length (js s) = length s"
  by (simp add: js_def)

lemma js_to_lower_Nil [simp]: "js_to_lower [] = []"
  and js_to_lower_Cons [simp]: "js_to_lower (c # s) = lower_unit c @ js_to_lower s"
  and js_to_lower_append [simp]: "js_to_lower (s @ t) = js_to_lower s @ js_to_lower t"
  by (simp_all add: js_to_lower_def)

lemma js_trim_Nil [simp]: "js_trim [] = []"
  by (simp add: js_trim_def)

lemma dropWhile_rev_dropWhile_keep:
  assumes "dropWhile P xs = xs"
  shows "dropWhile P (rev (dropWhile P (rev xs))) = rev (dropWhile P (rev xs))"
proof -
  let ?ys = "rev (dropWhile P (rev xs))"
  have split: "xs = ?ys @ rev (takeWhile P (rev xs))"
    by (metis rev_append rev_rev_ident takeWhile_dropWhile_id)
  show ?thesis
  proof (cases ?ys)
    case Nil
    then show ?thesis by (simp only: dropWhile.simps(1))
  next
    case (Cons y ys)
    with split have "hd xs = y" by (metis append_Cons list.sel(1))
    moreover from Cons split have "xs \<noteq> []" by auto
    ultimately have "\<not> P y" using assms by (simp add: dropWhile_eq_self_iff)
    with Cons show ?thesis by simp
  qed
qed

lemma dropWhile_rev_dropWhile:
  "dropWhile P (rev (dropWhile P (rev (dropWhile P s)))) = rev (dropWhile P (rev (dropWhile P s)))"
  by (rule dropWhile_rev_dropWhile_keep) simp

lemma js_trim_idem [simp]: "js_trim (js_trim s) = js_trim s"
  by (simp add: js_trim_def dropWhile_rev_dropWhile)

lemma js_trim_ws_free_ends:
  assumes "js_trim s = c # cs"
  shows "\<not> js_ws c"
  using assms hd_dropWhile [of js_ws] dropWhile_rev_dropWhile [of js_ws s]
  by (metis js_trim_def list.distinct(1) list.sel(1))

lemma js_obj_get_own [simp]: "map_of obj k = Some v \<Longrightarrow> js_obj_get obj k = Some (JStr v)"
  by (simp add: js_obj_get_def)

lemma js_obj_get_absent:
  "map_of obj k = None \<Longrightarrow> k \<notin> set object_prototype_keys \<Longrightarrow> js_obj_get obj k = None"
  by (simp add: js_obj_get_def)

text \<open>No name of an \<open>Object.prototype\<close> property begins with a slash, so a path read
  from an object literal only ever hits its own properties.\<close>

lemma object_prototype_keys_no_slash:
  "k \<in> set object_prototype_keys \<Longrightarrow> \<not> starts_with (js ''/'') k"
  by (auto simp: object_prototype_keys_def starts_with_def)

lemma js_obj_get_slash:
  "starts_with (js ''/'') k \<Longrightarrow> js_obj_get obj k = map_option JStr (map_of obj k)"
  using object_prototype_keys_no_slash
  by (auto simp: js_obj_get_def split: option.split)

lemma starts_with_Cons [simp]:
  "starts_with (p # ps) s \<longleftrightarrow> (\<exists>c cs. s = c # cs \<and> c = p \<and> starts_with ps cs)"
  by (cases s) (auto simp: starts_with_def)

lemma starts_with_Nil [simp]: "starts_with [] s"
  by (simp add: starts_with_def)

lemma starts_with_append [simp]: "starts_with p (p @ s)"
  by (simp add: starts_with_def)

lemma js_or_simps [simp]:
  "js_or None b = b"
  "js_or (Some (JStr (c # cs))) b = Some (JStr (c # cs))"
  "js_or (Some (JStr [])) b = b"
  "js_or (Some JObj) b = Some JObj"
  by (simp_all add: js_or_def)

lemma collapse_runs_Nil_iff [simp]: "collapse_runs P r s = [] \<longleftrightarrow> s = []"
  by (cases s) auto

declare collapse_runs.simps [simp del]

lemma collapse_runs_Cons [js_eval]:
  "collapse_runs P r (c # cs) =
     (if P c then r # collapse_runs P r (dropWhile P cs) else c # collapse_runs P r cs)"
  by (simp add: collapse_runs.simps)

lemma find_append:
  "find P (xs @ ys) = (case find P xs of None \<Rightarrow> find P ys | Some x \<Rightarrow> Some x)"
  by (induction xs) auto

end
