(* ===== verification/Dom.thy ===== *)
theory Dom
  imports Prelude
begin

text \<open>
  The part of the DOM the click classifier reads: a document tree of elements (tag
  name, attributes, children) and text nodes, the click target as the path of
  child indices from the document element, \<open>getAttribute\<close>, \<open>textContent\<close>, and
  \<open>Element.closest\<close> as the upward walk of the DOM standard (test the element, then
  its parent element, until the document element has been tested). The walk is
  proved equal to the first match in the list of inclusive ancestors.
\<close>

section \<open>Document trees\<close>

text \<open>Tag names are the lower-case local names of HTML elements.\<close>

datatype node =
  Text jsstr
| Elem jsstr "(jsstr \<times> jsstr) list" "node list"

fun is_element :: "node \<Rightarrow> bool" where
  "is_element (Elem _ _ _) = True"
| "is_element (Text _) = False"

fun tag_of :: "node \<Rightarrow> jsstr option" where
  "tag_of (Elem t _ _) = Some t"
| "tag_of (Text _) = None"

text \<open>\<open>el.getAttribute(name)\<close>: \<open>null\<close> (here \<open>None\<close>) when absent.\<close>

fun get_attribute :: "node \<Rightarrow> jsstr \<Rightarrow> jsstr option" where
  "get_attribute (Elem _ attrs _) a = map_of attrs a"
| "get_attribute (Text _) a = None"

text \<open>\<open>node.textContent\<close>: the data of a text node; for an element, the data of
  all its descendant text nodes in tree order.\<close>

fun text_content :: "node \<Rightarrow> jsstr" where
  "text_content (Text s) = s"
| "text_content (Elem _ _ cs) = concat (map text_content cs)"

fun child_at :: "node \<Rightarrow> nat \<Rightarrow> node option" where
  "child_at (Elem _ _ cs) i = (if i < length cs then Some (cs ! i) else None)"
| "child_at (Text _) i = None"

text \<open>The node a path of child indices leads to, from the document element.\<close>

fun node_at :: "node \<Rightarrow> nat list \<Rightarrow> node option" where
  "node_at n [] = Some n"
| "node_at n (i # is) = (case child_at n i of None \<Rightarrow> None | Some c \<Rightarrow> node_at c is)"

text \<open>The nodes on a valid path, from the document element down to the target.\<close>

fun path_nodes :: "node \<Rightarrow> nat list \<Rightarrow> node list" where
  "path_nodes n [] = [n]"
| "path_nodes n (i # is) = n # (case child_at n i of None \<Rightarrow> [] | Some c \<Rightarrow> path_nodes c is)"

text \<open>A node and all its descendants, in tree order.\<close>

fun all_nodes :: "node \<Rightarrow> node list" where
  "all_nodes (Text s) = [Text s]"
| "all_nodes (Elem t a cs) = Elem t a cs # concat (map all_nodes cs)"

section \<open>closest\<close>

text \<open>
  \<open>el.closest(selector)\<close>: while the current node is an element, return it if it
  matches, else move to its parent element. The parent of a node at a non-empty path
  is the node at the path without its last index; the document element (empty path)
  has no parent element.
\<close>

function closest :: "(node \<Rightarrow> bool) \<Rightarrow> node \<Rightarrow> nat list \<Rightarrow> node option" where
  "closest sel root path =
     (case node_at root path of
        None \<Rightarrow> None
      | Some el \<Rightarrow>
          if is_element el \<and> sel el then Some el
          else if path = [] then None
          else closest sel root (butlast path))"
  by pat_completeness auto
termination
  by (relation "measure (\<lambda>(sel, root, path). length path)") auto

declare closest.simps [simp del]

section \<open>Lemmas\<close>

lemma node_at_append:
  "node_at n (p @ q) = (case node_at n p of None \<Rightarrow> None | Some m \<Rightarrow> node_at m q)"
  by (induction p arbitrary: n) (auto split: option.split)

lemma node_at_snoc_Some:
  assumes "node_at n (p @ [i]) = Some t"
  shows "\<exists>m. node_at n p = Some m \<and> child_at m i = Some t"
  using assms by (auto simp: node_at_append split: option.splits)

lemma path_nodes_snoc:
  assumes "node_at n p = Some m" and "child_at m i = Some t"
  shows "path_nodes n (p @ [i]) = path_nodes n p @ [t]"
  using assms
proof (induction p arbitrary: n)
  case Nil
  then show ?case by simp
next
  case (Cons j p)
  then obtain c where "child_at n j = Some c" and "node_at c p = Some m"
    by (auto split: option.splits)
  with Cons.IH [of c] Cons.prems show ?case by simp
qed

lemma path_nodes_hd: "path_nodes n p = n # tl (path_nodes n p)"
  by (cases p) simp_all

lemma path_nodes_append:
  "node_at n p = Some m \<Longrightarrow> path_nodes n (p @ r) = path_nodes n p @ tl (path_nodes m r)"
proof (induction p arbitrary: n)
  case Nil
  then show ?case by (subst path_nodes_hd) simp
next
  case (Cons i p)
  then obtain c where "child_at n i = Some c" and "node_at c p = Some m"
    by (auto split: option.splits)
  with Cons.IH [of c] show ?case by simp
qed

lemma path_nodes_all_nodes: "x \<in> set (path_nodes n p) \<Longrightarrow> x \<in> set (all_nodes n)"
proof (induction p arbitrary: n)
  case Nil
  then show ?case by (cases n) simp_all
next
  case (Cons i p)
  show ?case
  proof (cases "child_at n i")
    case None
    with Cons.prems show ?thesis by (cases n) simp_all
  next
    case (Some c)
    then obtain t a cs where n: "n = Elem t a cs" and c: "c \<in> set cs"
      by (cases n) (auto split: if_splits)
    with Cons.prems Some Cons.IH [of c] show ?thesis by auto
  qed
qed

lemma last_path_nodes: "node_at n p = Some t \<Longrightarrow> last (path_nodes n p) = t"
proof (induction p arbitrary: n)
  case Nil
  then show ?case by simp
next
  case (Cons i p)
  then obtain c where "child_at n i = Some c" and "node_at c p = Some t"
    by (auto split: option.splits)
  with Cons.IH [of c] show ?case
    by (cases p) (auto split: option.splits)
qed

text \<open>Within a subtree whose root matches and below which nothing on the path
  matches, the nearest match is that root, wherever the subtree sits.\<close>

lemma find_nearest_subtree:
  assumes "node_at root q = Some b" and "is_element b \<and> P b"
    and "\<forall>x \<in> set (tl (path_nodes b p)). \<not> P x"
  shows "find (\<lambda>e. is_element e \<and> P e) (rev (path_nodes root (q @ p))) = Some b"
proof -
  have "path_nodes root (q @ p) = path_nodes root q @ tl (path_nodes b p)"
    by (rule path_nodes_append [OF assms(1)])
  moreover obtain ys where "path_nodes root q = ys @ [b]"
    using last_path_nodes [OF assms(1)] path_nodes_hd [of root q]
    by (metis append_butlast_last_id list.distinct(1))
  moreover have "find (\<lambda>e. is_element e \<and> P e) (rev (tl (path_nodes b p))) = None"
    using assms(3) by (simp add: find_None_iff)
  ultimately show ?thesis using assms(2) by (simp add: find_append)
qed

text \<open>
  The upward walk finds the nearest matching inclusive ancestor: it is \<open>find\<close> over
  the inclusive ancestors, nearest first.
\<close>

lemma closest_find:
  assumes "node_at root path = Some t"
  shows "closest sel root path =
           find (\<lambda>e. is_element e \<and> sel e) (rev (path_nodes root path))"
  using assms
proof (induction path arbitrary: t rule: rev_induct)
  case Nil
  then show ?case by (simp add: closest.simps)
next
  case (snoc i p)
  from node_at_snoc_Some [OF snoc.prems] obtain m
    where m: "node_at root p = Some m" and t: "child_at m i = Some t" by blast
  have rec: "closest sel root (p @ [i]) =
      (if is_element t \<and> sel t then Some t else closest sel root p)"
    using snoc.prems by (simp add: closest.simps [of sel root "p @ [i]"])
  show ?case
    using rec snoc.IH [OF m] path_nodes_snoc [OF m t] by simp
qed

text \<open>\<open>closest\<close> returns the nearest matching inclusive ancestor of the target, and
  nothing exactly when no node on the path matches.\<close>

lemma closest_nearest_ancestor:
  assumes "node_at root path = Some t"
  shows "(closest sel root path = Some e \<longleftrightarrow>
           (\<exists>i < length (path_nodes root path).
              rev (path_nodes root path) ! i = e \<and> is_element e \<and> sel e \<and>
              (\<forall>j < i. \<not> (is_element (rev (path_nodes root path) ! j) \<and> sel (rev (path_nodes root path) ! j)))))
         \<and> (closest sel root path = None \<longleftrightarrow>
              (\<forall>e \<in> set (path_nodes root path). \<not> (is_element e \<and> sel e)))"
  using closest_find [OF assms] by (auto simp: find_Some_iff find_None_iff)


end
