(* ===== verification/Analytics.thy ===== *)
theory Analytics
  imports Prelude
begin

text \<open>
  The event sink. \<open>src/src/lib/analytics.ts\<close> defines \<open>trackEvent(eventName,
  params)\<close>: a no-op outside a browsing context (\<open>typeof window === "undefined"\<close>)
  and when \<open>window.gtag\<close> is not a function; otherwise one call
  \<open>gtag("event", eventName, params)\<close>. The \<open>gtag\<close> function itself is defined by
  the inline script of \<open>src/src/app/layout.tsx\<close> (rendered only when
  \<open>NEXT_PUBLIC_GA_MEASUREMENT_ID\<close> is set): it pushes its argument list onto
  \<open>window.dataLayer\<close>, after two calls \<open>gtag('js', new Date())\<close> and
  \<open>gtag('config', id, { anonymize_ip: true })\<close>. The state of the sink is therefore
  the data layer: the list of argument lists of every \<open>gtag\<close> call, in order.
\<close>

type_synonym params = "(jsstr \<times> jsval option) list"

text \<open>One argument of a \<open>gtag\<close> call: a string, a \<open>Date\<close> (its time value), or a
  parameter object.\<close>

datatype gtag_arg = AStr jsstr | ADate nat | AParams params

record window =
  gtag_defined :: bool
  data_layer :: "gtag_arg list list"

text \<open>\<open>None\<close> is the server (no \<open>window\<close>), \<open>Some w\<close> a browsing context.\<close>

type_synonym global = "window option"

text \<open>\<open>function gtag(){dataLayer.push(arguments);}\<close>\<close>

definition gtag :: "gtag_arg list \<Rightarrow> window \<Rightarrow> window" where
  "gtag args w = w\<lparr>data_layer := data_layer w @ [args]\<rparr>"

definition trackEvent :: "jsstr \<Rightarrow> params \<Rightarrow> global \<Rightarrow> global" where
  "trackEvent eventName ps g =
     (case g of
        None \<Rightarrow> None
      | Some w \<Rightarrow> if gtag_defined w then Some (gtag [AStr (js ''event''), AStr eventName, AParams ps] w)
                 else Some w)"

text \<open>
  The GA4 bootstrap script of the root layout, run once after hydration:
  \<open>window.dataLayer = window.dataLayer || []\<close>, the definition of \<open>gtag\<close>, and the
  two initial calls. It is rendered only when the measurement id is truthy.
\<close>

definition ga4_init :: "jsstr \<Rightarrow> nat \<Rightarrow> window \<Rightarrow> window" where
  "ga4_init gaId now w =
     gtag [AStr (js ''config''), AStr gaId, AParams [(js ''anonymize_ip'', Some (JBool True))]]
       (gtag [AStr (js ''js''), ADate now] (w\<lparr>gtag_defined := True\<rparr>))"

definition layout_analytics :: "jsstr option \<Rightarrow> nat \<Rightarrow> window \<Rightarrow> window" where
  "layout_analytics gaMeasurementId now w =
     (case gaMeasurementId of
        Some gaId \<Rightarrow> if gaId \<noteq> [] then ga4_init gaId now w else w
      | None \<Rightarrow> w)"

text \<open>The event entry \<open>trackEvent\<close> pushes.\<close>

abbreviation event_entry :: "jsstr \<Rightarrow> params \<Rightarrow> gtag_arg list" where
  "event_entry n ps \<equiv> [AStr (js ''event''), AStr n, AParams ps]"

text \<open>What a sequence of \<open>trackEvent\<close> calls does to the data layer.\<close>

definition track_all :: "(jsstr \<times> params) list \<Rightarrow> global \<Rightarrow> global" where
  "track_all evs g = fold (\<lambda>(n, ps). trackEvent n ps) evs g"

definition emitted :: "(jsstr \<times> params) list \<Rightarrow> gtag_arg list list" where
  "emitted evs = map (\<lambda>(n, ps). event_entry n ps) evs"

section \<open>Well-formed data-layer entries\<close>

text \<open>
  The shapes of \<open>gtag\<close> call the site means to make, as GA4 reads them: the
  \<open>js\<close> call with its date, the \<open>config\<close> call of a non-empty measurement id with
  IP anonymisation, and \<open>event\<close> calls of a non-empty name whose parameters are either
  the generic pair (a label that is absent or a non-empty string, an href that is absent
  or a string) or, for \<open>language_switch\<close>, the target language and the label. A label
  that is an object, an empty name or any other argument list is ill-formed.
\<close>

fun label_ok :: "jsval option \<Rightarrow> bool" where
  "label_ok None = True"
| "label_ok (Some (JStr s)) = (s \<noteq> [])"
| "label_ok (Some _) = False"

fun href_ok :: "jsval option \<Rightarrow> bool" where
  "href_ok None = True"
| "href_ok (Some (JStr _)) = True"
| "href_ok (Some _) = False"

fun event_params_ok :: "jsstr \<Rightarrow> params \<Rightarrow> bool" where
  "event_params_ok n [(k1, v1), (k2, v2)] =
     ((k1 = js ''label'' \<and> label_ok v1 \<and> k2 = js ''href'' \<and> href_ok v2)
      \<or> (n = js ''language_switch'' \<and> k1 = js ''to''
         \<and> (v1 = Some (JStr (js ''en'')) \<or> v1 = Some (JStr (js ''pl'')))
         \<and> k2 = js ''label'' \<and> label_ok v2))"
| "event_params_ok n _ = False"

fun wf_entry :: "gtag_arg list \<Rightarrow> bool" where
  "wf_entry [AStr c, ADate d] = (c = js ''js'')"
| "wf_entry [AStr c, AStr i, AParams ps] =
     ((c = js ''config'' \<and> i \<noteq> [] \<and> ps = [(js ''anonymize_ip'', Some (JBool True))])
      \<or> (c = js ''event'' \<and> i \<noteq> [] \<and> event_params_ok i ps))"
| "wf_entry _ = False"

section \<open>Lemmas\<close>

lemma trackEvent_server [simp]: "trackEvent n ps None = None"
  by (simp add: trackEvent_def)

lemma trackEvent_no_gtag [simp]:
  "\<not> gtag_defined w \<Longrightarrow> trackEvent n ps (Some w) = Some w"
  by (simp add: trackEvent_def)

lemma trackEvent_gtag [simp]:
  "gtag_defined w \<Longrightarrow>
     trackEvent n ps (Some w) = Some (w\<lparr>data_layer := data_layer w @ [event_entry n ps]\<rparr>)"
  by (simp add: trackEvent_def gtag_def)

lemma track_all_gtag:
  "gtag_defined w \<Longrightarrow>
     track_all evs (Some w) = Some (w\<lparr>data_layer := data_layer w @ emitted evs\<rparr>)"
  by (induction evs arbitrary: w) (auto simp: track_all_def emitted_def)

lemma track_all_no_gtag:
  "\<not> gtag_defined w \<Longrightarrow> track_all evs (Some w) = Some w"
  by (induction evs) (auto simp: track_all_def)

lemma track_all_server: "track_all evs None = None"
  by (induction evs) (auto simp: track_all_def)

lemma trackEvent_Some:
  "trackEvent n ps (Some w) =
     Some (w\<lparr>data_layer := data_layer w @ (if gtag_defined w then [event_entry n ps] else [])\<rparr>)"
  by (simp add: trackEvent_def gtag_def)

lemma gtag_defined_trackEvent:
  "trackEvent n ps g = Some w' \<Longrightarrow> g = Some w \<Longrightarrow> gtag_defined w' = gtag_defined w"
  by (auto simp: trackEvent_def gtag_def split: if_splits)

lemma layout_analytics_wf:
  "list_all wf_entry (data_layer w) \<Longrightarrow> list_all wf_entry (data_layer (layout_analytics gaId now w))"
  by (simp add: layout_analytics_def ga4_init_def gtag_def split: option.split)

lemma track_all_wf:
  assumes "list_all wf_entry (data_layer w)" and "list_all wf_entry (emitted evs)"
  shows "\<exists>w'. track_all evs (Some w) = Some w' \<and> list_all wf_entry (data_layer w')"
  using assms by (cases "gtag_defined w") (simp_all add: track_all_gtag track_all_no_gtag)

text \<open>
  C26 (functional). The layout's bootstrap decides whether events reach GA. With a
  non-empty measurement id it defines \<open>gtag\<close> and records the \<open>js\<close> and \<open>config\<close>
  calls (IP anonymisation on), keeping whatever the data layer held, and a later
  \<open>trackEvent\<close> appends its event after them. Without one (unset or empty) the
  bootstrap is not rendered: on a page where nothing else defined \<open>gtag\<close>, every
  \<open>trackEvent\<close> is a no-op and the window is unchanged.
\<close>

theorem trackEvent_bootstrap:
  assumes "gaId \<noteq> []" and "\<not> gtag_defined w'"
  shows "trackEvent n ps (Some (layout_analytics (Some gaId) now w)) =
           Some (w\<lparr>gtag_defined := True,
                   data_layer := data_layer w @
                     [[AStr (js ''js''), ADate now],
                      [AStr (js ''config''), AStr gaId, AParams [(js ''anonymize_ip'', Some (JBool True))]],
                      event_entry n ps]\<rparr>)
         \<and> trackEvent n ps (Some (layout_analytics None now w')) = Some w'
         \<and> trackEvent n ps (Some (layout_analytics (Some []) now w')) = Some w'"
  using assms by (simp add: layout_analytics_def ga4_init_def gtag_def)

theorem trackEvent_bootstrap_witness:
  "trackEvent (js ''ui_click'') [] (Some (layout_analytics (Some (js ''G-1'')) 7 \<lparr>gtag_defined = False, data_layer = []\<rparr>)) =
     Some \<lparr>gtag_defined = True,
           data_layer = [[AStr (js ''js''), ADate 7],
                         [AStr (js ''config''), AStr (js ''G-1''), AParams [(js ''anonymize_ip'', Some (JBool True))]],
                         event_entry (js ''ui_click'') []]\<rparr>
   \<and> trackEvent (js ''ui_click'') [] (Some (layout_analytics None 7 \<lparr>gtag_defined = False, data_layer = []\<rparr>)) =
       Some \<lparr>gtag_defined = False, data_layer = []\<rparr>"
  using trackEvent_bootstrap [of "js ''G-1''" "\<lparr>gtag_defined = False, data_layer = []\<rparr>" "js ''ui_click''" "[]" 7
      "\<lparr>gtag_defined = False, data_layer = []\<rparr>"] by simp

end
