(* ===== verification/ClickClassifier.thy ===== *)
theory ClickClassifier
  imports Dom Analytics
begin

text \<open>
  The click classifier of \<open>src/src/app/components/AnalyticsTracker.tsx\<close>: the
  document-level capture listener \<open>handler\<close> (here \<open>onDocumentClick\<close>) and its helpers
  \<open>getLabel\<close>, \<open>getHref\<close>, \<open>normalizeLabel\<close>, \<open>detectLanguageSwitch\<close> and the table
  \<open>LABEL_MAP\<close>. The handler reads the document (\<open>Dom\<close>), the page location and the
  URL parser (\<open>page_env\<close>), and writes only through \<open>trackEvent\<close> (\<open>Analytics\<close>).
  A JavaScript exception thrown by the handler is the \<open>Inl\<close> side of its result.
\<close>

section \<open>Environment\<close>

text \<open>The only exception the handler can raise: calling \<open>toLowerCase\<close> on a value
  that is not a string.\<close>

datatype error = TypeError

text \<open>A parsed URL, as far as the handler reads it.\<close>

record url =
  url_href :: jsstr
  url_origin :: jsstr
  url_pathname :: jsstr
  url_search :: jsstr

text \<open>
  What the handler reads besides the document: \<open>window.location.href\<close>,
  \<open>window.location.origin\<close>, the document base URL (used by the \<open>href\<close> getter of
  an anchor), and the URL parser behind \<open>new URL(input, base)\<close> (\<open>None\<close>: it throws).
\<close>

record page_env =
  loc_href :: jsstr
  loc_origin :: jsstr
  base_url :: jsstr
  parse_url :: "jsstr \<Rightarrow> jsstr \<Rightarrow> url option"

section \<open>The classifier\<close>

definition MAX_LABEL_LENGTH :: nat where
  "MAX_LABEL_LENGTH = 120"

definition LABEL_MAP :: "(jsstr \<times> jsstr) list" where
  "LABEL_MAP =
    [(js ''wydarzenia'', js ''Wydarzenia''),
     (js ''jak dojecha'' @ [0x107], js ''Jak dojecha'' @ [0x107]),
     (js ''bilety i rezerwacje'', js ''Bilety i rezerwacje''),
     (js ''aktualno'' @ [0x15B] @ js ''ci'', js ''Aktualno'' @ [0x15B] @ js ''ci''),
     (js ''galeria'', js ''Galeria''),
     (js ''strona g'' @ [0x142, 0xF3] @ js ''wna'', js ''Strona g'' @ [0x142, 0xF3] @ js ''wna''),
     (js ''o alvernia planet'', js ''O Alvernia Planet''),
     (js ''kontakt'', js ''Kontakt''),
     (js ''wystawa tematyczna'', js ''Wystawa tematyczna''),
     ([0x15B] @ js ''cie'' @ [0x17C] @ js ''ka filmowa'', [0x15A] @ js ''cie'' @ [0x17C] @ js ''ka filmowa''),
     (js ''kino 360'' @ [0xB0], js ''Kino 360'' @ [0xB0]),
     (js ''regulamin'', js ''Regulamin''),
     (js ''polityka prywatno'' @ [0x15B] @ js ''ci'', js ''Polityka prywatno'' @ [0x15B] @ js ''ci''),
     (js ''polityka cookies'', js ''Polityka cookies''),
     (js ''ochrona ma'' @ [0x142] @ js ''oletnich'', js ''Ochrona ma'' @ [0x142] @ js ''oletnich''),
     (js ''events'', js ''Wydarzenia''),
     (js ''getting here'', js ''Jak dojecha'' @ [0x107]),
     (js ''tickets & bookings'', js ''Bilety i rezerwacje''),
     (js ''news'', js ''Aktualno'' @ [0x15B] @ js ''ci''),
     (js ''gallery'', js ''Galeria''),
     (js ''home'', js ''Strona g'' @ [0x142, 0xF3] @ js ''wna''),
     (js ''about alvernia planet'', js ''O Alvernia Planet''),
     (js ''contact'', js ''Kontakt''),
     (js ''themed exhibition'', js ''Wystawa tematyczna''),
     (js ''film path'', [0x15A] @ js ''cie'' @ [0x17C] @ js ''ka filmowa''),
     (js ''360'' @ [0xB0] @ js '' cinema'', js ''Kino 360'' @ [0xB0]),
     (js ''terms & conditions'', js ''Regulamin''),
     (js ''privacy policy'', js ''Polityka prywatno'' @ [0x15B] @ js ''ci''),
     (js ''cookies policy'', js ''Polityka cookies''),
     (js ''minors protection'', js ''Ochrona ma'' @ [0x142] @ js ''oletnich''),
     (js ''book your visit'', js ''Rezerwuj wizyt'' @ [0x119])]"

definition getLabel :: "node \<Rightarrow> jsstr option" where
  "getLabel el =
     (let text = collapse_runs js_ws 0x20 (js_trim (text_content el));
          fallback = (if text \<noteq> [] then Some (take MAX_LABEL_LENGTH text) else None)
      in case map_option js_trim (get_attribute el (js ''data-analytics-label'')) of
           Some dataLabel \<Rightarrow>
             if dataLabel \<noteq> [] then Some (take MAX_LABEL_LENGTH dataLabel) else fallback
         | None \<Rightarrow> fallback)"

text \<open>\<open>el instanceof HTMLAnchorElement\<close>.\<close>

definition is_anchor :: "node \<Rightarrow> bool" where
  "is_anchor el \<longleftrightarrow> tag_of el = Some (js ''a'')"

text \<open>
  The \<open>href\<close> getter of an anchor (HTML, \<open>HTMLHyperlinkElementUtils\<close>): the empty
  string without an \<open>href\<close> attribute; otherwise the attribute parsed against the
  document base URL and serialised, or the attribute itself when it does not parse.
\<close>

definition anchor_href :: "page_env \<Rightarrow> node \<Rightarrow> jsstr" where
  "anchor_href env el =
     (case get_attribute el (js ''href'') of
        None \<Rightarrow> []
      | Some raw \<Rightarrow> (case parse_url env raw (base_url env) of Some u \<Rightarrow> url_href u | None \<Rightarrow> raw))"

definition getHref :: "page_env \<Rightarrow> node \<Rightarrow> jsstr option" where
  "getHref env el =
     (if is_anchor el \<and> anchor_href env el \<noteq> [] then
        (case parse_url env (anchor_href env el) (loc_href env) of
           Some u \<Rightarrow> Some (if url_origin u = loc_origin env then url_pathname u @ url_search u
                           else url_href u)
         | None \<Rightarrow> Some (anchor_href env el))
      else None)"

definition normalizeLabel :: "jsstr option \<Rightarrow> jsval option" where
  "normalizeLabel label =
     (case label of
        None \<Rightarrow> None
      | Some l \<Rightarrow>
          if l = [] then None
          else js_or (js_obj_get LABEL_MAP (js_trim (js_to_lower l))) (Some (JStr l)))"

definition detectLanguageSwitch :: "jsval option \<Rightarrow> error + jsstr option" where
  "detectLanguageSwitch label =
     (if \<not> js_truthy label then Inr None
      else case label of
        Some (JStr l) \<Rightarrow>
          (let key = js_to_lower l in
           if key = js ''en'' \<or> key = js ''english'' then Inr (Some (js ''en''))
           else if key = js ''pl'' \<or> key = js ''polski'' then Inr (Some (js ''pl''))
           else Inr None)
      | _ \<Rightarrow> Inl TypeError)"

text \<open>The selector
  \<open>[data-analytics-label], [data-analytics-event], a, button, [role='button']\<close>.\<close>

definition is_clickable :: "node \<Rightarrow> bool" where
  "is_clickable el \<longleftrightarrow>
     get_attribute el (js ''data-analytics-label'') \<noteq> None
     \<or> get_attribute el (js ''data-analytics-event'') \<noteq> None
     \<or> tag_of el = Some (js ''a'')
     \<or> tag_of el = Some (js ''button'')
     \<or> get_attribute el (js ''role'') = Some (js ''button'')"

text \<open>
  The listener. The target is the node at \<open>path\<close>; a target without \<open>closest\<close>
  (a text node), no clickable ancestor, or the ignore marker end the handler
  silently. Otherwise \<open>detectLanguageSwitch\<close> runs first (it is the only step that
  can throw), then zero or one \<open>language_switch\<close> event and one generic event are
  tracked, in this order.
\<close>

definition onDocumentClick :: "page_env \<Rightarrow> node \<Rightarrow> nat list \<Rightarrow> global \<Rightarrow> error + global" where
  "onDocumentClick env root path g =
     (case node_at root path of
        None \<Rightarrow> Inr g
      | Some target \<Rightarrow>
          if \<not> is_element target then Inr g
          else case closest is_clickable root path of
            None \<Rightarrow> Inr g
          | Some clickable \<Rightarrow>
              if get_attribute clickable (js ''data-analytics-ignore'') = Some (js ''true'') then Inr g
              else
                let eventName =
                      (case get_attribute clickable (js ''data-analytics-event'') of
                         Some n \<Rightarrow> if n \<noteq> [] then n else js ''ui_click''
                       | None \<Rightarrow> js ''ui_click'');
                    rawLabel = getLabel clickable;
                    label = normalizeLabel rawLabel;
                    href = getHref env clickable
                in case detectLanguageSwitch (js_or label (map_option JStr rawLabel)) of
                     Inl e \<Rightarrow> Inl e
                   | Inr langTo \<Rightarrow>
                       let g1 = (case langTo of
                                   None \<Rightarrow> g
                                 | Some l \<Rightarrow> trackEvent (js ''language_switch'')
                                     [(js ''to'', Some (JStr l)),
                                      (js ''label'', js_or label (map_option JStr rawLabel))] g)
                       in Inr (trackEvent eventName
                                [(js ''label'', js_or label (map_option JStr rawLabel)),
                                 (js ''href'', map_option JStr href)] g1))"

section \<open>Specification of a click\<close>

text \<open>
  The contract of the listener in terms of the document, without the upward walk and
  the sink: the nearest clickable inclusive ancestor of the target, the label and the
  event name it yields, and the list of events a click on it must produce.
\<close>

definition nearest_clickable :: "node \<Rightarrow> nat list \<Rightarrow> node option" where
  "nearest_clickable root path =
     find (\<lambda>e. is_element e \<and> is_clickable e) (rev (path_nodes root path))"

definition is_ignored :: "node \<Rightarrow> bool" where
  "is_ignored c \<longleftrightarrow> get_attribute c (js ''data-analytics-ignore'') = Some (js ''true'')"

definition label_param :: "node \<Rightarrow> jsval option" where
  "label_param c = js_or (normalizeLabel (getLabel c)) (map_option JStr (getLabel c))"

definition event_name_of :: "node \<Rightarrow> jsstr" where
  "event_name_of c =
     (case get_attribute c (js ''data-analytics-event'') of
        Some n \<Rightarrow> if n \<noteq> [] then n else js ''ui_click''
      | None \<Rightarrow> js ''ui_click'')"

definition generic_event :: "page_env \<Rightarrow> node \<Rightarrow> jsstr \<times> params" where
  "generic_event env c =
     (event_name_of c, [(js ''label'', label_param c), (js ''href'', map_option JStr (getHref env c))])"

definition language_event :: "jsstr \<Rightarrow> node \<Rightarrow> jsstr \<times> params" where
  "language_event l c = (js ''language_switch'', [(js ''to'', Some (JStr l)), (js ''label'', label_param c)])"

definition click_events :: "page_env \<Rightarrow> node \<Rightarrow> error + (jsstr \<times> params) list" where
  "click_events env c =
     (case detectLanguageSwitch (label_param c) of
        Inl e \<Rightarrow> Inl e
      | Inr None \<Rightarrow> Inr [generic_event env c]
      | Inr (Some l) \<Rightarrow> Inr [language_event l c, generic_event env c])"

section \<open>An example URL parser\<close>

text \<open>
  The theorems hold for any parser. For the concrete examples, a parser of absolute
  \<open>https\<close> URLs and of path-absolute references against an \<open>https\<close> base (no
  fragments, no dot segments), which agrees with the URL standard on those inputs.
\<close>

definition https_parse :: "jsstr \<Rightarrow> url option" where
  "https_parse s =
     (if starts_with (js ''https://'') s then
        let rest = drop 8 s;
            host = takeWhile (\<lambda>c. c \<noteq> 0x2F \<and> c \<noteq> 0x3F) rest;
            tail = dropWhile (\<lambda>c. c \<noteq> 0x2F \<and> c \<noteq> 0x3F) rest;
            path = (case takeWhile (\<lambda>c. c \<noteq> 0x3F) tail of [] \<Rightarrow> js ''/'' | p \<Rightarrow> p);
            search = dropWhile (\<lambda>c. c \<noteq> 0x3F) tail
        in if host = [] then None
           else Some \<lparr>url_href = js ''https://'' @ host @ path @ search,
                      url_origin = js ''https://'' @ host, url_pathname = path, url_search = search\<rparr>
      else None)"

definition example_parse :: "jsstr \<Rightarrow> jsstr \<Rightarrow> url option" where
  "example_parse s base =
     (if starts_with (js ''https://'') s then https_parse s
      else if starts_with (js ''/'') s then
        (case https_parse base of Some b \<Rightarrow> https_parse (url_origin b @ s) | None \<Rightarrow> None)
      else None)"

definition example_env :: page_env where
  "example_env =
     \<lparr>loc_href = js ''https://alverniaplanet.pl/wydarzenia'',
      loc_origin = js ''https://alverniaplanet.pl'',
      base_url = js ''https://alverniaplanet.pl/wydarzenia'',
      parse_url = example_parse\<rparr>"

section \<open>Example documents\<close>

text \<open>Documents for the concrete instances of the theorems below (paths are child
  indices from the \<open>html\<close> element).\<close>

definition doc_plain :: node where
  "doc_plain = Elem (js ''html'') [] [Elem (js ''body'') []
     [Elem (js ''div'') [] [Elem (js ''p'') [] [Text (js ''Hello world'')]]]]"

definition doc_ignored :: node where
  "doc_ignored = Elem (js ''html'') [] [Elem (js ''body'') []
     [Elem (js ''button'') [(js ''data-analytics-label'', js ''X''), (js ''data-analytics-ignore'', js ''true'')]
        [Text (js ''Kup bilet'')]]]"

definition doc_constructor :: node where
  "doc_constructor = Elem (js ''html'') [] [Elem (js ''body'') []
     [Elem (js ''button'') [] [Text (js '' Constructor '')]]]"

definition contact_link :: node where
  "contact_link = Elem (js ''a'') [(js ''href'', js ''https://example.com/foo'')] [Text (js ''Contact'')]"

definition doc_contact :: node where
  "doc_contact = Elem (js ''html'') [] [Elem (js ''body'') [] [Elem (js ''nav'') [] [contact_link]]]"

definition english_link :: node where
  "english_link = Elem (js ''a'') [(js ''href'', js ''/en'')] [Elem (js ''span'') [] [Text (js '' English '')]]"

definition doc_english :: node where
  "doc_english = Elem (js ''html'') [] [Elem (js ''body'') [] [Elem (js ''div'') [] [english_link]]]"

definition events_link :: node where
  "events_link = Elem (js ''a'') [(js ''href'', js ''https://alverniaplanet.pl/wydarzenia?x=1'')]
     [Text (js ''Wydarzenia'')]"

definition long_label_button :: node where
  "long_label_button = Elem (js ''button'') [(js ''data-analytics-label'', replicate 200 0x61)] []"

section \<open>Lemmas\<close>

subsection \<open>The handler against its specification\<close>

lemma error_eq [simp]: "(x::error) = y"
  by (cases x, cases y) simp

lemma closest_is_nearest:
  "node_at root path = Some t \<Longrightarrow> closest is_clickable root path = nearest_clickable root path"
  by (simp add: closest_find nearest_clickable_def)

lemma onDocumentClick_eq:
  assumes "node_at root path = Some t" and "is_element t" and "gtag_defined w"
  shows "onDocumentClick env root path (Some w) =
           (case nearest_clickable root path of
              None \<Rightarrow> Inr (Some w)
            | Some c \<Rightarrow>
                if is_ignored c then Inr (Some w)
                else map_sum id (\<lambda>evs. Some (w\<lparr>data_layer := data_layer w @ emitted evs\<rparr>))
                       (click_events env c))"
  using assms
  by (auto simp: onDocumentClick_def closest_is_nearest [OF assms(1)] is_ignored_def click_events_def
      label_param_def generic_event_def language_event_def event_name_of_def emitted_def Let_def
      split: option.split sum.split)

lemma onDocumentClick_unclassified:
  assumes "node_at root path = Some t"
    and "nearest_clickable root path = None \<or> (\<exists>c. nearest_clickable root path = Some c \<and> is_ignored c)"
  shows "onDocumentClick env root path g = Inr g"
  using assms
  by (auto simp: onDocumentClick_def closest_is_nearest [OF assms(1)] is_ignored_def split: option.split)

lemma onDocumentClick_classified:
  assumes "node_at root path = Some t" and "is_element t"
    and "nearest_clickable root path = Some c" and "\<not> is_ignored c"
  shows "onDocumentClick env root path g = map_sum id (\<lambda>evs. track_all evs g) (click_events env c)"
  using assms
  by (auto simp: onDocumentClick_def closest_is_nearest [OF assms(1)] is_ignored_def click_events_def
      label_param_def generic_event_def language_event_def event_name_of_def track_all_def Let_def
      split: option.split sum.split)

lemma onDocumentClick_no_target:
  "node_at root path = None \<or> (\<exists>t. node_at root path = Some t \<and> \<not> is_element t) \<Longrightarrow>
     onDocumentClick env root path g = Inr g"
  by (auto simp: onDocumentClick_def)

text \<open>Every click either leaves the sink as it is or is classified on the nearest
  clickable ancestor, a clickable node of the document.\<close>

lemma onDocumentClick_cases:
  obtains (unchanged) "onDocumentClick env root path g = Inr g"
  | (classified) t c where "node_at root path = Some t" "is_element t" "nearest_clickable root path = Some c"
      "\<not> is_ignored c" "onDocumentClick env root path g = map_sum id (\<lambda>evs. track_all evs g) (click_events env c)"
proof (cases "\<exists>t c. node_at root path = Some t \<and> is_element t \<and> nearest_clickable root path = Some c \<and> \<not> is_ignored c")
  case True
  then obtain t c where "node_at root path = Some t" "is_element t" "nearest_clickable root path = Some c" "\<not> is_ignored c"
    by blast
  moreover from onDocumentClick_classified [OF this]
  have "onDocumentClick env root path g = map_sum id (\<lambda>evs. track_all evs g) (click_events env c)" .
  ultimately show ?thesis by (rule classified)
next
  case False
  then have "onDocumentClick env root path g = Inr g"
    by (cases "node_at root path") (auto intro: onDocumentClick_no_target onDocumentClick_unclassified)
  then show ?thesis by (rule unchanged)
qed

lemma nearest_clickable_SomeD:
  assumes "nearest_clickable root path = Some c"
  shows "c \<in> set (all_nodes root) \<and> is_element c \<and> is_clickable c"
proof -
  from assms obtain i where i: "i < length (rev (path_nodes root path))"
    and c: "c = rev (path_nodes root path) ! i" and p: "is_element c \<and> is_clickable c"
    unfolding nearest_clickable_def find_Some_iff by auto
  from i c have "c \<in> set (path_nodes root path)" by (metis nth_mem set_rev)
  with p show ?thesis by (blast intro: path_nodes_all_nodes)
qed

text \<open>A click only appends to the data layer and never removes the sink or \<open>gtag\<close>.\<close>

lemma onDocumentClick_extends:
  assumes "onDocumentClick env root path (Some w) = Inr g'"
  shows "\<exists>w' new. g' = Some w' \<and> data_layer w' = data_layer w @ new \<and> gtag_defined w' = gtag_defined w"
  using assms
  by (auto simp: onDocumentClick_def trackEvent_Some Let_def split: option.splits if_splits sum.splits)

lemma onDocumentClick_no_gtag:
  assumes "\<not> gtag_defined w"
  shows "onDocumentClick env root path (Some w) = Inr (Some w)
         \<or> onDocumentClick env root path (Some w) = Inl TypeError"
  using assms
  by (auto simp: onDocumentClick_def trackEvent_Some Let_def split: option.splits if_splits sum.splits)

subsection \<open>Labels\<close>

lemma LABEL_MAP_values_nonempty: "map_of LABEL_MAP k = Some v \<Longrightarrow> v \<noteq> []"
  by (drule map_of_SomeD) (auto simp: LABEL_MAP_def)

lemma normalizeLabel_Some:
  assumes "l \<noteq> []"
  shows "normalizeLabel (Some l) =
    (case map_of LABEL_MAP (js_trim (js_to_lower l)) of
       Some v \<Rightarrow> Some (JStr v)
     | None \<Rightarrow> if js_trim (js_to_lower l) \<in> set object_prototype_keys then Some JObj else Some (JStr l))"
  using assms LABEL_MAP_values_nonempty
  by (auto simp: normalizeLabel_def js_obj_get_def js_or_def neq_Nil_conv split: option.split)

lemma normalizeLabel_None [simp]: "normalizeLabel None = None"
  by (simp add: normalizeLabel_def)

lemma detectLanguageSwitch_JStr:
  "detectLanguageSwitch (Some (JStr s)) =
     Inr (if s \<noteq> [] \<and> (js_to_lower s = js ''en'' \<or> js_to_lower s = js ''english'') then Some (js ''en'')
          else if s \<noteq> [] \<and> (js_to_lower s = js ''pl'' \<or> js_to_lower s = js ''polski'') then Some (js ''pl'')
          else None)"
  by (auto simp: detectLanguageSwitch_def Let_def)

lemma detectLanguageSwitch_JObj: "detectLanguageSwitch (Some JObj) = Inl TypeError"
  by (simp add: detectLanguageSwitch_def)

lemma detectLanguageSwitch_None: "detectLanguageSwitch None = Inr None"
  by (simp add: detectLanguageSwitch_def)

lemma getLabel_Some: "getLabel el = Some l \<Longrightarrow> l \<noteq> [] \<and> length l \<le> MAX_LABEL_LENGTH"
  by (auto simp: getLabel_def Let_def MAX_LABEL_LENGTH_def split: option.splits if_splits)

lemma label_param_proto:
  assumes "getLabel c = Some s" and "map_of LABEL_MAP (js_trim (js_to_lower s)) = None"
    and "js_trim (js_to_lower s) \<in> set object_prototype_keys"
  shows "label_param c = Some JObj"
  using assms getLabel_Some [OF assms(1)] by (simp add: label_param_def normalizeLabel_Some)

text \<open>The label a click reports: absent, an object (a prototype key), or a non-empty string.\<close>

lemma label_param_cases:
  obtains (absent) "getLabel c = None" "label_param c = None"
  | (proto) s where "getLabel c = Some s" "map_of LABEL_MAP (js_trim (js_to_lower s)) = None"
      "js_trim (js_to_lower s) \<in> set object_prototype_keys" "label_param c = Some JObj"
  | (str) s where "s \<noteq> []" "label_param c = Some (JStr s)"
proof (cases "getLabel c")
  case None
  then show ?thesis by (intro absent) (simp_all add: label_param_def)
next
  case (Some l)
  then have l: "l \<noteq> []" using getLabel_Some by blast
  show ?thesis
  proof (cases "map_of LABEL_MAP (js_trim (js_to_lower l))")
    case (Some v)
    then show ?thesis using l \<open>getLabel c = Some l\<close> LABEL_MAP_values_nonempty [OF Some]
      by (intro str [of v]) (auto simp: label_param_def normalizeLabel_Some neq_Nil_conv)
  next
    case None
    then show ?thesis using l \<open>getLabel c = Some l\<close>
      by (cases "js_trim (js_to_lower l) \<in> set object_prototype_keys")
         (auto simp: label_param_def normalizeLabel_Some neq_Nil_conv intro: proto str)
  qed
qed

lemma click_events_Inl:
  "click_events env c = Inl TypeError \<longleftrightarrow>
     (\<exists>s. getLabel c = Some s \<and> map_of LABEL_MAP (js_trim (js_to_lower s)) = None
          \<and> js_trim (js_to_lower s) \<in> set object_prototype_keys)"
  by (cases c rule: label_param_cases)
     (auto simp: click_events_def detectLanguageSwitch_JObj detectLanguageSwitch_JStr
        detectLanguageSwitch_None dest: label_param_proto split: if_splits)

lemma click_events_Inr:
  assumes "click_events env c = Inr evs"
  shows "evs = [generic_event env c]
         \<or> (\<exists>l \<in> {js ''en'', js ''pl''}. evs = [language_event l c, generic_event env c])"
  using assms
  by (auto simp: click_events_def detectLanguageSwitch_def Let_def
      split: sum.splits option.splits if_splits jsval.splits)

lemma collapse_runs_keep_hd:
  "\<not> P c \<Longrightarrow> collapse_runs P r (c # cs) = c # collapse_runs P r cs"
  by (simp add: collapse_runs_Cons)

lemma getLabel_hd:
  assumes "getLabel el = Some l"
  shows "\<not> js_ws (hd l)"
proof -
  have take_hd: "hd (take MAX_LABEL_LENGTH (c # cs)) = c" for c :: code_unit and cs
    by (simp add: MAX_LABEL_LENGTH_def)
  have from_text: "\<not> js_ws (hd l)"
    if l_eq: "l = take MAX_LABEL_LENGTH (collapse_runs js_ws 0x20 (js_trim (text_content el)))"
      and ne: "collapse_runs js_ws 0x20 (js_trim (text_content el)) \<noteq> []"
  proof -
    obtain c cs where tr: "js_trim (text_content el) = c # cs"
      using ne by (cases "js_trim (text_content el)") auto
    then have "\<not> js_ws c" by (rule js_trim_ws_free_ends)
    with l_eq tr show ?thesis by (simp add: collapse_runs_keep_hd take_hd)
  qed
  show ?thesis
  proof (cases "map_option js_trim (get_attribute el (js ''data-analytics-label''))")
    case None
    with assms from_text show ?thesis by (auto simp: getLabel_def Let_def split: if_splits)
  next
    case (Some d)
    show ?thesis
    proof (cases d)
      case Nil
      with Some assms from_text show ?thesis by (auto simp: getLabel_def Let_def split: if_splits)
    next
      case (Cons c cs)
      from Some obtain raw where "js_trim raw = d" by auto
      with Cons have "\<not> js_ws c" using js_trim_ws_free_ends by blast
      with Some Cons assms show ?thesis by (auto simp: getLabel_def Let_def take_hd)
    qed
  qed
qed

lemma map_of_LABEL_MAP_Nil: "map_of LABEL_MAP [] = None"
  by (simp add: LABEL_MAP_def)

lemma list_all_split: "list_all P xs \<longleftrightarrow> list_all P (take n xs) \<and> list_all P (drop n xs)"
  by (metis append_take_drop_id list_all_append)

text \<open>Every canonical label normalises to itself, checked entry by entry (in four parts,
  which the prover checks in parallel).\<close>

lemma LABEL_MAP_fixed_1:
  "list_all (\<lambda>(k, v). normalizeLabel (Some v) = Some (JStr v)) (take 8 LABEL_MAP)"
  by (simp add: LABEL_MAP_def normalizeLabel_def js_obj_get_def js_trim_def js_eval js_or_def)

lemma LABEL_MAP_fixed_2:
  "list_all (\<lambda>(k, v). normalizeLabel (Some v) = Some (JStr v)) (take 8 (drop 8 LABEL_MAP))"
  by (simp add: LABEL_MAP_def normalizeLabel_def js_obj_get_def js_trim_def js_eval js_or_def)

lemma LABEL_MAP_fixed_3:
  "list_all (\<lambda>(k, v). normalizeLabel (Some v) = Some (JStr v)) (take 8 (drop 16 LABEL_MAP))"
  by (simp add: LABEL_MAP_def normalizeLabel_def js_obj_get_def js_trim_def js_eval js_or_def)

lemma LABEL_MAP_fixed_4:
  "list_all (\<lambda>(k, v). normalizeLabel (Some v) = Some (JStr v)) (drop 24 LABEL_MAP)"
  by (simp add: LABEL_MAP_def normalizeLabel_def js_obj_get_def js_trim_def js_eval js_or_def)

lemma LABEL_MAP_fixed:
  assumes "map_of LABEL_MAP k = Some v"
  shows "normalizeLabel (Some v) = Some (JStr v)"
proof -
  have "list_all (\<lambda>(k, v). normalizeLabel (Some v) = Some (JStr v)) LABEL_MAP"
    using LABEL_MAP_fixed_1 LABEL_MAP_fixed_2 LABEL_MAP_fixed_3 LABEL_MAP_fixed_4
    by (simp add: list_all_split [of _ LABEL_MAP 8] list_all_split [of _ "drop 8 LABEL_MAP" 8]
        list_all_split [of _ "drop 16 LABEL_MAP" 8])
  moreover have "(k, v) \<in> set LABEL_MAP" using assms by (rule map_of_SomeD)
  ultimately show ?thesis by (auto simp: list_all_iff)
qed

lemma dropWhile_replicate:
  "\<not> P c \<Longrightarrow> dropWhile P (replicate n c) = replicate n c"
  by (induction n) simp_all

lemma js_trim_replicate:
  "\<not> js_ws c \<Longrightarrow> js_trim (replicate n c) = replicate n c"
  by (simp add: js_trim_def dropWhile_replicate)

subsection \<open>Facts about the example documents\<close>

lemma english_link_facts:
  "node_at doc_english [0, 0, 0, 0] = Some (Elem (js ''span'') [] [Text (js '' English '')])"
  "nearest_clickable doc_english [0, 0, 0, 0] = Some english_link"
  "\<not> is_ignored english_link"
  "getLabel english_link = Some (js ''English'')"
  "label_param english_link = Some (JStr (js ''English''))"
  "getHref example_env english_link = Some (js ''/en'')"
  "event_name_of english_link = js ''ui_click''"
proof -
  show "node_at doc_english [0, 0, 0, 0] = Some (Elem (js ''span'') [] [Text (js '' English '')])"
    by (simp add: doc_english_def english_link_def)
  show "nearest_clickable doc_english [0, 0, 0, 0] = Some english_link"
    by (simp add: nearest_clickable_def doc_english_def english_link_def is_clickable_def)
  show "\<not> is_ignored english_link"
    by (simp add: is_ignored_def english_link_def)
  show lbl: "getLabel english_link = Some (js ''English'')"
    by (simp add: getLabel_def english_link_def MAX_LABEL_LENGTH_def js_trim_def js_eval Let_def)
  have "map_of LABEL_MAP (js ''english'') = None" by (simp add: LABEL_MAP_def)
  moreover have "js_trim (js_to_lower (js ''English'')) = js ''english''"
    by (simp add: js_trim_def js_eval)
  moreover have "js ''english'' \<notin> set object_prototype_keys" by (simp add: js_eval)
  ultimately show "label_param english_link = Some (JStr (js ''English''))"
    by (simp add: label_param_def lbl normalizeLabel_Some)
  show "getHref example_env english_link = Some (js ''/en'')"
    by (simp add: getHref_def anchor_href_def example_env_def example_parse_def https_parse_def
        is_anchor_def english_link_def Let_def)
  show "event_name_of english_link = js ''ui_click''"
    by (simp add: event_name_of_def english_link_def)
qed

lemma constructor_button_facts:
  "node_at doc_constructor [0, 0] = Some (Elem (js ''button'') [] [Text (js '' Constructor '')])"
  "nearest_clickable doc_constructor [0, 0] = Some (Elem (js ''button'') [] [Text (js '' Constructor '')])"
  "\<not> is_ignored (Elem (js ''button'') [] [Text (js '' Constructor '')])"
  "getLabel (Elem (js ''button'') [] [Text (js '' Constructor '')]) = Some (js ''Constructor'')"
  "map_of LABEL_MAP (js_trim (js_to_lower (js ''Constructor''))) = None"
  "js_trim (js_to_lower (js ''Constructor'')) \<in> set object_prototype_keys"
proof -
  have low: "js_trim (js_to_lower (js ''Constructor'')) = js ''constructor''"
    by (simp add: js_trim_def js_eval)
  show "node_at doc_constructor [0, 0] = Some (Elem (js ''button'') [] [Text (js '' Constructor '')])"
    by (simp add: doc_constructor_def)
  show "nearest_clickable doc_constructor [0, 0] = Some (Elem (js ''button'') [] [Text (js '' Constructor '')])"
    by (simp add: nearest_clickable_def doc_constructor_def is_clickable_def)
  show "\<not> is_ignored (Elem (js ''button'') [] [Text (js '' Constructor '')])"
    by (simp add: is_ignored_def)
  show "getLabel (Elem (js ''button'') [] [Text (js '' Constructor '')]) = Some (js ''Constructor'')"
    by (simp add: getLabel_def MAX_LABEL_LENGTH_def js_trim_def js_eval Let_def)
  show "map_of LABEL_MAP (js_trim (js_to_lower (js ''Constructor''))) = None"
    unfolding low by (simp add: LABEL_MAP_def)
  show "js_trim (js_to_lower (js ''Constructor'')) \<in> set object_prototype_keys"
    unfolding low by (simp add: js_eval)
qed

lemma english_click_events:
  "click_events example_env english_link =
     Inr [language_event (js ''en'') english_link, generic_event example_env english_link]"
  using english_link_facts(5) by (simp add: click_events_def detectLanguageSwitch_JStr js_eval)

lemma english_click_any:
  "gtag_defined w \<Longrightarrow>
   onDocumentClick example_env doc_english [0, 0, 0, 0] (Some w) =
     Inr (Some (w\<lparr>data_layer := data_layer w @ emitted [language_event (js ''en'') english_link,
                                                      generic_event example_env english_link]\<rparr>))"
  using onDocumentClick_eq [OF english_link_facts(1), of w example_env] english_link_facts(2,3)
    english_click_events by simp

lemma english_click_run:
  "onDocumentClick example_env doc_english [0, 0, 0, 0] (Some \<lparr>gtag_defined = True, data_layer = []\<rparr>) =
     Inr (Some \<lparr>gtag_defined = True, data_layer = emitted [language_event (js ''en'') english_link,
                                                         generic_event example_env english_link]\<rparr>)"
  using english_click_any [of "\<lparr>gtag_defined = True, data_layer = []\<rparr>"] by simp

lemma contact_link_facts:
  "node_at doc_contact [0, 0, 0] = Some contact_link"
  "nearest_clickable doc_contact [0, 0, 0] = Some contact_link"
  "\<not> is_ignored contact_link"
  "get_attribute contact_link (js ''data-analytics-event'') = None"
  "label_param contact_link = Some (JStr (js ''Kontakt''))"
  "detectLanguageSwitch (label_param contact_link) = Inr None"
  "getHref example_env contact_link = Some (js ''https://example.com/foo'')"
proof -
  show "node_at doc_contact [0, 0, 0] = Some contact_link"
    by (simp add: doc_contact_def)
  show "nearest_clickable doc_contact [0, 0, 0] = Some contact_link"
    by (simp add: nearest_clickable_def doc_contact_def contact_link_def is_clickable_def)
  show "\<not> is_ignored contact_link"
    by (simp add: is_ignored_def contact_link_def)
  show "get_attribute contact_link (js ''data-analytics-event'') = None"
    by (simp add: contact_link_def)
  have lbl: "getLabel contact_link = Some (js ''Contact'')"
    by (simp add: getLabel_def contact_link_def MAX_LABEL_LENGTH_def js_trim_def js_eval Let_def)
  have low: "js_trim (js_to_lower (js ''Contact'')) = js ''contact''"
    by (simp add: js_trim_def js_eval)
  have "map_of LABEL_MAP (js ''contact'') = Some (js ''Kontakt'')"
    by (simp add: LABEL_MAP_def)
  with lbl low show lp: "label_param contact_link = Some (JStr (js ''Kontakt''))"
    by (simp add: label_param_def normalizeLabel_Some)
  show "detectLanguageSwitch (label_param contact_link) = Inr None"
    by (simp add: lp detectLanguageSwitch_JStr js_eval)
  show "getHref example_env contact_link = Some (js ''https://example.com/foo'')"
    by (simp add: getHref_def anchor_href_def example_env_def example_parse_def https_parse_def
        is_anchor_def contact_link_def Let_def)
qed

subsection \<open>The handler\<close>

text \<open>
  C1 (refinement). For a click on an element, with the analytics sink present, the
  listener does what the specification of a click says: nothing when the target has
  no clickable inclusive ancestor or when the nearest one carries
  \<open>data-analytics-ignore="true"\<close>; otherwise it either throws or appends to the data
  layer exactly the events \<open>click_events\<close> lists for that ancestor, in that order.
\<close>

theorem onDocumentClick_refines:
  assumes "node_at root path = Some t" and "is_element t" and "gtag_defined w"
  shows "onDocumentClick env root path (Some w) =
           (case nearest_clickable root path of
              None \<Rightarrow> Inr (Some w)
            | Some c \<Rightarrow>
                if is_ignored c then Inr (Some w)
                else map_sum id (\<lambda>evs. Some (w\<lparr>data_layer := data_layer w @ emitted evs\<rparr>))
                       (click_events env c))"
  using assms by (rule onDocumentClick_eq)

theorem onDocumentClick_refines_witness:
  "node_at doc_english [0, 0, 0, 0] = Some (Elem (js ''span'') [] [Text (js '' English '')])
   \<and> is_element (Elem (js ''span'') [] [Text (js '' English '')])
   \<and> gtag_defined \<lparr>gtag_defined = True, data_layer = []\<rparr>
   \<and> onDocumentClick example_env doc_english [0, 0, 0, 0] (Some \<lparr>gtag_defined = True, data_layer = []\<rparr>) =
       map_sum id (\<lambda>evs. Some (\<lparr>gtag_defined = True, data_layer = []\<rparr>\<lparr>data_layer := [] @ emitted evs\<rparr>))
         (click_events example_env english_link)"
proof (intro conjI)
  show "node_at doc_english [0, 0, 0, 0] = Some (Elem (js ''span'') [] [Text (js '' English '')])"
    by (rule english_link_facts(1))
  show "is_element (Elem (js ''span'') [] [Text (js '' English '')])" by simp
  show "gtag_defined \<lparr>gtag_defined = True, data_layer = []\<rparr>" by simp
  show "onDocumentClick example_env doc_english [0, 0, 0, 0] (Some \<lparr>gtag_defined = True, data_layer = []\<rparr>) =
       map_sum id (\<lambda>evs. Some (\<lparr>gtag_defined = True, data_layer = []\<rparr>\<lparr>data_layer := [] @ emitted evs\<rparr>))
         (click_events example_env english_link)"
    using onDocumentClick_refines [OF english_link_facts(1)] english_link_facts(2,3) by simp
qed

text \<open>
  C2 (safety, ordering). A click appends to the data layer nothing, the generic event of
  the nearest clickable ancestor, or a \<open>language_switch\<close> event to \<open>en\<close> or \<open>pl\<close>
  followed by that generic event: never more than two events, the generic one always
  last.
\<close>

theorem click_emission_order:
  assumes "onDocumentClick env root path (Some w) = Inr (Some w')" and "gtag_defined w"
  shows "data_layer w' = data_layer w
         \<or> (\<exists>c. nearest_clickable root path = Some c \<and> \<not> is_ignored c \<and>
              (data_layer w' = data_layer w @ emitted [generic_event env c]
               \<or> (\<exists>l \<in> {js ''en'', js ''pl''}.
                    data_layer w' = data_layer w @ emitted [language_event l c, generic_event env c])))"
proof (cases "node_at root path")
  case None
  with assms(1) show ?thesis by (simp add: onDocumentClick_def)
next
  case (Some t)
  show ?thesis
  proof (cases "is_element t")
    case False
    with Some assms(1) show ?thesis by (simp add: onDocumentClick_def)
  next
    case True
    note eq = onDocumentClick_eq [OF Some True assms(2), of env]
    show ?thesis
    proof (cases "nearest_clickable root path")
      case None
      with assms(1) eq show ?thesis by simp
    next
      case (Some c)
      show ?thesis
      proof (cases "is_ignored c")
        case True
        with Some assms(1) eq show ?thesis by simp
      next
        case False
        with Some assms(1) eq obtain evs where evs: "click_events env c = Inr evs"
          and w': "w' = w\<lparr>data_layer := data_layer w @ emitted evs\<rparr>"
          by (cases "click_events env c") auto
        from click_events_Inr [OF evs] Some False w' show ?thesis by auto
      qed
    qed
  qed
qed

theorem click_emission_order_witness:
  "onDocumentClick example_env doc_english [0, 0, 0, 0] (Some \<lparr>gtag_defined = True, data_layer = []\<rparr>) =
     Inr (Some \<lparr>gtag_defined = True, data_layer = emitted [language_event (js ''en'') english_link,
                                                         generic_event example_env english_link]\<rparr>)
   \<and> nearest_clickable doc_english [0, 0, 0, 0] = Some english_link
   \<and> \<not> is_ignored english_link"
proof -
  have "gtag_defined \<lparr>gtag_defined = True, data_layer = []\<rparr>" by simp
  note click_emission_order [OF english_click_run this]
  with english_click_run english_link_facts(2,3) show ?thesis by auto
qed

text \<open>
  C3 (safety). A click whose target has no clickable inclusive ancestor (no anchor,
  button, \<open>role="button"\<close> element or element with an analytics attribute between it
  and the document element) changes nothing.
\<close>

theorem click_without_clickable_ancestor:
  assumes "node_at root path = Some t"
    and "\<forall>e \<in> set (path_nodes root path). \<not> is_clickable e"
  shows "onDocumentClick env root path g = Inr g"
proof -
  from assms(2) have "nearest_clickable root path = None"
    by (simp add: nearest_clickable_def find_None_iff)
  with assms(1) show ?thesis by (intro onDocumentClick_unclassified) simp_all
qed

theorem click_without_clickable_ancestor_witness:
  "node_at doc_plain [0, 0, 0] = Some (Elem (js ''p'') [] [Text (js ''Hello world'')])
   \<and> onDocumentClick example_env doc_plain [0, 0, 0] (Some \<lparr>gtag_defined = True, data_layer = []\<rparr>) =
       Inr (Some \<lparr>gtag_defined = True, data_layer = []\<rparr>)"
proof -
  have h1: "node_at doc_plain [0, 0, 0] = Some (Elem (js ''p'') [] [Text (js ''Hello world'')])"
    by (simp add: doc_plain_def)
  have h2: "\<forall>e \<in> set (path_nodes doc_plain [0, 0, 0]). \<not> is_clickable e"
    by (simp add: doc_plain_def is_clickable_def)
  show ?thesis using h1 click_without_clickable_ancestor [OF h1 h2] by blast
qed

text \<open>
  C4 (safety). Suppression wins: when the nearest clickable ancestor carries
  \<open>data-analytics-ignore="true"\<close>, the click changes nothing, whatever its label.
\<close>

theorem click_suppressed:
  assumes "node_at root path = Some t" and "nearest_clickable root path = Some c"
    and "get_attribute c (js ''data-analytics-ignore'') = Some (js ''true'')"
  shows "onDocumentClick env root path g = Inr g"
  using assms by (intro onDocumentClick_unclassified) (auto simp: is_ignored_def)

theorem click_suppressed_witness:
  "node_at doc_ignored [0, 0] = Some (Elem (js ''button'')
      [(js ''data-analytics-label'', js ''X''), (js ''data-analytics-ignore'', js ''true'')] [Text (js ''Kup bilet'')])
   \<and> nearest_clickable doc_ignored [0, 0] = Some (Elem (js ''button'')
      [(js ''data-analytics-label'', js ''X''), (js ''data-analytics-ignore'', js ''true'')] [Text (js ''Kup bilet'')])
   \<and> get_attribute (Elem (js ''button'')
      [(js ''data-analytics-label'', js ''X''), (js ''data-analytics-ignore'', js ''true'')] [Text (js ''Kup bilet'')])
      (js ''data-analytics-ignore'') = Some (js ''true'')
   \<and> onDocumentClick example_env doc_ignored [0, 0] (Some \<lparr>gtag_defined = True, data_layer = []\<rparr>) =
       Inr (Some \<lparr>gtag_defined = True, data_layer = []\<rparr>)"
proof -
  let ?b = "Elem (js ''button'') [(js ''data-analytics-label'', js ''X''), (js ''data-analytics-ignore'', js ''true'')]
              [Text (js ''Kup bilet'')]"
  have h1: "node_at doc_ignored [0, 0] = Some ?b" by (simp add: doc_ignored_def)
  have h2: "nearest_clickable doc_ignored [0, 0] = Some ?b"
    by (simp add: nearest_clickable_def doc_ignored_def is_clickable_def)
  have h3: "get_attribute ?b (js ''data-analytics-ignore'') = Some (js ''true'')" by simp
  show ?thesis using h1 h2 h3 click_suppressed [OF h1 h2 h3] by blast
qed

text \<open>A language word (\<open>en\<close>, \<open>english\<close>, \<open>pl\<close>, \<open>polski\<close> in any case) is no key of
  \<open>LABEL_MAP\<close> and no \<open>Object.prototype\<close> member, so normalisation passes it through.\<close>

lemma language_word_normalizeLabel:
  assumes "js_to_lower lbl \<in> {js ''en'', js ''english'', js ''pl'', js ''polski''}"
  shows "lbl \<noteq> [] \<and> normalizeLabel (Some lbl) = Some (JStr lbl)"
proof -
  have ne: "lbl \<noteq> []" using assms by (auto simp: js_to_lower_def)
  have "js_trim (js_to_lower lbl) = js_to_lower lbl \<and> map_of LABEL_MAP (js_to_lower lbl) = None
        \<and> js_to_lower lbl \<notin> set object_prototype_keys"
    using assms by (auto simp: js_trim_def js_eval LABEL_MAP_def)
  with ne show ?thesis by (simp add: normalizeLabel_Some)
qed

text \<open>
  C5 (functional). The language-switch scenario of the specification, in every
  document: a click whose nearest clickable ancestor is not ignored and whose label is
  a language name (\<open>en\<close>, \<open>English\<close>, \<open>pl\<close>, \<open>Polski\<close>, in any case) emits exactly two
  events, in order: \<open>language_switch\<close> with the target language and the label as it
  was read (normalisation keeps it), then the element's event with the same label and
  its href. The words are tested without trimming the label.
\<close>

theorem click_language_switch_scenario:
  assumes "node_at root path = Some t" and "is_element t"
    and "nearest_clickable root path = Some c" and "\<not> is_ignored c"
    and "getLabel c = Some lbl" and "js_to_lower lbl \<in> {js ''en'', js ''english'', js ''pl'', js ''polski''}"
    and "gtag_defined w"
  shows "onDocumentClick env root path (Some w) =
           Inr (Some (w\<lparr>data_layer := data_layer w @
             [event_entry (js ''language_switch'')
                [(js ''to'', Some (JStr (if js_to_lower lbl \<in> {js ''en'', js ''english''} then js ''en'' else js ''pl''))),
                 (js ''label'', Some (JStr lbl))],
              event_entry (event_name_of c)
                [(js ''label'', Some (JStr lbl)), (js ''href'', map_option JStr (getHref env c))]]\<rparr>))"
proof -
  from language_word_normalizeLabel [OF assms(6)]
  have ne: "lbl \<noteq> []" and lp: "label_param c = Some (JStr lbl)"
    using assms(5) by (simp_all add: label_param_def js_or_def)
  show ?thesis
    using onDocumentClick_eq [OF assms(1,2,7)] assms(3,4,6) lp ne
    by (auto simp: click_events_def detectLanguageSwitch_JStr language_event_def generic_event_def emitted_def)
qed

theorem click_language_switch_scenario_witness:
  "onDocumentClick example_env doc_english [0, 0, 0, 0] (Some \<lparr>gtag_defined = True, data_layer = []\<rparr>) =
     Inr (Some \<lparr>gtag_defined = True, data_layer =
       [[AStr (js ''event''), AStr (js ''language_switch''),
         AParams [(js ''to'', Some (JStr (js ''en''))), (js ''label'', Some (JStr (js ''English'')))]],
        [AStr (js ''event''), AStr (js ''ui_click''),
         AParams [(js ''label'', Some (JStr (js ''English''))), (js ''href'', Some (JStr (js ''/en'')))]]]\<rparr>)"
proof -
  have "js_to_lower (js ''English'') = js ''english''" by (simp add: js_eval)
  with click_language_switch_scenario
      [where env = example_env and w = "\<lparr>gtag_defined = True, data_layer = []\<rparr>",
       OF english_link_facts(1) _ english_link_facts(2,3,4)]
  show ?thesis using english_link_facts(6,7) by simp
qed

text \<open>
  C6 (functional). Default event name: a click whose nearest clickable ancestor has no
  \<open>data-analytics-event\<close> attribute and whose label is not a language name appends
  exactly one event, named \<open>ui_click\<close>, carrying the label and the href.
\<close>

theorem click_default_event_name:
  assumes "node_at root path = Some t" and "is_element t"
    and "nearest_clickable root path = Some c" and "\<not> is_ignored c"
    and "get_attribute c (js ''data-analytics-event'') = None"
    and "detectLanguageSwitch (label_param c) = Inr None" and "gtag_defined w"
  shows "onDocumentClick env root path (Some w) =
           Inr (Some (w\<lparr>data_layer := data_layer w @
             [[AStr (js ''event''), AStr (js ''ui_click''),
               AParams [(js ''label'', label_param c), (js ''href'', map_option JStr (getHref env c))]]]\<rparr>))"
  using onDocumentClick_eq [OF assms(1,2,7)] assms(3-6)
  by (simp add: click_events_def generic_event_def event_name_of_def emitted_def)

theorem click_default_event_name_witness:
  "onDocumentClick example_env doc_contact [0, 0, 0] (Some \<lparr>gtag_defined = True, data_layer = []\<rparr>) =
     Inr (Some \<lparr>gtag_defined = True, data_layer =
       [[AStr (js ''event''), AStr (js ''ui_click''),
         AParams [(js ''label'', Some (JStr (js ''Kontakt''))),
                  (js ''href'', Some (JStr (js ''https://example.com/foo'')))]]]\<rparr>)"
proof -
  have "is_element contact_link" by (simp add: contact_link_def)
  moreover have "gtag_defined \<lparr>gtag_defined = True, data_layer = []\<rparr>" by simp
  ultimately show ?thesis
    using click_default_event_name [OF contact_link_facts(1) _ contact_link_facts(2,3,4,6)]
      contact_link_facts(5,7) by simp
qed

text \<open>
  C7 (error). A label whose lower-cased, trimmed form names a property of
  \<open>Object.prototype\<close> (\<open>constructor\<close>, \<open>__proto__\<close>) makes \<open>LABEL_MAP[key]\<close> a
  function; \<open>detectLanguageSwitch\<close> then calls \<open>toLowerCase\<close> on it and the listener
  throws a \<open>TypeError\<close> before tracking anything.
\<close>

theorem click_prototype_label_error:
  assumes "node_at root path = Some t" and "is_element t"
    and "nearest_clickable root path = Some c" and "\<not> is_ignored c"
    and "getLabel c = Some s" and "map_of LABEL_MAP (js_trim (js_to_lower s)) = None"
    and "js_trim (js_to_lower s) \<in> set object_prototype_keys"
  shows "onDocumentClick env root path g = Inl TypeError"
proof -
  from assms(5-7) have "click_events env c = Inl TypeError"
    by (auto simp: click_events_Inl)
  with onDocumentClick_classified [OF assms(1-4)] show ?thesis by simp
qed

theorem click_prototype_label_error_witness:
  "onDocumentClick example_env doc_constructor [0, 0] (Some \<lparr>gtag_defined = True, data_layer = []\<rparr>) =
     Inl TypeError"
  by (rule click_prototype_label_error [OF constructor_button_facts(1) _ constructor_button_facts(2-6)]) simp

text \<open>
  C8 (error). Conversely, that is the only way the listener throws: an exception means
  the nearest clickable ancestor is not ignored and its label names an
  \<open>Object.prototype\<close> property that \<open>LABEL_MAP\<close> does not define.
\<close>

theorem click_error_only_prototype:
  assumes "onDocumentClick env root path g = Inl e"
  shows "\<exists>c s. nearest_clickable root path = Some c \<and> \<not> is_ignored c \<and> getLabel c = Some s
           \<and> map_of LABEL_MAP (js_trim (js_to_lower s)) = None
           \<and> js_trim (js_to_lower s) \<in> set object_prototype_keys"
proof -
  obtain t where t: "node_at root path = Some t" and el: "is_element t"
    using assms onDocumentClick_no_target by (cases "node_at root path") fastforce+
  obtain c where c: "nearest_clickable root path = Some c" and ni: "\<not> is_ignored c"
    using assms onDocumentClick_unclassified [OF t] by (cases "nearest_clickable root path") fastforce+
  from assms onDocumentClick_classified [OF t el c ni] have "click_events env c = Inl TypeError"
    by (cases "click_events env c") auto
  with c ni show ?thesis by (auto simp: click_events_Inl)
qed

theorem click_error_only_prototype_witness:
  "onDocumentClick example_env doc_constructor [0, 0] None = Inl TypeError
   \<and> (\<exists>c s. nearest_clickable doc_constructor [0, 0] = Some c \<and> \<not> is_ignored c \<and> getLabel c = Some s
           \<and> map_of LABEL_MAP (js_trim (js_to_lower s)) = None
           \<and> js_trim (js_to_lower s) \<in> set object_prototype_keys)"
proof -
  have ce: "click_events example_env (Elem (js ''button'') [] [Text (js '' Constructor '')]) = Inl TypeError"
    by (subst click_events_Inl) (use constructor_button_facts(4-6) in blast)
  have err: "onDocumentClick example_env doc_constructor [0, 0] None = Inl TypeError"
    using onDocumentClick_classified [OF constructor_button_facts(1) _ constructor_button_facts(2,3)] ce
    by simp
  show ?thesis using err click_error_only_prototype [OF err] by blast
qed

subsection \<open>Labels, language detection and links\<close>

text \<open>
  C10 (bounds). A label is never empty, never longer than \<open>MAX_LABEL_LENGTH\<close> (120)
  code units, and never starts with white space (it is trimmed before truncation);
  an explicit \<open>data-analytics-label\<close> that is not blank is the label, trimmed and then
  cut to its first 120 code units (a label of 200 units is reported with exactly 120).
\<close>

theorem getLabel_length_bound:
  assumes "getLabel el = Some l"
  shows "0 < length l \<and> length l \<le> MAX_LABEL_LENGTH \<and> \<not> js_ws (hd l)
         \<and> (\<forall>raw. get_attribute el (js ''data-analytics-label'') = Some raw \<and> js_trim raw \<noteq> []
                 \<longrightarrow> l = take MAX_LABEL_LENGTH (js_trim raw))"
  using getLabel_Some [OF assms] getLabel_hd [OF assms] assms by (auto simp: getLabel_def Let_def)

theorem getLabel_length_bound_witness:
  "getLabel long_label_button = Some (replicate 120 0x61)
   \<and> length (replicate 120 (0x61 :: code_unit)) \<le> MAX_LABEL_LENGTH
   \<and> replicate 120 0x61 = take MAX_LABEL_LENGTH (js_trim (replicate 200 (0x61 :: code_unit)))"
proof -
  have ws: "\<not> js_ws 0x61" by (simp add: js_ws_def)
  have g: "getLabel long_label_button = Some (replicate 120 0x61)"
    by (simp add: long_label_button_def getLabel_def js_trim_replicate [OF ws] MAX_LABEL_LENGTH_def)
  have h: "get_attribute long_label_button (js ''data-analytics-label'') = Some (replicate 200 0x61)"
    by (simp add: long_label_button_def)
  from getLabel_length_bound [OF g] h show ?thesis
    by (simp add: g js_trim_replicate [OF ws])
qed

text \<open>Normalisation is idempotent: a label that normalises to a string normalises to
  that same string again (the canonical forms are fixed points; the map is never chained).\<close>

lemma normalizeLabel_idem:
  assumes "normalizeLabel (Some s) = Some (JStr t)"
  shows "normalizeLabel (Some t) = Some (JStr t)"
proof -
  have s: "s \<noteq> []" using assms by (auto simp: normalizeLabel_def)
  show ?thesis
  proof (cases "map_of LABEL_MAP (js_trim (js_to_lower s))")
    case None
    with assms s have "t = s" by (simp add: normalizeLabel_Some split: if_splits)
    with assms show ?thesis by simp
  next
    case (Some v)
    with assms s have "t = v" by (simp add: normalizeLabel_Some)
    with LABEL_MAP_fixed [OF Some] show ?thesis by simp
  qed
qed

text \<open>
  C13 (functional). Normalisation of a non-empty label that is not an
  \<open>Object.prototype\<close> member: lookup is case- and white-space-insensitive, so a label
  whose lower-cased, trimmed form is a key of \<open>LABEL_MAP\<close> normalises to that key's
  canonical value (\<open>" EVENTS "\<close>, \<open>"Events"\<close> and \<open>"events"\<close> all give
  \<open>"Wydarzenia"\<close>), and any other label passes through unchanged (the prototype
  case is C7). The result is a fixed point: normalising it again gives it back, so
  the map is never chained.
\<close>

theorem normalizeLabel_lookup:
  assumes "s \<noteq> []"
    and "map_of LABEL_MAP (js_trim (js_to_lower s)) \<noteq> None \<or> js_trim (js_to_lower s) \<notin> set object_prototype_keys"
  shows "normalizeLabel (Some s) =
           Some (JStr (case map_of LABEL_MAP (js_trim (js_to_lower s)) of Some v \<Rightarrow> v | None \<Rightarrow> s))
         \<and> normalizeLabel (Some (case map_of LABEL_MAP (js_trim (js_to_lower s)) of Some v \<Rightarrow> v | None \<Rightarrow> s)) =
           Some (JStr (case map_of LABEL_MAP (js_trim (js_to_lower s)) of Some v \<Rightarrow> v | None \<Rightarrow> s))"
proof -
  have n: "normalizeLabel (Some s) =
           Some (JStr (case map_of LABEL_MAP (js_trim (js_to_lower s)) of Some v \<Rightarrow> v | None \<Rightarrow> s))"
    using assms by (auto simp: normalizeLabel_Some split: option.split)
  with normalizeLabel_idem [OF n] show ?thesis by blast
qed

theorem normalizeLabel_lookup_witness:
  "normalizeLabel (Some (js ''Events'')) = Some (JStr (js ''Wydarzenia''))
   \<and> normalizeLabel (Some (js ''Wydarzenia'')) = Some (JStr (js ''Wydarzenia''))
   \<and> normalizeLabel (Some (js ''Bilety online'')) = Some (JStr (js ''Bilety online''))"
proof -
  have e: "js_trim (js_to_lower (js ''Events'')) = js ''events''" by (simp add: js_trim_def js_eval)
  have m: "map_of LABEL_MAP (js ''events'') = Some (js ''Wydarzenia'')" by (simp add: LABEL_MAP_def)
  have b: "js_trim (js_to_lower (js ''Bilety online'')) = js ''bilety online''"
    by (simp add: js_trim_def js_eval)
  have n: "map_of LABEL_MAP (js ''bilety online'') = None" by (simp add: LABEL_MAP_def)
  have p: "js ''bilety online'' \<notin> set object_prototype_keys" by (simp add: js_eval)
  have "normalizeLabel (Some (js ''Events'')) = Some (JStr (js ''Wydarzenia''))
        \<and> normalizeLabel (Some (js ''Wydarzenia'')) = Some (JStr (js ''Wydarzenia''))"
    using normalizeLabel_lookup [of "js ''Events''", unfolded e m] by simp
  moreover have "normalizeLabel (Some (js ''Bilety online'')) = Some (JStr (js ''Bilety online''))"
    using normalizeLabel_lookup [of "js ''Bilety online''", unfolded b n] p by simp
  ultimately show ?thesis by blast
qed

text \<open>
  C15 (functional). Language detection on a string label: it reports \<open>en\<close> exactly for
  labels that lower-case to \<open>en\<close> or \<open>english\<close>, \<open>pl\<close> exactly for \<open>pl\<close> or
  \<open>polski\<close>, and never throws.
\<close>

theorem detectLanguageSwitch_spec:
  "(detectLanguageSwitch (Some (JStr s)) = Inr (Some l) \<longleftrightarrow>
      (l = js ''en'' \<and> js_to_lower s \<in> {js ''en'', js ''english''})
      \<or> (l = js ''pl'' \<and> js_to_lower s \<in> {js ''pl'', js ''polski''}))
   \<and> (\<exists>r. detectLanguageSwitch (Some (JStr s)) = Inr r)"
  by (auto simp: detectLanguageSwitch_JStr js_eval)

theorem detectLanguageSwitch_spec_witness:
  "detectLanguageSwitch (Some (JStr (js ''ENGLISH''))) = Inr (Some (js ''en''))
   \<and> js_to_lower (js ''ENGLISH'') \<in> {js ''en'', js ''english''}"
proof -
  have "js_to_lower (js ''ENGLISH'') \<in> {js ''en'', js ''english''}" by (simp add: js_eval)
  then show ?thesis using detectLanguageSwitch_spec [of "js ''ENGLISH''" "js ''en''"] by blast
qed

text \<open>
  C16 (functional). Same-origin links are reported by path and query only: for an
  anchor whose resolved URL has the page's origin, the href is pathname plus search
  (so \<open>https://alverniaplanet.pl/wydarzenia?x=1\<close> is reported as \<open>/wydarzenia?x=1\<close>).
\<close>

theorem getHref_same_origin:
  assumes "is_anchor el" and "anchor_href env el \<noteq> []"
    and "parse_url env (anchor_href env el) (loc_href env) = Some u"
    and "url_origin u = loc_origin env"
  shows "getHref env el = Some (url_pathname u @ url_search u)"
  using assms by (simp add: getHref_def)

theorem getHref_same_origin_witness:
  "getHref example_env events_link = Some (js ''/wydarzenia?x=1'')"
proof -
  have a: "is_anchor events_link" by (simp add: is_anchor_def events_link_def)
  have h: "anchor_href example_env events_link = js ''https://alverniaplanet.pl/wydarzenia?x=1''"
    by (simp add: anchor_href_def example_env_def example_parse_def https_parse_def events_link_def Let_def)
  have p: "parse_url example_env (anchor_href example_env events_link) (loc_href example_env) =
      Some \<lparr>url_href = js ''https://alverniaplanet.pl/wydarzenia?x=1'', url_origin = js ''https://alverniaplanet.pl'',
            url_pathname = js ''/wydarzenia'', url_search = js ''?x=1''\<rparr>"
    unfolding h by (simp add: example_env_def example_parse_def https_parse_def Let_def)
  have o: "url_origin \<lparr>url_href = js ''https://alverniaplanet.pl/wydarzenia?x=1'', url_origin = js ''https://alverniaplanet.pl'',
            url_pathname = js ''/wydarzenia'', url_search = js ''?x=1''\<rparr> = loc_origin example_env"
    by (simp add: example_env_def)
  have ne: "anchor_href example_env events_link \<noteq> []" unfolding h by simp
  show ?thesis using getHref_same_origin [OF a ne p o] by simp
qed

end
