(* ===== verification/TrackerLifecycle.thy ===== *)
theory TrackerLifecycle
  imports ClickClassifier
begin

text \<open>
  The life of the tracker in the page, from \<open>AnalyticsTracker\<close> in
  \<open>src/src/app/components/AnalyticsTracker.tsx\<close>: its effect (run once per mount, as
  the dependency list is empty) creates a fresh \<open>handler\<close> closure and registers it
  with \<open>document.addEventListener("click", handler, {capture: true})\<close>; its cleanup
  removes that closure. A click is dispatched to every registered capture listener
  on \<open>document\<close> in registration order; an exception thrown by a listener is
  reported and the dispatch goes on. The GA bootstrap script of the layout may run at
  any time (\<open>afterInteractive\<close>). React mounts a mounted component never and unmounts
  only a mounted one (in development, StrictMode mounts, unmounts and mounts again).
  The page is a step relation over these four kinds of steps.
\<close>

section \<open>State and steps\<close>

text \<open>A handler closure is named by the number of the effect run that created it.\<close>

record page =
  listeners :: "nat list"
  next_handler :: nat
  tracker :: "nat option"
  sink :: global
  reported :: "error list"

text \<open>\<open>addEventListener\<close> ignores a listener already registered with the same
  callback and capture flag; \<open>removeEventListener\<close> removes the matching one.\<close>

definition add_listener :: "nat \<Rightarrow> nat list \<Rightarrow> nat list" where
  "add_listener h ls = (if h \<in> set ls then ls else ls @ [h])"

definition remove_listener :: "nat \<Rightarrow> nat list \<Rightarrow> nat list" where
  "remove_listener h ls = filter (\<lambda>x. x \<noteq> h) ls"

text \<open>The effect: a new closure, registered, remembered for the cleanup.\<close>

definition tracker_mount :: "page \<Rightarrow> page" where
  "tracker_mount s =
     (let handler = next_handler s
      in s\<lparr>listeners := add_listener handler (listeners s), tracker := Some handler,
           next_handler := Suc handler\<rparr>)"

text \<open>The cleanup the effect returned.\<close>

definition tracker_unmount :: "page \<Rightarrow> page" where
  "tracker_unmount s =
     (case tracker s of
        None \<Rightarrow> s
      | Some handler \<Rightarrow> s\<lparr>listeners := remove_listener handler (listeners s), tracker := None\<rparr>)"

text \<open>Dispatch of one click to the registered listeners, threading the sink and
  collecting the reported exceptions.\<close>

fun dispatch :: "page_env \<Rightarrow> node \<Rightarrow> nat list \<Rightarrow> nat list \<Rightarrow> global \<times> error list \<Rightarrow> global \<times> error list" where
  "dispatch env root path [] st = st"
| "dispatch env root path (h # hs) (g, errs) =
     dispatch env root path hs
       (case onDocumentClick env root path g of Inl e \<Rightarrow> (g, errs @ [e]) | Inr g' \<Rightarrow> (g', errs))"

definition document_click :: "page_env \<Rightarrow> node \<Rightarrow> nat list \<Rightarrow> page \<Rightarrow> page" where
  "document_click env root path s =
     (case dispatch env root path (listeners s) (sink s, reported s) of
        (g, errs) \<Rightarrow> s\<lparr>sink := g, reported := errs\<rparr>)"

definition ga_load :: "jsstr option \<Rightarrow> nat \<Rightarrow> page \<Rightarrow> page" where
  "ga_load gaId now s = s\<lparr>sink := map_option (layout_analytics gaId now) (sink s)\<rparr>"

definition init_page :: page where
  "init_page = \<lparr>listeners = [], next_handler = 0, tracker = None,
                sink = Some \<lparr>gtag_defined = False, data_layer = []\<rparr>, reported = []\<rparr>"

inductive lc_step :: "page \<Rightarrow> page \<Rightarrow> bool" where
  mount: "tracker s = None \<Longrightarrow> lc_step s (tracker_mount s)"
| unmount: "tracker s \<noteq> None \<Longrightarrow> lc_step s (tracker_unmount s)"
| click: "lc_step s (document_click env root path s)"
| ga: "lc_step s (ga_load gaId now s)"

inductive reachable :: "page \<Rightarrow> bool" where
  init: "reachable init_page"
| step: "reachable s \<Longrightarrow> lc_step s t \<Longrightarrow> reachable t"

text \<open>The invariant: a tracker listener is registered exactly while the tracker is
  mounted, and it is the closure of the current mount; the page is a browsing context.\<close>

definition lc_inv :: "page \<Rightarrow> bool" where
  "lc_inv s \<longleftrightarrow>
     listeners s = (case tracker s of None \<Rightarrow> [] | Some h \<Rightarrow> [h]) \<and> sink s \<noteq> None"

section \<open>Lemmas\<close>

lemma dispatch_Nil [simp]: "dispatch env root path [] st = st"
  by simp

lemma dispatch_single:
  "dispatch env root path [h] (g, errs) =
     (case onDocumentClick env root path g of Inl e \<Rightarrow> (g, errs @ [e]) | Inr g' \<Rightarrow> (g', errs))"
  by (simp split: sum.split)

lemma lc_inv_init: "lc_inv init_page"
  by (simp add: lc_inv_def init_page_def)

lemma onDocumentClick_Some:
  "onDocumentClick env root path (Some w) = Inr g' \<Longrightarrow> g' \<noteq> None"
  using onDocumentClick_extends by blast

lemma lc_step_inv: "lc_step s t \<Longrightarrow> lc_inv s \<Longrightarrow> lc_inv t"
proof (induction rule: lc_step.induct)
  case (mount s)
  then show ?case by (simp add: lc_inv_def tracker_mount_def add_listener_def Let_def)
next
  case (unmount s)
  then show ?case by (auto simp: lc_inv_def tracker_unmount_def remove_listener_def)
next
  case (click s env root path)
  then show ?case
    by (auto simp: lc_inv_def document_click_def dispatch_single dest: onDocumentClick_Some
        split: option.splits sum.splits)
next
  case (ga s gaId now)
  then show ?case by (auto simp: lc_inv_def ga_load_def)
qed

lemma reachable_lc_inv: "reachable s \<Longrightarrow> lc_inv s"
  by (induction rule: reachable.induct) (auto intro: lc_inv_init lc_step_inv)

lemma dispatch_no_gtag:
  assumes "\<not> gtag_defined w"
  shows "fst (dispatch env root path hs (Some w, errs)) = Some w"
proof (induction hs arbitrary: errs)
  case Nil
  then show ?case by simp
next
  case (Cons h hs)
  from onDocumentClick_no_gtag [OF assms, of env root path] Cons.IH show ?case by auto
qed

lemma dispatch_unclassified:
  "\<forall>g. onDocumentClick env root path g = Inr g \<Longrightarrow> dispatch env root path hs (g, errs) = (g, errs)"
  by (induction hs) simp_all

lemma document_click_unclassified:
  "\<forall>g. onDocumentClick env root path g = Inr g \<Longrightarrow> document_click env root path st = st"
  by (simp add: document_click_def dispatch_unclassified)

lemma dispatch_extends:
  assumes "dispatch env root path hs (Some w, errs) = (g, errs')"
  shows "\<exists>w' new. g = Some w' \<and> data_layer w' = data_layer w @ new"
  using assms
proof (induction hs arbitrary: w errs)
  case Nil
  then show ?case by auto
next
  case (Cons h hs)
  show ?case
  proof (cases "onDocumentClick env root path (Some w)")
    case (Inl e)
    with Cons show ?thesis by simp
  next
    case (Inr g1)
    then obtain w1 new1 where g1: "g1 = Some w1" and dl1: "data_layer w1 = data_layer w @ new1"
      using onDocumentClick_extends by blast
    with Cons.prems Inr have "dispatch env root path hs (Some w1, errs) = (g, errs')" by simp
    from Cons.IH [OF this] dl1 show ?thesis by auto
  qed
qed

lemma layout_analytics_extends:
  "\<exists>new. data_layer (layout_analytics gaId now w) = data_layer w @ new"
  by (auto simp: layout_analytics_def ga4_init_def gtag_def split: option.split)

lemma tracker_mount_unmount_sink [simp]:
  "sink (tracker_mount s) = sink s" "sink (tracker_unmount s) = sink s"
  by (simp_all add: tracker_mount_def tracker_unmount_def Let_def split: option.split)

text \<open>The StrictMode start of development builds: the effect runs, is cleaned up,
  and runs again, with the GA bootstrap in between.\<close>

lemma strict_mode_reachable:
  "reachable (tracker_mount (tracker_unmount (tracker_mount (ga_load (Some (js ''G-TEST'')) 0 init_page))))"
proof -
  have r1: "reachable (ga_load (Some (js ''G-TEST'')) 0 init_page)"
    by (rule reachable.step [OF reachable.init lc_step.ga])
  have r2: "reachable (tracker_mount (ga_load (Some (js ''G-TEST'')) 0 init_page))"
    by (rule reachable.step [OF r1 lc_step.mount]) (simp add: ga_load_def init_page_def)
  have r3: "reachable (tracker_unmount (tracker_mount (ga_load (Some (js ''G-TEST'')) 0 init_page)))"
    by (rule reachable.step [OF r2 lc_step.unmount]) (simp add: tracker_mount_def Let_def)
  show ?thesis
    by (rule reachable.step [OF r3 lc_step.mount]) (simp add: tracker_unmount_def tracker_mount_def Let_def)
qed

lemma strict_mode_state:
  "tracker_mount (tracker_unmount (tracker_mount (ga_load (Some (js ''G-TEST'')) 0 init_page))) =
     \<lparr>listeners = [1], next_handler = 2, tracker = Some 1,
      sink = Some (layout_analytics (Some (js ''G-TEST'')) 0 \<lparr>gtag_defined = False, data_layer = []\<rparr>),
      reported = []\<rparr>"
  by (simp add: tracker_mount_def tracker_unmount_def ga_load_def init_page_def add_listener_def
      remove_listener_def Let_def)

subsection \<open>Well-formed entries\<close>

lemma event_name_of_nonempty: "event_name_of c \<noteq> []"
  by (simp add: event_name_of_def split: option.split)

lemma click_events_label_ok: "click_events env c = Inr evs \<Longrightarrow> label_ok (label_param c)"
  by (cases c rule: label_param_cases) (simp_all add: click_events_def detectLanguageSwitch_JObj)

lemma href_ok_map_JStr [simp]: "href_ok (map_option JStr h)"
  by (cases h) simp_all

lemma click_events_wf:
  assumes "click_events env c = Inr evs"
  shows "list_all wf_entry (emitted evs)"
  using click_events_Inr [OF assms] click_events_label_ok [OF assms] event_name_of_nonempty [of c]
  by (auto simp: emitted_def generic_event_def language_event_def)

lemma onDocumentClick_wf:
  assumes "onDocumentClick env root path (Some w) = Inr g'" and "list_all wf_entry (data_layer w)"
  shows "\<exists>w'. g' = Some w' \<and> list_all wf_entry (data_layer w')"
proof (cases rule: onDocumentClick_cases [of env root path "Some w"])
  case unchanged
  with assms(1) have "g' = Some w" by simp
  with assms(2) show ?thesis by blast
next
  case (classified t c)
  with assms(1) obtain evs where "click_events env c = Inr evs" "g' = track_all evs (Some w)"
    by (cases "click_events env c") auto
  with track_all_wf [OF assms(2) click_events_wf] show ?thesis by simp
qed

lemma dispatch_wf:
  assumes "dispatch env root path hs (Some w, errs) = (g, errs')" and "list_all wf_entry (data_layer w)"
  shows "\<exists>w'. g = Some w' \<and> list_all wf_entry (data_layer w')"
  using assms
proof (induction hs arbitrary: w errs)
  case Nil
  then show ?case by auto
next
  case (Cons h hs)
  show ?case
  proof (cases "onDocumentClick env root path (Some w)")
    case (Inl e)
    with Cons show ?thesis by simp
  next
    case (Inr g1)
    with onDocumentClick_wf [OF Inr Cons.prems(2)] obtain w1 where
      "g1 = Some w1" "list_all wf_entry (data_layer w1)" by blast
    with Cons Inr show ?thesis by simp
  qed
qed

lemma lc_step_wf:
  assumes "lc_step s t" and "sink s = Some w" and "list_all wf_entry (data_layer w)"
  shows "\<exists>w'. sink t = Some w' \<and> list_all wf_entry (data_layer w')"
  using assms(1)
proof cases
  case (click env root path)
  obtain g errs where d: "dispatch env root path (listeners s) (Some w, reported s) = (g, errs)"
    by (cases "dispatch env root path (listeners s) (Some w, reported s)")
  from dispatch_wf [OF d assms(3)] click assms(2) d show ?thesis
    by (auto simp: document_click_def)
next
  case (ga gaId now)
  with assms(2,3) layout_analytics_wf show ?thesis by (auto simp: ga_load_def)
qed (use assms(2,3) in auto)

text \<open>
  C17 (invariant). In every reachable state of the page, the document holds exactly one
  tracker listener while the tracker is mounted, the closure of that mount, and none
  while it is unmounted: the effect's cleanup always removes what its setup added, also
  across the StrictMode remount.
\<close>

theorem reachable_single_listener:
  assumes "reachable s"
  shows "listeners s = (case tracker s of None \<Rightarrow> [] | Some h \<Rightarrow> [h])"
  using reachable_lc_inv [OF assms] by (simp add: lc_inv_def)

theorem reachable_single_listener_witness:
  "listeners (tracker_mount (tracker_unmount (tracker_mount (ga_load (Some (js ''G-TEST'')) 0 init_page)))) = [1]"
  using reachable_single_listener [OF strict_mode_reachable, unfolded strict_mode_state]
  unfolding strict_mode_state by simp

text \<open>
  C18 (safety). A click is classified exactly once while the tracker is mounted and not
  at all while it is unmounted: the dispatch runs the listener once on the current
  sink, keeping its result or reporting its exception. No click is ever tracked twice.
\<close>

theorem click_classified_once:
  assumes "reachable s"
  shows "document_click env root path s =
           (case tracker s of
              None \<Rightarrow> s
            | Some h \<Rightarrow>
                (case onDocumentClick env root path (sink s) of
                   Inl e \<Rightarrow> s\<lparr>reported := reported s @ [e]\<rparr>
                 | Inr g \<Rightarrow> s\<lparr>sink := g\<rparr>))"
  using reachable_lc_inv [OF assms]
  by (auto simp: lc_inv_def document_click_def split: option.splits sum.splits)

theorem click_classified_once_witness:
  "sink (document_click example_env doc_english [0, 0, 0, 0]
     (tracker_mount (tracker_unmount (tracker_mount (ga_load (Some (js ''G-TEST'')) 0 init_page))))) =
   Some \<lparr>gtag_defined = True, data_layer =
     data_layer (layout_analytics (Some (js ''G-TEST'')) 0 \<lparr>gtag_defined = False, data_layer = []\<rparr>)
     @ emitted [language_event (js ''en'') english_link, generic_event example_env english_link]\<rparr>"
proof -
  have g: "gtag_defined (layout_analytics (Some (js ''G-TEST'')) 0 \<lparr>gtag_defined = False, data_layer = []\<rparr>)"
    by (simp add: layout_analytics_def ga4_init_def gtag_def)
  note once = click_classified_once [OF strict_mode_reachable, of example_env doc_english "[0, 0, 0, 0]",
      unfolded strict_mode_state]
  show ?thesis
    unfolding strict_mode_state using once english_click_any [OF g]
    by (simp add: layout_analytics_def ga4_init_def gtag_def)
qed

text \<open>
  C19 (safety, ordering). Clicks that happen before the GA bootstrap has defined
  \<open>gtag\<close> are lost: they leave the sink unchanged (\<open>trackEvent\<close> degrades to a
  no-op instead of failing).
\<close>

theorem clicks_before_bootstrap_dropped:
  assumes "sink s = Some w" and "\<not> gtag_defined w"
  shows "sink (document_click env root path s) = sink s"
  using dispatch_no_gtag [OF assms(2), of env root path "listeners s" "reported s"] assms(1)
  by (cases "dispatch env root path (listeners s) (Some w, reported s)") (simp add: document_click_def)

theorem clicks_before_bootstrap_dropped_witness:
  "sink (document_click example_env doc_english [0, 0, 0, 0] (tracker_mount init_page)) =
     Some \<lparr>gtag_defined = False, data_layer = []\<rparr>"
proof -
  have "sink (tracker_mount init_page) = Some \<lparr>gtag_defined = False, data_layer = []\<rparr>"
    by (simp add: init_page_def)
  moreover have "\<not> gtag_defined \<lparr>gtag_defined = False, data_layer = []\<rparr>" by simp
  ultimately show ?thesis using clicks_before_bootstrap_dropped by metis
qed

text \<open>
  C20 (invariant). The data layer is append-only: every step of the page keeps the sink
  a browsing context and only appends to the data layer, so no analytics entry is ever
  lost or reordered once recorded.
\<close>

theorem data_layer_append_only:
  assumes "reachable s" and "lc_step s t"
  shows "\<exists>w w' new. sink s = Some w \<and> sink t = Some w' \<and> data_layer w' = data_layer w @ new"
proof -
  from reachable_lc_inv [OF assms(1)] obtain w where w: "sink s = Some w"
    by (auto simp: lc_inv_def)
  from assms(2) show ?thesis
  proof cases
    case (click env root path)
    obtain g errs where d: "dispatch env root path (listeners s) (Some w, reported s) = (g, errs)"
      by (cases "dispatch env root path (listeners s) (Some w, reported s)")
    from dispatch_extends [OF d] click w d show ?thesis
      by (auto simp: document_click_def)
  next
    case (ga gaId now)
    with w layout_analytics_extends show ?thesis by (auto simp: ga_load_def)
  qed (use w in auto)
qed

theorem data_layer_append_only_witness:
  "sink (ga_load (Some (js ''G-TEST'')) 0 init_page) =
     Some (layout_analytics (Some (js ''G-TEST'')) 0 \<lparr>gtag_defined = False, data_layer = []\<rparr>)"
proof -
  from data_layer_append_only [OF reachable.init lc_step.ga [of init_page "Some (js ''G-TEST'')" 0]]
  have "\<exists>w w' new. sink init_page = Some w \<and> sink (ga_load (Some (js ''G-TEST'')) 0 init_page) = Some w'
          \<and> data_layer w' = data_layer w @ new" .
  then show ?thesis by (simp add: ga_load_def init_page_def)
qed

text \<open>
  C27 (type). Every entry of the data layer, in every reachable state of the page, is
  a well-formed \<open>gtag\<close> call: the bootstrap's \<open>js\<close> and \<open>config\<close> calls, or an
  event with a non-empty name whose label is absent or a non-empty string and whose
  href is absent or a string (or the \<open>language_switch\<close> pair). In particular a
  prototype member never reaches GA as a label: the click that would report it throws.
\<close>

theorem data_layer_well_formed:
  assumes "reachable s"
  shows "\<exists>w. sink s = Some w \<and> list_all wf_entry (data_layer w)"
  using assms
proof (induction rule: reachable.induct)
  case init
  then show ?case by (simp add: init_page_def)
next
  case (step s t)
  then show ?case using lc_step_wf by blast
qed

theorem data_layer_well_formed_witness:
  "list_all wf_entry (data_layer (the (sink (document_click example_env doc_english [0, 0, 0, 0]
     (tracker_mount (tracker_unmount (tracker_mount (ga_load (Some (js ''G-TEST'')) 0 init_page))))))))"
proof -
  have "reachable (document_click example_env doc_english [0, 0, 0, 0]
     (tracker_mount (tracker_unmount (tracker_mount (ga_load (Some (js ''G-TEST'')) 0 init_page)))))"
    by (rule reachable.step [OF strict_mode_reachable lc_step.click])
  from data_layer_well_formed [OF this] show ?thesis by auto
qed

end
