(* ===== verification/LangSwitcher.thy ===== *)
theory LangSwitcher
  imports ClickClassifier
begin

text \<open>
  The PL/EN switch of \<open>src/src/app/components/LangSwitcher.tsx\<close>: the option list
  \<open>OPTIONS\<close>, the active option, the two path translations \<open>mapToEn\<close> and \<open>mapToPl\<close>
  (each with its table of known pages, read as an object literal, so a key that names
  an \<open>Object.prototype\<close> property reads a function: the results are JavaScript
  values), \<open>switchLocale\<close> (set the locale, push the translated path), and the
  rendered buttons, whose content is a flag \<open>svg\<close> without text and whose language is
  given only by \<open>aria-label\<close>.
\<close>

section \<open>Options\<close>

datatype lang = PL | EN

fun lang_code :: "lang \<Rightarrow> jsstr" where
  "lang_code PL = js ''pl''"
| "lang_code EN = js ''en''"

record lang_option =
  opt_code :: lang
  opt_label :: jsstr

definition OPTIONS :: "lang_option list" where
  "OPTIONS = [\<lparr>opt_code = PL, opt_label = js ''Polski''\<rparr>, \<lparr>opt_code = EN, opt_label = js ''English''\<rparr>]"

text \<open>\<open>OPTIONS.find((opt) => opt.code === locale) ?? OPTIONS[0]\<close>\<close>

definition active_option :: "jsstr \<Rightarrow> lang_option" where
  "active_option locale =
     (case find (\<lambda>opt. lang_code (opt_code opt) = locale) OPTIONS of
        Some opt \<Rightarrow> opt
      | None \<Rightarrow> hd OPTIONS)"

section \<open>Path translation\<close>

definition EN_PATHS :: "(jsstr \<times> jsstr) list" where
  "EN_PATHS =
    [(js ''/wydarzenia'', js ''/en/events''),
     (js ''/jak-dojechac'', js ''/en/getting-there''),
     (js ''/o-alvernia-planet'', js ''/en/about''),
     (js ''/galeria'', js ''/en/gallery''),
     (js ''/kontakt'', js ''/en/contact''),
     (js ''/atrakcje/wystawa'', js ''/en/attractions/exhibition''),
     (js ''/atrakcje/sciezka-filmowa'', js ''/en/attractions/film-path''),
     (js ''/atrakcje/kino-360'', js ''/en/attractions/cinema-360'')]"

definition PL_PATHS :: "(jsstr \<times> jsstr) list" where
  "PL_PATHS =
    [(js ''/events'', js ''/wydarzenia''),
     (js ''/getting-there'', js ''/jak-dojechac''),
     (js ''/about'', js ''/o-alvernia-planet''),
     (js ''/gallery'', js ''/galeria''),
     (js ''/contact'', js ''/kontakt''),
     (js ''/attractions/exhibition'', js ''/atrakcje/wystawa''),
     (js ''/attractions/film-path'', js ''/atrakcje/sciezka-filmowa''),
     (js ''/attractions/cinema-360'', js ''/atrakcje/kino-360''),
     (js ''/'', js ''/'')]"

text \<open>\<open>s.replace(/\/{2,}/g, "/")\<close>: every run of slashes becomes one slash.\<close>

abbreviation collapse_slashes :: "jsstr \<Rightarrow> jsstr" where
  "collapse_slashes s \<equiv> collapse_runs (\<lambda>c. c = 0x2F) 0x2F s"

definition mapToEn :: "jsstr \<Rightarrow> jsval" where
  "mapToEn path =
     (let clean = (if path = [] then js ''/'' else path)
      in if clean = js ''/en'' \<or> starts_with (js ''/en/'') clean then JStr clean
         else if clean = js ''/'' then JStr (js ''/en'')
         else
           (let fallback =
                  JStr (if starts_with (js ''/en/'') clean then clean
                        else collapse_slashes (js ''/en'' @ (if starts_with (js ''/'') clean then clean
                                                            else js ''/'' @ clean)))
            in case js_obj_get EN_PATHS clean of
                 Some v \<Rightarrow> if js_truthy (Some v) then v else fallback
               | None \<Rightarrow> fallback))"

definition mapToPl :: "jsstr \<Rightarrow> jsval" where
  "mapToPl path =
     (let clean = (if path = [] then js ''/'' else path)
      in if clean = js ''/'' then JStr (js ''/'')
         else
           (let withoutPrefix =
                  (if starts_with (js ''/en'') clean then (if drop 3 clean = [] then js ''/'' else drop 3 clean)
                   else clean);
                fallback =
                  JStr (if starts_with (js ''/'') withoutPrefix then withoutPrefix else js ''/'' @ withoutPrefix)
            in case js_obj_get PL_PATHS withoutPrefix of
                 Some v \<Rightarrow> if js_truthy (Some v) then v else fallback
               | None \<Rightarrow> fallback))"

section \<open>Switching\<close>

text \<open>The state the switcher reads and writes: the locale of the i18n provider, the
  current path, and the navigations handed to the router (\<open>router.push\<close>).\<close>

record switcher_state =
  sw_locale :: jsstr
  sw_pathname :: jsstr
  sw_pushed :: "jsval list"

definition switchLocale :: "lang \<Rightarrow> switcher_state \<Rightarrow> switcher_state" where
  "switchLocale target s =
     (let current = (if sw_pathname s = [] then js ''/'' else sw_pathname s);
          nextPath = (if target = EN then mapToEn current else mapToPl current)
      in s\<lparr>sw_locale := lang_code target, sw_pushed := sw_pushed s @ [nextPath]\<rparr>)"

section \<open>Rendering\<close>

text \<open>The \<open>Flag\<close> component: an \<open>svg\<close> of shapes and no text. Attributes the click
  classifier does not read (sizes, colours, path data, classes) are left out.\<close>

fun flag_svg :: "lang \<Rightarrow> node" where
  "flag_svg PL = Elem (js ''svg'') [(js ''aria-hidden'', js ''true'')]
     [Elem (js ''rect'') [] [], Elem (js ''rect'') [] [], Elem (js ''rect'') [] []]"
| "flag_svg EN = Elem (js ''svg'') [(js ''aria-hidden'', js ''true'')]
     [Elem (js ''rect'') [] [], Elem (js ''path'') [] [], Elem (js ''path'') [] [],
      Elem (js ''path'') [] [], Elem (js ''path'') [] [], Elem (js ''rect'') [] []]"

definition switcher_button :: "jsstr \<Rightarrow> lang_option \<Rightarrow> node" where
  "switcher_button locale opt =
     Elem (js ''button'')
       [(js ''type'', js ''button''),
        (js ''aria-pressed'', if opt_code opt = opt_code (active_option locale) then js ''true'' else js ''false''),
        (js ''aria-label'', opt_label opt)]
       [flag_svg (opt_code opt)]"

text \<open>The rendered switcher: one button per entry of \<open>OPTIONS\<close>, in order.\<close>

definition switcher_div :: "jsstr \<Rightarrow> node" where
  "switcher_div locale = Elem (js ''div'') [] (map (switcher_button locale) OPTIONS)"

text \<open>Nothing is rendered before the mount effect has run.\<close>

definition switcher_render :: "bool \<Rightarrow> jsstr \<Rightarrow> node option" where
  "switcher_render mounted locale = (if \<not> mounted then None else Some (switcher_div locale))"

section \<open>Path predicates\<close>

text \<open>A path with two consecutive slashes (which \<open>mapToEn\<close> would collapse).\<close>

fun has_double_slash :: "jsstr \<Rightarrow> bool" where
  "has_double_slash (a # b # cs) = ((a = 0x2F \<and> b = 0x2F) \<or> has_double_slash (b # cs))"
| "has_double_slash _ = False"

section \<open>Lemmas\<close>

lemma EN_PATHS_values:
  "list_all (\<lambda>(k, v). v \<noteq> [] \<and> starts_with (js ''/en/'') v) EN_PATHS"
  by (simp add: EN_PATHS_def)

lemma PL_PATHS_values_nonempty: "map_of PL_PATHS k = Some v \<Longrightarrow> v \<noteq> []"
  by (drule map_of_SomeD) (auto simp: PL_PATHS_def)

lemma EN_PATHS_values_nonempty: "map_of EN_PATHS k = Some v \<Longrightarrow> v \<noteq> []"
  by (drule map_of_SomeD) (auto simp: EN_PATHS_def)

lemma EN_PATHS_values_en: "map_of EN_PATHS k = Some v \<Longrightarrow> starts_with (js ''/en/'') v"
  using EN_PATHS_values by (auto dest!: map_of_SomeD simp: list_all_iff)

lemma starts_with_slash_Cons:
  "starts_with (js ''/'') p \<longleftrightarrow> (\<exists>cs. p = 0x2F # cs)"
  by (cases p) auto

lemma collapse_slashes_en:
  assumes "starts_with (js ''/'') p"
  shows "\<exists>r. collapse_slashes (js ''/en'' @ p) = js ''/en/'' @ r"
proof -
  from assms obtain cs where p: "p = 0x2F # cs" by (auto simp: starts_with_slash_Cons)
  show ?thesis by (simp add: p collapse_runs_Cons)
qed

lemma collapse_slashes_id: "\<not> has_double_slash xs \<Longrightarrow> collapse_slashes xs = xs"
proof (induction xs)
  case Nil
  then show ?case by simp
next
  case (Cons c cs)
  then have ih: "collapse_slashes cs = cs" by (cases cs) auto
  have "c = 0x2F \<Longrightarrow> dropWhile (\<lambda>c. c = 0x2F) cs = cs"
    using Cons.prems by (cases cs) auto
  with ih show ?case by (simp add: collapse_runs_Cons)
qed

lemma mapToEn_en_prefixed:
  "q = js ''/en'' \<or> starts_with (js ''/en/'') q \<Longrightarrow> mapToEn q = JStr q"
  by (auto simp: mapToEn_def)

lemma mapToEn_slash:
  assumes "starts_with (js ''/'') p" and "p \<noteq> js ''/''" and "p \<noteq> js ''/en''"
    and "\<not> starts_with (js ''/en/'') p"
  shows "mapToEn p = JStr (case map_of EN_PATHS p of Some v \<Rightarrow> v | None \<Rightarrow> collapse_slashes (js ''/en'' @ p))"
proof -
  have "p \<noteq> []" using assms(1) by (auto simp: starts_with_slash_Cons)
  then show ?thesis
    using assms js_obj_get_slash [OF assms(1), of EN_PATHS] EN_PATHS_values_nonempty
    by (auto simp: mapToEn_def neq_Nil_conv split: option.split)
qed

lemma mapToEn_is_en:
  assumes "starts_with (js ''/'') p"
  shows "\<exists>q. mapToEn p = JStr q \<and> (q = js ''/en'' \<or> starts_with (js ''/en/'') q)"
proof (cases "p = js ''/'' \<or> p = js ''/en'' \<or> starts_with (js ''/en/'') p")
  case True
  then show ?thesis by (auto simp: mapToEn_def)
next
  case False
  then have eq: "mapToEn p = JStr (case map_of EN_PATHS p of Some v \<Rightarrow> v
                                  | None \<Rightarrow> collapse_slashes (js ''/en'' @ p))"
    using mapToEn_slash [OF assms] by blast
  show ?thesis
  proof (cases "map_of EN_PATHS p")
    case None
    with eq collapse_slashes_en [OF assms] show ?thesis by auto
  next
    case (Some v)
    with eq EN_PATHS_values_en show ?thesis by auto
  qed
qed

lemma mapToPl_en_prefix:
  assumes "starts_with (js ''/'') p"
  shows "mapToPl (js ''/en'' @ p) = JStr (case map_of PL_PATHS p of Some v \<Rightarrow> v | None \<Rightarrow> p)"
proof -
  from assms obtain cs where p: "p = 0x2F # cs" by (auto simp: starts_with_slash_Cons)
  have "js_obj_get PL_PATHS p = map_option JStr (map_of PL_PATHS p)"
    by (rule js_obj_get_slash [OF assms])
  then show ?thesis using PL_PATHS_values_nonempty
    by (auto simp: mapToPl_def p neq_Nil_conv split: option.split)
qed

lemma EN_PATHS_back:
  "list_all (\<lambda>(k, v). mapToPl v = JStr k) EN_PATHS"
  by (simp add: EN_PATHS_def PL_PATHS_def mapToPl_def js_obj_get_def)

lemma has_double_slash_en: "starts_with (js ''/'') p \<Longrightarrow> has_double_slash (js ''/en'' @ p) = has_double_slash p"
  by (auto simp: starts_with_slash_Cons)

subsection \<open>The buttons under the click classifier\<close>

lemma switcher_child:
  assumes "switcher_render True locale = Some sw" and "child_at sw i = Some b"
  shows "\<exists>opt. b = switcher_button locale opt"
  using assms by (auto simp: switcher_render_def switcher_div_def split: if_splits)

lemma flag_svg_unclickable: "x \<in> set (all_nodes (flag_svg l)) \<Longrightarrow> \<not> is_clickable x"
  by (cases l) (auto simp: is_clickable_def)

lemma flag_svg_text: "text_content (flag_svg l) = []"
  by (cases l) simp_all

lemma switcher_button_nearest:
  "find (\<lambda>e. is_element e \<and> is_clickable e) (rev (path_nodes (switcher_button locale opt) r))
     = Some (switcher_button locale opt)"
proof -
  let ?b = "switcher_button locale opt"
  have hd: "path_nodes ?b r = ?b # tl (path_nodes ?b r)" by (rule path_nodes_hd)
  have below: "\<forall>x \<in> set (tl (path_nodes ?b r)). \<not> is_clickable x"
  proof (cases r)
    case (Cons j r')
    then show ?thesis
      using path_nodes_all_nodes [of _ "flag_svg (opt_code opt)" r'] flag_svg_unclickable
      by (auto simp: switcher_button_def)
  qed simp
  then have "find (\<lambda>e. is_element e \<and> is_clickable e) (rev (tl (path_nodes ?b r))) = None"
    by (simp add: find_None_iff)
  moreover have "is_element ?b \<and> is_clickable ?b"
    by (simp add: switcher_button_def is_clickable_def)
  ultimately show ?thesis
    by (subst hd) (simp add: find_append)
qed

lemma switcher_button_events:
  "\<not> is_ignored (switcher_button locale opt)
   \<and> click_events env (switcher_button locale opt)
       = Inr [(js ''ui_click'', [(js ''label'', None), (js ''href'', None)])]"
proof -
  have "getLabel (switcher_button locale opt) = None"
    by (simp add: getLabel_def switcher_button_def flag_svg_text js_trim_Nil collapse_runs.simps)
  then show ?thesis
    by (simp add: switcher_button_def is_ignored_def click_events_def label_param_def
        detectLanguageSwitch_None generic_event_def event_name_of_def getHref_def is_anchor_def)
qed

text \<open>\<open>mapToEn\<close> sends every path the router reports (it starts with a slash) to a string,
  never a prototype function, and that string is an English path which \<open>mapToEn\<close>
  leaves unchanged.\<close>

lemma mapToEn_en_path:
  assumes "starts_with (js ''/'') p"
  shows "\<exists>q. mapToEn p = JStr q \<and> (q = js ''/en'' \<or> starts_with (js ''/en/'') q)
             \<and> mapToEn q = JStr q"
  using mapToEn_is_en [OF assms] mapToEn_en_prefixed by blast

text \<open>
  C23 (roundtrip). Switching a Polish page to English and back returns to it: for a
  path that starts with a slash, has no doubled slash, is not itself English
  (\<open>/en\<close> or under \<open>/en/\<close>), and is the root or not a key of the Polish table,
  \<open>mapToPl (mapToEn p) = p\<close>. This covers the eight translated pages and every
  untranslated page (which gets and loses the \<open>/en\<close> prefix).
\<close>

theorem mapToPl_mapToEn_roundtrip:
  assumes sl: "starts_with (js ''/'') p" and nd: "\<not> has_double_slash p"
    and ne: "p \<noteq> js ''/en''" and nen: "\<not> starts_with (js ''/en/'') p"
    and pl: "p = js ''/'' \<or> map_of PL_PATHS p = None"
  shows "\<exists>q. mapToEn p = JStr q \<and> mapToPl q = JStr p"
proof (cases "p = js ''/''")
  case True
  then show ?thesis by (simp add: mapToEn_def mapToPl_def Let_def js_obj_get_def PL_PATHS_def)
next
  case False
  with pl have pn: "map_of PL_PATHS p = None" by simp
  note eq = mapToEn_slash [OF sl False ne nen]
  show ?thesis
  proof (cases "map_of EN_PATHS p")
    case (Some v)
    have "mapToPl v = JStr p"
      using EN_PATHS_back map_of_SomeD [OF Some] by (auto simp: list_all_iff)
    with eq Some show ?thesis by simp
  next
    case None
    have c: "collapse_slashes (js ''/en'' @ p) = js ''/en'' @ p"
      by (rule collapse_slashes_id) (simp only: has_double_slash_en [OF sl] nd, simp)
    have "mapToPl (js ''/en'' @ p) = JStr p"
      using mapToPl_en_prefix [OF sl] pn by simp
    with eq None c show ?thesis by (simp only: option.case) blast
  qed
qed

theorem mapToPl_mapToEn_roundtrip_witness:
  "\<exists>q. mapToEn (js ''/enigma'') = JStr q \<and> mapToPl q = JStr (js ''/enigma'')"
  using mapToPl_mapToEn_roundtrip [of "js ''/enigma''"] by (simp add: PL_PATHS_def)

text \<open>Every key of the Polish table is a path: it begins with a slash.\<close>

lemma PL_PATHS_slash: "map_of PL_PATHS (c # r) \<noteq> None \<Longrightarrow> c = 0x2F"
  by (auto simp: PL_PATHS_def split: if_splits)

text \<open>
  C24 (functional). \<open>mapToPl\<close> strips the three code units \<open>/en\<close> from any path that
  starts with them, not only from \<open>/en\<close> and \<open>/en/...\<close>: a Polish path \<open>/en\<close> followed
  by anything but a slash loses its \<open>/en\<close>, and the rest is made a path again. So the
  Polish button on the Polish page \<open>/energylandia\<close> navigates to \<open>/ergylandia\<close>, and
  on \<open>/enigma\<close> to \<open>/igma\<close>. (The rest must not name an \<open>Object.prototype\<close> property:
  on \<open>/enconstructor\<close> the result is that property, a function; lemma
  \<open>mapToPl_prototype_key\<close>.)
\<close>

theorem mapToPl_strips_en_prefix_of_polish_path:
  assumes "c \<noteq> 0x2F" and "c # r \<notin> set object_prototype_keys"
  shows "mapToPl (js ''/en'' @ c # r) = JStr (js ''/'' @ c # r)"
proof -
  have "map_of PL_PATHS (c # r) = None" using PL_PATHS_slash assms(1) by blast
  then have "js_obj_get PL_PATHS (c # r) = None" using js_obj_get_absent assms(2) by blast
  then show ?thesis using assms(1) by (simp add: mapToPl_def Let_def starts_with_def)
qed

theorem mapToPl_strips_en_prefix_of_polish_path_witness:
  "mapToPl (js ''/energylandia'') = JStr (js ''/ergylandia'')
   \<and> mapToPl (js ''/enigma'') = JStr (js ''/igma'')"
  using mapToPl_strips_en_prefix_of_polish_path [of "0x65" "js ''rgylandia''"]
    mapToPl_strips_en_prefix_of_polish_path [of "0x69" "js ''gma''"]
  by (simp add: object_prototype_keys_def)

lemma mapToPl_prototype_key: "mapToPl (js ''/enconstructor'') = JObj"
  by (simp add: mapToPl_def PL_PATHS_def js_obj_get_def object_prototype_keys_def Let_def)

text \<open>
  C22 (functional). \<open>switchLocale EN\<close>, on a page whose path is empty (read as \<open>/\<close>,
  by \<open>pathname || "/"\<close>) or starts with a slash, sets the locale to \<open>en\<close>, keeps
  the path, and hands exactly one navigation to the router: a string, never a
  prototype function, that is an English path (\<open>/en\<close> or under \<open>/en/\<close>) and that
  \<open>mapToEn\<close> leaves unchanged, so switching to English twice navigates to the same page.
\<close>

theorem switchLocale_to_en:
  assumes "sw_pathname s = [] \<or> starts_with (js ''/'') (sw_pathname s)"
  shows "\<exists>q. switchLocale EN s = s\<lparr>sw_locale := js ''en'', sw_pushed := sw_pushed s @ [JStr q]\<rparr>
             \<and> (q = js ''/en'' \<or> starts_with (js ''/en/'') q) \<and> mapToEn q = JStr q"
proof -
  let ?cur = "if sw_pathname s = [] then js ''/'' else sw_pathname s"
  have "starts_with (js ''/'') ?cur" using assms by (auto simp: starts_with_def)
  from mapToEn_en_path [OF this] show ?thesis by (auto simp: switchLocale_def Let_def)
qed

theorem switchLocale_to_en_witness:
  "\<exists>q. switchLocale EN \<lparr>sw_locale = js ''pl'', sw_pathname = [], sw_pushed = []\<rparr>
        = \<lparr>sw_locale = js ''en'', sw_pathname = [], sw_pushed = [JStr q]\<rparr>
       \<and> (q = js ''/en'' \<or> starts_with (js ''/en/'') q) \<and> mapToEn q = JStr q"
  using switchLocale_to_en [of "\<lparr>sw_locale = js ''pl'', sw_pathname = [], sw_pushed = []\<rparr>"]
  by simp

end
