(* ===== verification/Uri.thy ===== *)
theory Uri
  imports Prelude
begin

text \<open>
  \<open>encodeURIComponent\<close> of ECMAScript (the abstract operation Encode with the
  unescaped set of \<open>encodeURIComponent\<close>), which \<open>buildDirectionsEmbed\<close> of
  \<open>src/src/app/jak-dojechac/page.tsx\<close> calls on the origin and the destination; and the
  decimal rendering of a time value used for its cache-busting parameter. The string is
  read as code points (a lead surrogate followed by a trail surrogate is one code
  point; an unpaired surrogate throws \<open>URIError\<close>, here \<open>None\<close>); a code point in the
  unescaped set is copied, any other one is written as its UTF-8 octets, each as
  \<open>%XX\<close> with upper-case hexadecimal digits. A decoder of such strings
  (\<open>uri_decode\<close>: percent-decoding, UTF-8 decoding, UTF-16 encoding) states that the
  encoding loses nothing.
\<close>

section \<open>Code points\<close>

definition is_lead :: "16 word \<Rightarrow> bool" where
  "is_lead c \<longleftrightarrow> 0xD800 \<le> unat c \<and> unat c < 0xDC00"

definition is_trail :: "16 word \<Rightarrow> bool" where
  "is_trail c \<longleftrightarrow> 0xDC00 \<le> unat c \<and> unat c < 0xE000"

text \<open>\<open>CodePointAt\<close>, iterated over the string; \<open>None\<close> for an unpaired surrogate.\<close>

fun utf16_decode :: "jsstr \<Rightarrow> nat list option" where
  "utf16_decode [] = Some []"
| "utf16_decode [c] = (if is_lead c \<or> is_trail c then None else Some [unat c])"
| "utf16_decode (c # d # ds) =
     (if is_lead c then
        (if is_trail d
         then map_option (Cons (0x10000 + (unat c - 0xD800) * 0x400 + (unat d - 0xDC00))) (utf16_decode ds)
         else None)
      else if is_trail c then None
      else map_option (Cons (unat c)) (utf16_decode (d # ds)))"

text \<open>UTF-16 encoding of code points (\<open>UTF16EncodeCodePoint\<close>).\<close>

definition utf16_encode_cp :: "nat \<Rightarrow> jsstr" where
  "utf16_encode_cp cp =
     (if cp < 0x10000 then [of_nat cp]
      else [of_nat (0xD800 + (cp - 0x10000) div 0x400), of_nat (0xDC00 + (cp - 0x10000) mod 0x400)])"

definition utf16_encode :: "nat list \<Rightarrow> jsstr" where
  "utf16_encode cps = concat (map utf16_encode_cp cps)"

section \<open>Encoding\<close>

text \<open>The unescaped set of \<open>encodeURIComponent\<close>: ASCII letters, digits and
  \<open>- _ . ! ~ * ' ( )\<close>.\<close>

definition uri_unreserved :: "nat \<Rightarrow> bool" where
  "uri_unreserved c \<longleftrightarrow>
     (65 \<le> c \<and> c \<le> 90) \<or> (97 \<le> c \<and> c \<le> 122) \<or> (48 \<le> c \<and> c \<le> 57)
     \<or> c \<in> {45, 95, 46, 33, 126, 42, 39, 40, 41}"

text \<open>The UTF-8 octets of a code point.\<close>

definition utf8_encode :: "nat \<Rightarrow> nat list" where
  "utf8_encode cp =
     (if cp < 0x80 then [cp]
      else if cp < 0x800 then [0xC0 + cp div 64, 0x80 + cp mod 64]
      else if cp < 0x10000 then [0xE0 + cp div 4096, 0x80 + cp div 64 mod 64, 0x80 + cp mod 64]
      else [0xF0 + cp div 262144, 0x80 + cp div 4096 mod 64, 0x80 + cp div 64 mod 64, 0x80 + cp mod 64])"

definition hex_digit :: "nat \<Rightarrow> 16 word" where
  "hex_digit d = (if d < 10 then of_nat (48 + d) else of_nat (55 + d))"

definition pct :: "nat \<Rightarrow> jsstr" where
  "pct b = [0x25, hex_digit (b div 16), hex_digit (b mod 16)]"

definition enc_cp :: "nat \<Rightarrow> jsstr" where
  "enc_cp cp = (if uri_unreserved cp then [of_nat cp] else concat (map pct (utf8_encode cp)))"

definition encodeURIComponent :: "jsstr \<Rightarrow> jsstr option" where
  "encodeURIComponent s = map_option (\<lambda>cps. concat (map enc_cp cps)) (utf16_decode s)"

section \<open>Decoding\<close>

definition hex_val :: "16 word \<Rightarrow> nat option" where
  "hex_val c =
     (if 48 \<le> unat c \<and> unat c \<le> 57 then Some (unat c - 48)
      else if 65 \<le> unat c \<and> unat c \<le> 70 then Some (unat c - 55)
      else if 97 \<le> unat c \<and> unat c \<le> 102 then Some (unat c - 87)
      else None)"

text \<open>Percent-decoding into a stream of literal code units (\<open>Inl\<close>) and octets (\<open>Inr\<close>).\<close>

fun pct_tokens :: "jsstr \<Rightarrow> (nat + nat) list option" where
  "pct_tokens [] = Some []"
| "pct_tokens (c # r) =
     (if c = 0x25 then
        (case r of
           h1 # h2 # r' \<Rightarrow>
             (case (hex_val h1, hex_val h2) of
                (Some a, Some b) \<Rightarrow> map_option (Cons (Inr (a * 16 + b))) (pct_tokens r')
              | _ \<Rightarrow> None)
         | _ \<Rightarrow> None)
      else map_option (Cons (Inl (unat c))) (pct_tokens r))"

text \<open>The number of continuation octets a lead octet announces, and the code point of
  a lead octet and its continuation octets.\<close>

definition utf8_cont :: "nat \<Rightarrow> nat" where
  "utf8_cont b = (if b < 0xE0 then 1 else if b < 0xF0 then 2 else 3)"

definition utf8_cp :: "nat \<Rightarrow> nat list \<Rightarrow> nat" where
  "utf8_cp b cs =
     foldl (\<lambda>acc c. acc * 64 + (c - 0x80))
       (if b < 0xE0 then b - 0xC0 else if b < 0xF0 then b - 0xE0 else b - 0xF0) cs"

function utf8_dec :: "(nat + nat) list \<Rightarrow> nat list option" where
  "utf8_dec [] = Some []"
| "utf8_dec (Inl c # r) = map_option (Cons c) (utf8_dec r)"
| "utf8_dec (Inr b # r) =
     (if b < 0x80 then map_option (Cons b) (utf8_dec r)
      else if b < 0xC0 then None
      else (let n = utf8_cont b; cs = take n r in
            if length cs = n \<and> (\<forall>t \<in> set cs. \<exists>x. t = Inr x \<and> 0x80 \<le> x \<and> x < 0xC0)
            then map_option (Cons (utf8_cp b (map projr cs))) (utf8_dec (drop n r))
            else None))"
  by pat_completeness auto
termination
  by (relation "measure length") auto

text \<open>The token stream a code point becomes after percent-decoding.\<close>

definition enc_tok :: "nat \<Rightarrow> (nat + nat) list" where
  "enc_tok cp = (if uri_unreserved cp then [Inl cp] else map Inr (utf8_encode cp))"

definition uri_decode :: "jsstr \<Rightarrow> jsstr option" where
  "uri_decode s =
     (case pct_tokens s of
        None \<Rightarrow> None
      | Some ts \<Rightarrow> map_option utf16_encode (utf8_dec ts))"

section \<open>Decimal numbers\<close>

text \<open>\<open>String(n)\<close> for a non-negative integer time value.\<close>

fun dec_string :: "nat \<Rightarrow> jsstr" where
  "dec_string n = (if n < 10 then [of_nat (48 + n)] else dec_string (n div 10) @ [of_nat (48 + n mod 10)])"

declare dec_string.simps [simp del]

section \<open>Lemmas\<close>

lemma unat_lt_65536: "unat (c::16 word) < 65536"
  by (rule order.strict_trans2 [OF unsigned_less]) simp

lemma utf16_decode_valid:
  "utf16_decode s = Some cps \<Longrightarrow> utf16_encode cps = s \<and> (\<forall>cp \<in> set cps. cp < 0x110000)"
proof (induction s arbitrary: cps rule: utf16_decode.induct)
  case 1
  then show ?case by (simp add: utf16_encode_def)
next
  case (2 c)
  then show ?case
    using unat_lt_65536 [of c] by (auto simp: utf16_encode_def utf16_encode_cp_def split: if_splits)
next
  case (3 c d ds)
  show ?case
  proof (cases "is_lead c")
    case True
    with "3.prems" obtain r where t: "is_trail d" and r: "utf16_decode ds = Some r"
      and cps: "cps = (0x10000 + (unat c - 0xD800) * 0x400 + (unat d - 0xDC00)) # r"
      by (auto split: if_splits)
    have lo: "unat d - 0xDC00 < 1024" and hi: "unat c - 0xD800 < 1024"
      using t True by (auto simp: is_lead_def is_trail_def)
    have c: "of_nat (0xD800 + (unat c - 0xD800)) = c" using True by (simp add: is_lead_def)
    have d: "of_nat (0xDC00 + (unat d - 0xDC00)) = d" using t by (simp add: is_trail_def)
    have "utf16_encode_cp (0x10000 + (unat c - 0xD800) * 0x400 + (unat d - 0xDC00)) = [c, d]"
      using lo c d by (simp add: utf16_encode_cp_def)
    moreover have "0x10000 + (unat c - 0xD800) * 0x400 + (unat d - 0xDC00) < (0x110000::nat)"
      using lo hi by simp
    ultimately show ?thesis using "3.IH"(1) [OF True t r] cps by (simp add: utf16_encode_def)
  next
    case False
    with "3.prems" obtain r where nt: "\<not> is_trail c" and r: "utf16_decode (d # ds) = Some r"
      and cps: "cps = unat c # r"
      by (auto split: if_splits)
    show ?thesis using "3.IH"(2) [OF False nt r] cps unat_lt_65536 [of c]
      by (simp add: utf16_encode_def utf16_encode_cp_def)
  qed
qed


lemma unat_of_nat16: "m < 65536 \<Longrightarrow> unat (word_of_nat m :: 16 word) = m"
  by (simp add: unat_of_nat)

lemma unat_hex_digit: "d < 16 \<Longrightarrow> unat (hex_digit d) = (if d < 10 then 48 + d else 55 + d)"
  unfolding hex_digit_def by (simp add: unat_of_nat16 del: of_nat_add)

lemma hex_val_hex_digit: "d < 16 \<Longrightarrow> hex_val (hex_digit d) = Some d"
  by (simp add: hex_val_def unat_hex_digit)

lemma pct_tokens_pct:
  "b < 256 \<Longrightarrow> pct_tokens (pct b @ r) = map_option (Cons (Inr b)) (pct_tokens r)"
  by (simp add: pct_def hex_val_hex_digit)

lemma pct_tokens_concat_pct:
  "\<forall>b \<in> set bs. b < 256 \<Longrightarrow>
     pct_tokens (concat (map pct bs) @ r) = map_option (\<lambda>t. map Inr bs @ t) (pct_tokens r)"
proof (induction bs)
  case Nil
  then show ?case by (cases "pct_tokens r") simp_all
next
  case (Cons b bs)
  then show ?case by (cases "pct_tokens r") (simp_all add: pct_tokens_pct)
qed

lemma utf8_encode_bytes: "cp < 0x110000 \<Longrightarrow> \<forall>b \<in> set (utf8_encode cp). b < 256"
  by (auto simp: utf8_encode_def)

lemma pct_tokens_enc_cp:
  assumes "cp < 0x110000"
  shows "pct_tokens (enc_cp cp @ r) = map_option (\<lambda>t. enc_tok cp @ t) (pct_tokens r)"
proof (cases "uri_unreserved cp")
  case True
  then have lt: "cp < 128" and ne: "cp \<noteq> 37" by (auto simp: uri_unreserved_def)
  then have u: "unat (of_nat cp :: 16 word) = cp" by (simp add: unat_of_nat16)
  have "(of_nat cp :: 16 word) \<noteq> 0x25"
  proof
    assume "(of_nat cp :: 16 word) = 0x25"
    then have "unat (of_nat cp :: 16 word) = 37" by simp
    with u ne show False by simp
  qed
  with True u show ?thesis by (cases "pct_tokens r") (simp_all add: enc_cp_def enc_tok_def)
next
  case False
  with assms show ?thesis
    by (simp add: enc_cp_def enc_tok_def pct_tokens_concat_pct utf8_encode_bytes)
qed


lemma recompose2: "(n div 4096 * 64 + n div 64 mod 64) * 64 + n mod 64 = (n::nat)"
proof -
  have "n div 4096 = n div 64 div 64" by (simp add: div_mult2_eq)
  then have "n div 4096 * 64 + n div 64 mod 64 = n div 64" by simp
  then show ?thesis by simp
qed

lemma recompose3:
  "((n div 262144 * 64 + n div 4096 mod 64) * 64 + n div 64 mod 64) * 64 + n mod 64 = (n::nat)"
proof -
  have "n div 262144 = n div 4096 div 64" by (simp add: div_mult2_eq)
  then have "n div 262144 * 64 + n div 4096 mod 64 = n div 4096" by simp
  then show ?thesis using recompose2 [of n] by simp
qed

lemma utf8_dec_enc_tok:
  assumes "cp < 0x110000"
  shows "utf8_dec (enc_tok cp @ r) = map_option (Cons cp) (utf8_dec r)"
proof (cases "uri_unreserved cp")
  case True
  then show ?thesis by (simp add: enc_tok_def)
next
  case False
  consider "cp < 0x80" | "0x80 \<le> cp" "cp < 0x800" | "0x800 \<le> cp" "cp < 0x10000" | "0x10000 \<le> cp"
    by linarith
  then show ?thesis
  proof cases
    case 1
    with False show ?thesis by (simp add: enc_tok_def utf8_encode_def)
  next
    case 2
    have lead: "utf8_cont (192 + cp div 64) = 1" using 2 by (simp add: utf8_cont_def)
    from 2 have "cp div 64 < 32" by (simp add: div_less_iff_less_mult)
    then have "192 + cp div 64 < (224::nat)" by linarith
    then have val: "utf8_cp (192 + cp div 64) [128 + cp mod 64] = cp"
      unfolding utf8_cp_def by (simp only: if_P) simp
    have enc: "enc_tok cp = [Inr (192 + cp div 64), Inr (128 + cp mod 64)]"
      using 2 False by (simp add: enc_tok_def utf8_encode_def)
    have "\<not> 192 + cp div 64 < (128::nat)" "\<not> 192 + cp div 64 < (192::nat)" "128 + cp mod 64 < (192::nat)"
      by simp_all
    then show ?thesis by (simp add: enc lead val)
  next
    case 3
    have lead: "utf8_cont (224 + cp div 4096) = 2" using 3 by (simp add: utf8_cont_def)
    from 3 have "cp div 4096 < 16" by (simp add: div_less_iff_less_mult)
    then have "\<not> 224 + cp div 4096 < (224::nat)" "224 + cp div 4096 < (240::nat)" by linarith+
    then have "utf8_cp (224 + cp div 4096) [128 + cp div 64 mod 64, 128 + cp mod 64] =
               (cp div 4096 * 64 + cp div 64 mod 64) * 64 + cp mod 64"
      unfolding utf8_cp_def by (simp only: if_P if_not_P) simp
    then have val: "utf8_cp (224 + cp div 4096) [128 + cp div 64 mod 64, 128 + cp mod 64] = cp"
      by (simp only: recompose2)
    have enc: "enc_tok cp = [Inr (224 + cp div 4096), Inr (128 + cp div 64 mod 64), Inr (128 + cp mod 64)]"
      using 3 False by (simp add: enc_tok_def utf8_encode_def)
    have "\<not> 224 + cp div 4096 < (128::nat)" "\<not> 224 + cp div 4096 < (192::nat)"
      "128 + cp div 64 mod 64 < (192::nat)" "128 + cp mod 64 < (192::nat)"
      by simp_all
    then show ?thesis by (simp add: enc lead val numeral_2_eq_2)
  next
    case 4
    have lead: "utf8_cont (240 + cp div 262144) = 3" by (simp add: utf8_cont_def)
    have "utf8_cp (240 + cp div 262144)
            [128 + cp div 4096 mod 64, 128 + cp div 64 mod 64, 128 + cp mod 64] =
          ((cp div 262144 * 64 + cp div 4096 mod 64) * 64 + cp div 64 mod 64) * 64 + cp mod 64"
      unfolding utf8_cp_def by simp
    then have val: "utf8_cp (240 + cp div 262144)
                 [128 + cp div 4096 mod 64, 128 + cp div 64 mod 64, 128 + cp mod 64] = cp"
      by (simp only: recompose3)
    have enc: "enc_tok cp = [Inr (240 + cp div 262144), Inr (128 + cp div 4096 mod 64),
                             Inr (128 + cp div 64 mod 64), Inr (128 + cp mod 64)]"
      using 4 False by (simp add: enc_tok_def utf8_encode_def)
    have "\<not> 240 + cp div 262144 < (128::nat)" "\<not> 240 + cp div 262144 < (192::nat)"
      "128 + cp div 4096 mod 64 < (192::nat)" "128 + cp div 64 mod 64 < (192::nat)" "128 + cp mod 64 < (192::nat)"
      by simp_all
    then show ?thesis by (simp add: enc lead val numeral_3_eq_3)
  qed
qed


lemma pct_tokens_encode:
  "\<forall>cp \<in> set cps. cp < 0x110000 \<Longrightarrow>
     pct_tokens (concat (map enc_cp cps)) = Some (concat (map enc_tok cps))"
  by (induction cps) (simp_all add: pct_tokens_enc_cp)

lemma utf8_dec_encode:
  "\<forall>cp \<in> set cps. cp < 0x110000 \<Longrightarrow> utf8_dec (concat (map enc_tok cps)) = Some cps"
  by (induction cps) (simp_all add: utf8_dec_enc_tok)

theorem encodeURIComponent_roundtrip:
  assumes "encodeURIComponent s = Some e"
  shows "uri_decode e = Some s"
proof -
  from assms obtain cps where d: "utf16_decode s = Some cps" and e: "e = concat (map enc_cp cps)"
    by (auto simp: encodeURIComponent_def)
  from utf16_decode_valid [OF d] have s: "utf16_encode cps = s" and v: "\<forall>cp \<in> set cps. cp < 0x110000"
    by auto
  show ?thesis
    by (simp add: uri_decode_def e pct_tokens_encode [OF v] utf8_dec_encode [OF v] s)
qed


lemma hex_digit_unreserved: "d < 16 \<Longrightarrow> uri_unreserved (unat (hex_digit d))"
  by (simp add: unat_hex_digit uri_unreserved_def)

lemma pct_safe: "b < 256 \<Longrightarrow> c \<in> set (pct b) \<Longrightarrow> uri_unreserved (unat c) \<or> c = 0x25"
proof -
  assume b: "b < 256" and c: "c \<in> set (pct b)"
  have "b div 16 < 16" "b mod 16 < (16::nat)" using b by simp_all
  moreover from c have "c = 0x25 \<or> c = hex_digit (b div 16) \<or> c = hex_digit (b mod 16)"
    by (simp add: pct_def)
  ultimately show ?thesis using hex_digit_unreserved by blast
qed

lemma enc_cp_safe:
  assumes "cp < 0x110000" and "c \<in> set (enc_cp cp)"
  shows "uri_unreserved (unat c) \<or> c = 0x25"
proof (cases "uri_unreserved cp")
  case True
  then have "cp < 65536" by (auto simp: uri_unreserved_def)
  with True assms(2) show ?thesis by (simp add: enc_cp_def unat_of_nat16)
next
  case False
  with assms(2) obtain b where "b \<in> set (utf8_encode cp)" "c \<in> set (pct b)"
    by (auto simp: enc_cp_def)
  with utf8_encode_bytes [OF assms(1)] show ?thesis using pct_safe by blast
qed

theorem encodeURIComponent_safe:
  assumes "encodeURIComponent s = Some e" and "c \<in> set e"
  shows "uri_unreserved (unat c) \<or> c = 0x25"
proof -
  from assms obtain cps where d: "utf16_decode s = Some cps" and e: "e = concat (map enc_cp cps)"
    by (auto simp: encodeURIComponent_def)
  from assms(2) e obtain cp where "cp \<in> set cps" "c \<in> set (enc_cp cp)" by auto
  with utf16_decode_valid [OF d] show ?thesis using enc_cp_safe by blast
qed

end
