(* ===== verification/Directions.thy ===== *)
theory Directions
  imports Uri LangSwitcher
begin

text \<open>
  The getting-there page \<open>src/src/app/jak-dojechac/page.tsx\<close>: the tables of nearby
  places and attractions per locale, \<open>buildDirectionsEmbed\<close> (a Google Maps directions
  URL from an origin to the venue, with a cache-busting time stamp), and the page's
  state (\<open>mapSrc\<close>, \<open>activeOrigin\<close>, \<open>activeTab\<close>, \<open>shouldLoadMap\<close>) with the
  operations that change it: the tab buttons, the item buttons, the default-route effect
  (run after mount and whenever the tab or the locale's list changes), the
  intersection observer, and the load button. A step that would throw (an origin
  \<open>encodeURIComponent\<close> rejects) is \<open>None\<close>. Icons, styling and animation are not
  modelled.
\<close>

section \<open>Data\<close>

datatype tab = Attractions | Routes

text \<open>\<open>NearbyItem\<close> without its icon component.\<close>

record nearby_item =
  item_label :: jsstr
  item_distance :: nat

definition MAP_SRC :: jsstr where
  "MAP_SRC = js ''https://www.google.com/maps?q=Alvernia+Planet,+Nieporaz,+Ferdynanda+Wspania%C5%82ego+1&output=embed''"

definition DESTINATION :: jsstr where
  "DESTINATION = js ''Alvernia Planet, Ferdynanda Wspania'' @ [0x142] @ js ''ego 1, Nieporaz''"

fun NEARBY :: "lang \<Rightarrow> nearby_item list" where
  "NEARBY PL =
     [\<lparr>item_label = js ''Dworzec kolejowy Krzeszowice'', item_distance = 9\<rparr>,
      \<lparr>item_label = js ''Lotnisko Krak'' @ [0xF3] @ js ''w-Balice'', item_distance = 15\<rparr>,
      \<lparr>item_label = js ''Krak'' @ [0xF3] @ js ''w'', item_distance = 25\<rparr>,
      \<lparr>item_label = js ''Katowice'', item_distance = 47\<rparr>,
      \<lparr>item_label = js ''Lotnisko Katowice-Pyrzowice'', item_distance = 73\<rparr>]"
| "NEARBY EN =
     [\<lparr>item_label = js ''Krzeszowice railway station'', item_distance = 9\<rparr>,
      \<lparr>item_label = js ''Krak'' @ [0xF3] @ js ''w-Balice Airport'', item_distance = 15\<rparr>,
      \<lparr>item_label = js ''Krak'' @ [0xF3] @ js ''w'', item_distance = 25\<rparr>,
      \<lparr>item_label = js ''Katowice'', item_distance = 47\<rparr>,
      \<lparr>item_label = js ''Katowice-Pyrzowice Airport'', item_distance = 73\<rparr>]"

fun ATTRACTIONS :: "lang \<Rightarrow> nearby_item list" where
  "ATTRACTIONS PL =
     [\<lparr>item_label = js ''Zamek Tenczyn'', item_distance = 3\<rparr>,
      \<lparr>item_label = js ''Muzeum Ma'' @ [0x142] @ js ''opolski Zachodniej w Wygie'' @ [0x142] @ js ''zowie'', item_distance = 12\<rparr>,
      \<lparr>item_label = js ''Energylandia'', item_distance = 20\<rparr>,
      \<lparr>item_label = js ''Zatorland'', item_distance = 22\<rparr>,
      \<lparr>item_label = js ''Park Gr'' @ [0xF3] @ js ''dek'', item_distance = 28\<rparr>,
      \<lparr>item_label = js ''Muzeum Auschwitz-Birkenau'', item_distance = 37\<rparr>,
      \<lparr>item_label = js ''Kopalnia Soli w Wieliczce'', item_distance = 49\<rparr>]"
| "ATTRACTIONS EN =
     [\<lparr>item_label = js ''Tenczyn Castle'', item_distance = 3\<rparr>,
      \<lparr>item_label = js ''Museum of Western Ma'' @ [0x142] @ js ''opolska (Wygie'' @ [0x142] @ js ''z'' @ [0xF3] @ js ''w)'', item_distance = 12\<rparr>,
      \<lparr>item_label = js ''Energylandia'', item_distance = 20\<rparr>,
      \<lparr>item_label = js ''Zatorland'', item_distance = 22\<rparr>,
      \<lparr>item_label = js ''Park Gr'' @ [0xF3] @ js ''dek'', item_distance = 28\<rparr>,
      \<lparr>item_label = js ''Auschwitz-Birkenau Museum'', item_distance = 37\<rparr>,
      \<lparr>item_label = js ''Wieliczka Salt Mine'', item_distance = 49\<rparr>]"

section \<open>Directions URL\<close>

definition embed_prefix :: jsstr where
  "embed_prefix = js ''https://www.google.com/maps?output=embed&f=d&source=embed&saddr=''"

text \<open>The origin is encoded before the destination; either encoding may throw.\<close>

definition buildDirectionsEmbed :: "jsstr \<Rightarrow> bool \<Rightarrow> nat \<Rightarrow> jsstr option" where
  "buildDirectionsEmbed origin avoidTolls now =
     (case encodeURIComponent origin of
        None \<Rightarrow> None
      | Some originQ \<Rightarrow>
          (case encodeURIComponent DESTINATION of
             None \<Rightarrow> None
           | Some destQ \<Rightarrow>
               Some (embed_prefix @ originQ @ js ''&daddr='' @ destQ
                     @ (if avoidTolls then js ''&avoid=tolls'' else []) @ js ''&_cb='' @ dec_string now)))"

text \<open>Reading the origin back from a directions URL: the \<open>saddr\<close> value up to the next
  \<open>&\<close>, percent-decoded.\<close>

definition embed_origin :: "jsstr \<Rightarrow> jsstr option" where
  "embed_origin u =
     (if starts_with embed_prefix u
      then uri_decode (takeWhile (\<lambda>c. c \<noteq> 0x26) (drop (length embed_prefix) u))
      else None)"

section \<open>Page state\<close>

record directions_state =
  ds_locale :: lang
  map_src :: jsstr
  active_origin :: "jsstr option"
  active_tab :: tab
  should_load_map :: bool

text \<open>\<open>currentList\<close>.\<close>

definition current_list :: "directions_state \<Rightarrow> nearby_item list" where
  "current_list s = (if active_tab s = Routes then NEARBY (ds_locale s) else ATTRACTIONS (ds_locale s))"

text \<open>Selecting an origin: the item buttons' click handler, and the body of the
  default-route effect for the first item.\<close>

definition select_origin :: "jsstr \<Rightarrow> nat \<Rightarrow> directions_state \<Rightarrow> directions_state option" where
  "select_origin label now s =
     map_option (\<lambda>u. s\<lparr>active_origin := Some label, map_src := u, should_load_map := True\<rparr>)
       (buildDirectionsEmbed label False now)"

text \<open>The default-route effect: \<open>if (first)\<close> select the first item of the list.\<close>

definition default_route :: "nat \<Rightarrow> directions_state \<Rightarrow> directions_state option" where
  "default_route now s =
     (case current_list s of
        [] \<Rightarrow> Some s
      | first # _ \<Rightarrow> select_origin (item_label first) now s)"

text \<open>The initial state and the mount, after which the default-route effect runs.\<close>

definition directions_init :: "lang \<Rightarrow> directions_state" where
  "directions_init l =
     \<lparr>ds_locale = l, map_src = MAP_SRC, active_origin = None, active_tab = Routes,
      should_load_map = False\<rparr>"

definition directions_mount :: "lang \<Rightarrow> nat \<Rightarrow> directions_state option" where
  "directions_mount l now = default_route now (directions_init l)"

text \<open>A tab button: setting the same tab again renders nothing and runs no effect;
  a new tab changes the list, so the default-route effect runs.\<close>

definition select_tab :: "tab \<Rightarrow> nat \<Rightarrow> directions_state \<Rightarrow> directions_state option" where
  "select_tab t now s = (if t = active_tab s then Some s else default_route now (s\<lparr>active_tab := t\<rparr>))"

text \<open>A change of the locale changes the list (\<open>NEARBY[loc]\<close>, \<open>ATTRACTIONS[loc]\<close>), so
  the default-route effect runs.\<close>

definition change_locale :: "lang \<Rightarrow> nat \<Rightarrow> directions_state \<Rightarrow> directions_state option" where
  "change_locale l now s = (if l = ds_locale s then Some s else default_route now (s\<lparr>ds_locale := l\<rparr>))"

text \<open>The observer callback when the map wrapper intersects, and the load button,
  which is rendered only while the map is not loaded.\<close>

definition map_visible :: "directions_state \<Rightarrow> directions_state" where
  "map_visible s = s\<lparr>should_load_map := True\<rparr>"

inductive dir_step :: "directions_state \<Rightarrow> directions_state \<Rightarrow> bool" where
  tab: "select_tab t now s = Some s' \<Longrightarrow> dir_step s s'"
| item: "it \<in> set (current_list s) \<Longrightarrow> select_origin (item_label it) now s = Some s' \<Longrightarrow> dir_step s s'"
| lang_change: "change_locale l now s = Some s' \<Longrightarrow> dir_step s s'"
| visible: "dir_step s (map_visible s)"
| load: "\<not> should_load_map s \<Longrightarrow> dir_step s (s\<lparr>should_load_map := True\<rparr>)"

inductive dir_reachable :: "directions_state \<Rightarrow> bool" where
  mount: "directions_mount l now = Some s \<Longrightarrow> dir_reachable s"
| step: "dir_reachable s \<Longrightarrow> dir_step s s' \<Longrightarrow> dir_reachable s'"

text \<open>\<open>selectedLabel = activeOrigin ?? ""\<close>: the empty string while no origin is selected.\<close>

definition selectedLabel :: "directions_state \<Rightarrow> jsstr" where
  "selectedLabel s = (case active_origin s of None \<Rightarrow> [] | Some lbl \<Rightarrow> lbl)"

text \<open>The item buttons marked \<open>aria-pressed\<close>: \<open>item.label === selectedLabel\<close>.\<close>

definition pressed_items :: "directions_state \<Rightarrow> nearby_item list" where
  "pressed_items s = filter (\<lambda>it. item_label it = selectedLabel s) (current_list s)"

text \<open>The rendered item button, as the click classifier reads it: the icon (an
  \<open>svg\<close> of \<open>react-icons\<close>, without text) and the label in one span, the distance
  and the unit (\<open>copy.unit\<close>, \<open>km\<close> in both locales) as text nodes in another.\<close>

definition COPY_unit :: "lang \<Rightarrow> jsstr" where
  "COPY_unit l = js ''km''"

definition item_icon :: node where
  "item_icon = Elem (js ''svg'') [] [Elem (js ''path'') [] []]"

definition item_button :: "directions_state \<Rightarrow> nearby_item \<Rightarrow> node" where
  "item_button s it =
     Elem (js ''button'')
       [(js ''type'', js ''button''),
        (js ''aria-pressed'', if item_label it = selectedLabel s then js ''true'' else js ''false'')]
       [Elem (js ''span'') [] [item_icon, Text (item_label it)],
        Elem (js ''span'') []
          [Elem (js ''span'') []
             [Text (dec_string (item_distance it)), Text (js '' ''), Text (COPY_unit (ds_locale s))]]]"

text \<open>The invariant of the page: the map is loaded, the selected origin is an item of
  the current list, and the map shows the directions from it.\<close>

definition dir_inv :: "directions_state \<Rightarrow> bool" where
  "dir_inv s \<longleftrightarrow>
     should_load_map s \<and>
     (\<exists>it \<in> set (current_list s). active_origin s = Some (item_label it) \<and>
        (\<exists>n. buildDirectionsEmbed (item_label it) False n = Some (map_src s)))"

section \<open>Lemmas\<close>

subsection \<open>Building and reading directions URLs\<close>

lemma utf16_decode_plain:
  "list_all (\<lambda>c. \<not> is_lead c \<and> \<not> is_trail c) s \<Longrightarrow> utf16_decode s = Some (map unat s)"
  by (induction s rule: utf16_decode.induct) simp_all

lemma tables_plain:
  "list_all (\<lambda>it. list_all (\<lambda>c. \<not> is_lead c \<and> \<not> is_trail c) (item_label it)) (NEARBY l)"
  "list_all (\<lambda>it. list_all (\<lambda>c. \<not> is_lead c \<and> \<not> is_trail c) (item_label it)) (ATTRACTIONS l)"
  "list_all (\<lambda>c. \<not> is_lead c \<and> \<not> is_trail c) DESTINATION"
  by (cases l; simp add: is_lead_def is_trail_def DESTINATION_def)+

lemma current_list_plain:
  "it \<in> set (current_list s) \<Longrightarrow> list_all (\<lambda>c. \<not> is_lead c \<and> \<not> is_trail c) (item_label it)"
  using tables_plain(1,2) [of "ds_locale s"] by (simp add: current_list_def list_all_iff split: if_splits)

lemma buildDirectionsEmbed_Some:
  assumes "list_all (\<lambda>c. \<not> is_lead c \<and> \<not> is_trail c) label"
  shows "buildDirectionsEmbed label a now =
           Some (embed_prefix @ concat (map enc_cp (map unat label)) @ js ''&daddr=''
                 @ concat (map enc_cp (map unat DESTINATION))
                 @ (if a then js ''&avoid=tolls'' else []) @ js ''&_cb='' @ dec_string now)"
  by (simp add: buildDirectionsEmbed_def encodeURIComponent_def utf16_decode_plain [OF assms]
      utf16_decode_plain [OF tables_plain(3)])

lemma amp_not_safe: "\<not> (uri_unreserved (unat (0x26 :: 16 word)) \<or> (0x26 :: 16 word) = 0x25)"
  by (simp add: uri_unreserved_def)

lemma embed_origin_build:
  assumes "buildDirectionsEmbed origin a now = Some u"
  shows "embed_origin u = Some origin"
proof -
  from assms obtain q d where q: "encodeURIComponent origin = Some q"
    and u: "u = embed_prefix @ q @ js ''&daddr='' @ d"
    by (auto simp: buildDirectionsEmbed_def split: option.splits)
  have "\<forall>c \<in> set q. c \<noteq> 0x26"
    using encodeURIComponent_safe [OF q] amp_not_safe by metis
  then have "takeWhile (\<lambda>c. c \<noteq> 0x26) (q @ js ''&daddr='' @ d) = q"
    by (simp add: takeWhile_append2)
  with u show ?thesis
    by (simp add: embed_origin_def encodeURIComponent_roundtrip [OF q])
qed

lemma embed_prefix_not_MAP_SRC: "\<not> starts_with embed_prefix MAP_SRC"
  by (simp add: embed_prefix_def MAP_SRC_def)

lemma build_starts: "buildDirectionsEmbed label a now = Some u \<Longrightarrow> starts_with embed_prefix u"
  by (auto simp: buildDirectionsEmbed_def split: option.splits)

lemma build_not_MAP_SRC: "buildDirectionsEmbed label a now = Some u \<Longrightarrow> u \<noteq> MAP_SRC"
  using build_starts embed_prefix_not_MAP_SRC by blast

subsection \<open>The page state\<close>

lemma current_list_upd [simp]:
  "current_list (s\<lparr>should_load_map := b\<rparr>) = current_list s"
  "current_list (s\<lparr>map_src := u\<rparr>) = current_list s"
  "current_list (s\<lparr>active_origin := o'\<rparr>) = current_list s"
  by (simp_all add: current_list_def)

lemma current_list_nonempty: "current_list s \<noteq> []"
  by (cases "ds_locale s"; cases "active_tab s") (simp_all add: current_list_def)

lemma current_list_distinct: "distinct (map item_label (current_list s))"
  by (cases "ds_locale s"; cases "active_tab s") (simp_all add: current_list_def)

lemma current_list_labels: "list_all (\<lambda>it. item_label it \<noteq> []) (current_list s)"
  by (cases "ds_locale s"; cases "active_tab s") (simp_all add: current_list_def)

text \<open>No item has an empty label, so while no origin is selected (\<open>selectedLabel\<close> is
  the empty string) no button is pressed, and otherwise exactly the selected one is.\<close>

lemma pressed_items_active:
  "pressed_items s = filter (\<lambda>it. Some (item_label it) = active_origin s) (current_list s)"
  using current_list_labels [of s]
  by (auto simp: pressed_items_def selectedLabel_def list_all_iff intro!: filter_cong split: option.split)

lemma pressed_items_init: "pressed_items (directions_init l) = []"
  by (simp add: pressed_items_active directions_init_def)

lemma select_origin_Some:
  assumes "it \<in> set (current_list s)"
  shows "\<exists>s'. select_origin (item_label it) now s = Some s'"
  using buildDirectionsEmbed_Some [OF current_list_plain [OF assms]] by (simp add: select_origin_def)

lemma default_route_Some: "\<exists>s'. default_route now s = Some s'"
proof -
  obtain first rest where l: "current_list s = first # rest"
    using current_list_nonempty by (cases "current_list s") auto
  then have "first \<in> set (current_list s)" by simp
  from select_origin_Some [OF this, of now] l show ?thesis by (simp add: default_route_def)
qed

lemma default_route_props:
  assumes "default_route now s = Some s'"
  shows "dir_inv s' \<and> current_list s' = current_list s
         \<and> active_origin s' = Some (item_label (hd (current_list s)))"
proof -
  obtain first rest where l: "current_list s = first # rest"
    using current_list_nonempty by (cases "current_list s") auto
  with assms obtain u where b: "buildDirectionsEmbed (item_label first) False now = Some u"
    and s': "s' = s\<lparr>active_origin := Some (item_label first), map_src := u, should_load_map := True\<rparr>"
    by (auto simp: default_route_def select_origin_def)
  have cl: "current_list s' = current_list s" by (simp add: s' current_list_def)
  have "dir_inv s'" using b l cl by (auto simp: dir_inv_def s')
  with cl l show ?thesis by (simp add: s')
qed

lemma default_route_keeps:
  "default_route now s = Some s' \<Longrightarrow> active_tab s' = active_tab s \<and> ds_locale s' = ds_locale s"
  by (auto simp: default_route_def select_origin_def split: list.splits)

lemma dir_step_inv: "dir_step s s' \<Longrightarrow> dir_inv s \<Longrightarrow> dir_inv s'"
proof (induction rule: dir_step.induct)
  case (tab t now s s')
  then show ?case
    by (cases "t = active_tab s") (auto simp: select_tab_def dest: default_route_props)
next
  case (item it s now s')
  then obtain u where b: "buildDirectionsEmbed (item_label it) False now = Some u"
    and s': "s' = s\<lparr>active_origin := Some (item_label it), map_src := u, should_load_map := True\<rparr>"
    by (auto simp: select_origin_def)
  have "current_list s' = current_list s" by (simp add: s' current_list_def)
  with item.hyps(1) b show ?case by (auto simp: dir_inv_def s')
next
  case (lang_change l now s s')
  then show ?case
    by (cases "l = ds_locale s") (auto simp: change_locale_def dest: default_route_props)
next
  case (visible s)
  then show ?case by (simp add: dir_inv_def map_visible_def)
next
  case (load s)
  then show ?case by (simp add: dir_inv_def)
qed

lemma dir_reachable_inv: "dir_reachable s \<Longrightarrow> dir_inv s"
proof (induction rule: dir_reachable.induct)
  case (mount l now s)
  then show ?case by (auto simp: directions_mount_def dest: default_route_props)
next
  case (step s s')
  then show ?case using dir_step_inv by blast
qed

lemma filter_distinct_single:
  "distinct (map f xs) \<Longrightarrow> x \<in> set xs \<Longrightarrow> filter (\<lambda>y. f y = f x) xs = [x]"
  by (induction xs) (auto simp: filter_empty_conv image_iff)

lemma directions_mount_reachable:
  "directions_mount l now = Some (the (directions_mount l now)) \<and> dir_reachable (the (directions_mount l now))"
proof -
  obtain s' where "default_route now (directions_init l) = Some s'"
    using default_route_Some by blast
  then show ?thesis by (simp add: directions_mount_def dir_reachable.mount)
qed

lemma directions_mount_state:
  "directions_mount l now = Some s \<Longrightarrow> active_tab s = Routes \<and> ds_locale s = l"
  by (auto simp: directions_mount_def default_route_def select_origin_def directions_init_def
      split: list.splits)

subsection \<open>Properties of the page\<close>

text \<open>
  C28 (invariant). In every state of the getting-there page the map is loaded and shows
  a directions URL, never the initial \<open>MAP_SRC\<close>: the default-route effect runs at mount
  and sets \<open>shouldLoadMap\<close>, so the intersection observer and the load button (the
  page's lazy loading) never have anything to do.
\<close>

theorem directions_map_always_loaded:
  assumes "dir_reachable s"
  shows "should_load_map s \<and> map_src s \<noteq> MAP_SRC"
  using dir_reachable_inv [OF assms] build_not_MAP_SRC by (auto simp: dir_inv_def)

theorem directions_map_always_loaded_witness:
  "should_load_map (the (directions_mount PL 0)) \<and> map_src (the (directions_mount PL 0)) \<noteq> MAP_SRC"
  using directions_map_always_loaded [OF conjunct2 [OF directions_mount_reachable]] .

text \<open>
  C29 (invariant). In every state exactly one item button of the current list is
  pressed (\<open>aria-pressed\<close>), it is the active origin, and the map's URL reads back to
  that origin: the highlighted place and the route shown always agree.
\<close>

theorem directions_one_pressed:
  assumes "dir_reachable s"
  shows "\<exists>it. pressed_items s = [it] \<and> active_origin s = Some (item_label it)
              \<and> embed_origin (map_src s) = Some (item_label it)"
proof -
  from dir_reachable_inv [OF assms] obtain it n where it: "it \<in> set (current_list s)"
    and o: "active_origin s = Some (item_label it)"
    and b: "buildDirectionsEmbed (item_label it) False n = Some (map_src s)"
    by (auto simp: dir_inv_def)
  have "pressed_items s = [it]"
    using filter_distinct_single [OF current_list_distinct it] o by (simp add: pressed_items_def selectedLabel_def)
  with o embed_origin_build [OF b] show ?thesis by blast
qed

theorem directions_one_pressed_witness:
  "\<exists>it. pressed_items (the (directions_mount PL 0)) = [it]
        \<and> active_origin (the (directions_mount PL 0)) = Some (item_label it)
        \<and> embed_origin (map_src (the (directions_mount PL 0))) = Some (item_label it)"
  using directions_one_pressed [OF conjunct2 [OF directions_mount_reachable]] .

text \<open>
  C30 (roundtrip). \<open>buildDirectionsEmbed\<close> succeeds for every origin without an
  unpaired surrogate, with or without toll avoidance and at every time stamp, and the
  origin is read back from the URL's \<open>saddr\<close> parameter unchanged.
\<close>

theorem directions_url_roundtrip:
  assumes "list_all (\<lambda>c. \<not> is_lead c \<and> \<not> is_trail c) origin"
  shows "\<exists>u. buildDirectionsEmbed origin avoidTolls now = Some u \<and> embed_origin u = Some origin"
  using buildDirectionsEmbed_Some [OF assms, of avoidTolls now] embed_origin_build by blast

theorem directions_url_roundtrip_witness:
  "\<exists>u. buildDirectionsEmbed (js ''Krak'' @ [0xF3] @ js ''w'') True 1700000000000 = Some u
       \<and> embed_origin u = Some (js ''Krak'' @ [0xF3] @ js ''w'')"
  by (rule directions_url_roundtrip) (simp add: is_lead_def is_trail_def)

text \<open>
  C31 (functional). Switching to the other tab, or a change of locale, selects the
  first item of the new list as the origin and shows its route, whatever was selected
  before.
\<close>

theorem directions_switch_resets_origin:
  assumes "(select_tab t now s = Some s' \<and> t \<noteq> active_tab s)
           \<or> (change_locale l now s = Some s' \<and> l \<noteq> ds_locale s)"
  shows "active_origin s' = Some (item_label (hd (current_list s'))) \<and> should_load_map s'"
  using assms
  by (auto simp: select_tab_def change_locale_def dir_inv_def dest!: default_route_props)

theorem directions_switch_resets_origin_witness:
  "\<exists>s'. select_tab Attractions 5 (the (directions_mount PL 0)) = Some s'
        \<and> active_origin s' = Some (js ''Zamek Tenczyn'')"
proof -
  let ?s = "the (directions_mount PL 0)"
  have m: "active_tab ?s = Routes \<and> ds_locale ?s = PL"
    using directions_mount_state conjunct1 [OF directions_mount_reachable] by blast
  obtain s' where "default_route 5 (?s\<lparr>active_tab := Attractions\<rparr>) = Some s'"
    using default_route_Some by blast
  then have s': "select_tab Attractions 5 ?s = Some s'" using m by (simp add: select_tab_def)
  have "active_origin s' = Some (item_label (hd (current_list s')))"
    using directions_switch_resets_origin [of Attractions 5 ?s s'] s' m by simp
  moreover have "current_list s' = ATTRACTIONS PL"
    using s' m default_route_props [of 5 "?s\<lparr>active_tab := Attractions\<rparr>" s']
    by (simp add: select_tab_def current_list_def)
  ultimately show ?thesis using s' by auto
qed

subsection \<open>The item buttons under the click classifier\<close>

lemma item_button_labels_nearby:
  "list_all (\<lambda>it. getLabel (item_button s it) = Some (item_label it @ dec_string (item_distance it) @ js '' km''))
     (NEARBY l)"
  by (cases l) (simp_all add: getLabel_def item_button_def item_icon_def COPY_unit_def dec_string.simps
      collapse_runs_Cons js_trim_def js_ws_def MAX_LABEL_LENGTH_def)

lemma item_button_labels_attractions:
  "list_all (\<lambda>it. getLabel (item_button s it) = Some (item_label it @ dec_string (item_distance it) @ js '' km''))
     (ATTRACTIONS l)"
  by (cases l) (simp_all add: getLabel_def item_button_def item_icon_def COPY_unit_def dec_string.simps
      collapse_runs_Cons js_trim_def js_ws_def MAX_LABEL_LENGTH_def)

lemma item_labels_plain_nearby:
  "list_all (\<lambda>it. label_param (item_button s it) = Some (JStr (item_label it @ dec_string (item_distance it) @ js '' km''))
     \<and> detectLanguageSwitch (Some (JStr (item_label it @ dec_string (item_distance it) @ js '' km''))) = Inr None)
     (NEARBY l)"
  using item_button_labels_nearby [of s l]
  by (cases l) (simp_all add: label_param_def normalizeLabel_def js_obj_get_def LABEL_MAP_def
      object_prototype_keys_def detectLanguageSwitch_def dec_string.simps lower_unit_def js_trim_def js_ws_def)

lemma item_labels_plain_attractions:
  "list_all (\<lambda>it. label_param (item_button s it) = Some (JStr (item_label it @ dec_string (item_distance it) @ js '' km''))
     \<and> detectLanguageSwitch (Some (JStr (item_label it @ dec_string (item_distance it) @ js '' km''))) = Inr None)
     (ATTRACTIONS l)"
  using item_button_labels_attractions [of s l]
  by (cases l) (simp_all add: label_param_def normalizeLabel_def js_obj_get_def LABEL_MAP_def
      object_prototype_keys_def detectLanguageSwitch_def dec_string.simps lower_unit_def js_trim_def js_ws_def)

lemma item_button_events:
  assumes "it \<in> set (NEARBY l) \<or> it \<in> set (ATTRACTIONS l)"
  shows "\<not> is_ignored (item_button s it) \<and> is_element (item_button s it) \<and> is_clickable (item_button s it)
         \<and> click_events env (item_button s it) =
             Inr [(js ''ui_click'', [(js ''label'', Some (JStr (item_label it @ dec_string (item_distance it) @ js '' km''))),
                                    (js ''href'', None)])]"
proof -
  have "label_param (item_button s it) = Some (JStr (item_label it @ dec_string (item_distance it) @ js '' km''))
     \<and> detectLanguageSwitch (Some (JStr (item_label it @ dec_string (item_distance it) @ js '' km''))) = Inr None"
    using assms item_labels_plain_nearby [of s l] item_labels_plain_attractions [of s l]
    by (auto simp: list_all_iff)
  moreover have "get_attribute (item_button s it) (js ''data-analytics-event'') = None"
    and "getHref env (item_button s it) = None"
    and "\<not> is_ignored (item_button s it) \<and> is_element (item_button s it) \<and> is_clickable (item_button s it)"
    by (simp_all add: item_button_def getHref_def is_anchor_def is_ignored_def is_clickable_def)
  ultimately show ?thesis
    by (simp add: click_events_def generic_event_def event_name_of_def)
qed

lemma item_button_inner_unclickable:
  "x \<in> set (tl (path_nodes (item_button s it) p)) \<Longrightarrow> \<not> is_clickable x"
proof (cases p)
  case (Cons j p')
  assume x: "x \<in> set (tl (path_nodes (item_button s it) p))"
  then obtain c where ch: "child_at (item_button s it) j = Some c" and xc: "x \<in> set (path_nodes c p')"
    using Cons by (cases "child_at (item_button s it) j") auto
  have "c \<in> set [Elem (js ''span'') [] [item_icon, Text (item_label it)],
        Elem (js ''span'') []
          [Elem (js ''span'') []
             [Text (dec_string (item_distance it)), Text (js '' ''), Text (COPY_unit (ds_locale s))]]]"
    using ch by (auto simp: item_button_def less_Suc_eq split: if_splits)
  moreover have "x \<in> set (all_nodes c)" using xc by (rule path_nodes_all_nodes)
  ultimately show ?thesis by (auto simp: item_icon_def is_clickable_def)
qed simp

section \<open>Properties of the item buttons\<close>

text \<open>
  C40 (functional, cross-component). Wherever an item button of the getting-there
  page sits in the document, a click on it or on anything inside it (the icon, the
  name, the distance) appends one \<open>ui_click\<close> event whose label is the button's
  \<open>textContent\<close>: the place name immediately followed by the distance, as in
  \<open>Krak\<oacute>w25 km\<close>. The two spans that the page lays out apart have no separating
  white space, so \<open>getLabel\<close> runs them together.
\<close>

theorem item_click_label_runs_together:
  assumes "it \<in> set (NEARBY l) \<or> it \<in> set (ATTRACTIONS l)"
    and "node_at root q = Some (item_button s it)" and "node_at root (q @ p) = Some t"
    and "is_element t" and "gtag_defined w"
  shows "onDocumentClick env root (q @ p) (Some w) =
           Inr (Some (w\<lparr>data_layer := data_layer w @
             [event_entry (js ''ui_click'')
                [(js ''label'', Some (JStr (item_label it @ dec_string (item_distance it) @ js '' km''))),
                 (js ''href'', None)]]\<rparr>))"
proof -
  note ev = item_button_events [OF assms(1), of s env]
  have "nearest_clickable root (q @ p) = Some (item_button s it)"
    unfolding nearest_clickable_def
    by (rule find_nearest_subtree [OF assms(2)]) (use ev item_button_inner_unclickable in blast)+
  with onDocumentClick_eq [OF assms(3,4,5), of env] ev show ?thesis by (simp add: emitted_def)
qed

theorem item_click_label_runs_together_witness:
  "onDocumentClick example_env
     (item_button (directions_init PL) \<lparr>item_label = js ''Krak'' @ [0xF3] @ js ''w'', item_distance = 25\<rparr>) [0, 0]
     (Some \<lparr>gtag_defined = True, data_layer = []\<rparr>) =
   Inr (Some \<lparr>gtag_defined = True, data_layer =
     [event_entry (js ''ui_click'')
        [(js ''label'', Some (JStr (js ''Krak'' @ [0xF3] @ js ''w25 km''))), (js ''href'', None)]]\<rparr>)"
proof -
  let ?it = "\<lparr>item_label = js ''Krak'' @ [0xF3] @ js ''w'', item_distance = 25\<rparr>"
  have m: "?it \<in> set (NEARBY PL) \<or> ?it \<in> set (ATTRACTIONS PL)" by simp
  have q: "node_at (item_button (directions_init PL) ?it) [] = Some (item_button (directions_init PL) ?it)"
    by simp
  have t: "node_at (item_button (directions_init PL) ?it) ([] @ [0, 0]) = Some item_icon"
    by (simp add: item_button_def)
  have e: "is_element item_icon" by (simp add: item_icon_def)
  have d: "dec_string 25 = js ''25''" by (simp add: dec_string.simps)
  show ?thesis
    using item_click_label_runs_together [OF m q t e, of "\<lparr>gtag_defined = True, data_layer = []\<rparr>" example_env]
    by (simp add: d)
qed

end
