(* ===== verification/MediaPlayback.thy ===== *)
theory MediaPlayback
  imports Prelude
begin

text \<open>
  The autoplaying videos of \<open>src/src/app/wydarzenia/page.tsx\<close>. \<open>EventVideo\<close>
  pauses its video when an \<open>IntersectionObserver\<close> reports it out of view, and resumes
  it from a \<open>pause\<close> event listener and from two effects that depend on the React
  state \<open>isVisible\<close>. The hero video of \<open>EventsPage\<close> is played or paused by one
  effect on \<open>isHeroVisible\<close>. Three kinds of step interleave: observer callbacks (which
  set React state and, for \<open>EventVideo\<close>, call \<open>pause()\<close>), React commits (a render
  whose changed dependency makes its passive effects run, re-registering the event
  listeners with the new \<open>isVisible\<close> captured), and media element tasks (the
  \<open>pause\<close> event that \<open>pause()\<close> queues, dispatched to the listener registered at
  that time). The media element keeps the HTML state the code reads: \<open>paused\<close>, the
  autoplaying flag and the queue of \<open>pause\<close> event tasks; \<open>play()\<close> of a muted
  inline video is taken to succeed. The \<open>ended\<close> event never fires (the videos
  loop). \<open>isLoaded\<close> of \<open>EventVideo\<close> starts true and is only ever set to true.
  The page's two other stateful widgets are here too: \<open>VideoTile\<close> (a poster button
  that, once clicked, becomes an autoplaying YouTube iframe) and \<open>MapFrame\<close> (a map
  iframe loaded when its wrapper first intersects the viewport or its button is
  pressed), each with the view it renders.
\<close>

section \<open>The media element\<close>

datatype media_task = PauseTask

record media =
  paused :: bool
  autoplaying :: bool
  tasks :: "media_task list"

text \<open>\<open>pause()\<close>: clear the autoplaying flag; if playing, set \<open>paused\<close> and queue the
  \<open>pause\<close> event.\<close>

definition media_pause :: "media \<Rightarrow> media" where
  "media_pause m =
     (if paused m then m\<lparr>autoplaying := False\<rparr>
      else m\<lparr>paused := True, autoplaying := False, tasks := tasks m @ [PauseTask]\<rparr>)"

text \<open>\<open>play()\<close> (allowed for a muted inline video).\<close>

definition media_play :: "media \<Rightarrow> media" where
  "media_play m = m\<lparr>paused := False, autoplaying := False\<rparr>"

text \<open>Autoplay: a paused element with the autoplaying flag starts once it can play.\<close>

definition media_autoplay :: "media \<Rightarrow> media" where
  "media_autoplay m = m\<lparr>paused := False, autoplaying := False\<rparr>"

text \<open>A freshly inserted \<open>autoPlay\<close> video.\<close>

definition media_init :: media where
  "media_init = \<lparr>paused = True, autoplaying = True, tasks = []\<rparr>"

section \<open>EventVideo\<close>

text \<open>\<open>ev_visible\<close> is the React state \<open>isVisible\<close> as last set; \<open>ev_committed\<close> is
  its value in the last render whose effects ran, which the registered \<open>pause\<close> and
  \<open>webkitendfullscreen\<close> listeners captured; \<open>ev_observed\<close> is the observer's last
  report (\<open>None\<close> before its first callback).\<close>

record event_video =
  ev_media :: media
  ev_visible :: bool
  ev_committed :: bool
  ev_observed :: "bool option"
  ev_loaded :: bool

text \<open>\<open>ensurePlay\<close> of a listener that captured \<open>isVisible = v\<close>.\<close>

definition ensure_play :: "bool \<Rightarrow> media \<Rightarrow> media" where
  "ensure_play v m = (if v then media_play m else m)"

text \<open>After mount: the effects of the first render ran with \<open>isVisible = false\<close>, so
  \<open>ensurePlay\<close> and the play effect did nothing.\<close>

definition ev_init :: event_video where
  "ev_init = \<lparr>ev_media = media_init, ev_visible = False, ev_committed = False, ev_observed = None,
              ev_loaded = True\<rparr>"

text \<open>The observer callback: \<open>setIsVisible(entry.isIntersecting)\<close>, then
  \<open>video.pause()\<close> when not intersecting.\<close>

definition ev_observe :: "bool \<Rightarrow> event_video \<Rightarrow> event_video" where
  "ev_observe b s =
     s\<lparr>ev_visible := b, ev_observed := Some b,
       ev_media := (if b then ev_media s else media_pause (ev_media s))\<rparr>"

text \<open>A commit with a changed \<open>isVisible\<close>: the Safari effect re-registers its
  listeners (capturing the new value) and calls \<open>ensurePlay\<close>, then the play effect
  calls \<open>play()\<close> when visible.\<close>

definition ev_commit :: "event_video \<Rightarrow> event_video" where
  "ev_commit s =
     s\<lparr>ev_committed := ev_visible s,
       ev_media := (if ev_visible s then media_play (ensure_play (ev_visible s) (ev_media s))
                    else ensure_play (ev_visible s) (ev_media s))\<rparr>"

text \<open>Dispatch of the next queued \<open>pause\<close> event to \<open>handlePause\<close>:
  \<open>if (video.paused) ensurePlay()\<close>, with the captured \<open>isVisible\<close>.\<close>

definition ev_dispatch :: "event_video \<Rightarrow> event_video" where
  "ev_dispatch s =
     (case tasks (ev_media s) of
        [] \<Rightarrow> s
      | PauseTask # rest \<Rightarrow>
          (let m = (ev_media s)\<lparr>tasks := rest\<rparr>
           in s\<lparr>ev_media := (if paused m then ensure_play (ev_committed s) m else m)\<rparr>))"

text \<open>\<open>webkitendfullscreen\<close> (iOS): \<open>ensurePlay()\<close>.\<close>

definition ev_end_fullscreen :: "event_video \<Rightarrow> event_video" where
  "ev_end_fullscreen s = s\<lparr>ev_media := ensure_play (ev_committed s) (ev_media s)\<rparr>"

text \<open>\<open>setIsLoaded(true)\<close>: after mount when \<open>readyState >= 2\<close>, on \<open>canplay\<close>
  and on \<open>loadeddata\<close>.\<close>

definition ev_loaded_data :: "event_video \<Rightarrow> event_video" where
  "ev_loaded_data s = s\<lparr>ev_loaded := True\<rparr>"

text \<open>The observer calls back once after \<open>observe()\<close> and then whenever the
  intersection state changes; React commits only when the state differs from the last
  committed one; queued tasks run in order.\<close>

inductive ev_step :: "event_video \<Rightarrow> event_video \<Rightarrow> bool" where
  observe: "ev_observed s \<noteq> Some b \<Longrightarrow> ev_step s (ev_observe b s)"
| commit: "ev_visible s \<noteq> ev_committed s \<Longrightarrow> ev_step s (ev_commit s)"
| dispatch: "tasks (ev_media s) \<noteq> [] \<Longrightarrow> ev_step s (ev_dispatch s)"
| autoplay: "autoplaying (ev_media s) \<and> paused (ev_media s) \<Longrightarrow>
              ev_step s (s\<lparr>ev_media := media_autoplay (ev_media s)\<rparr>)"
| fullscreen: "ev_step s (ev_end_fullscreen s)"
| loaded: "ev_step s (ev_loaded_data s)"

inductive ev_reachable :: "event_video \<Rightarrow> bool" where
  init: "ev_reachable ev_init"
| step: "ev_reachable s \<Longrightarrow> ev_step s s' \<Longrightarrow> ev_reachable s'"

text \<open>The state the race leaves behind: the observer last reported the video out of
  view, React has committed that, no event is pending, and the video plays.\<close>

definition offscreen_playing :: "event_video \<Rightarrow> bool" where
  "offscreen_playing s \<longleftrightarrow>
     ev_observed s = Some False \<and> \<not> ev_visible s \<and> \<not> ev_committed s
     \<and> tasks (ev_media s) = [] \<and> \<not> paused (ev_media s)"

text \<open>The work the browser and React do on their own, without the observer or the
  user: a pending commit, a queued \<open>pause\<close> event, autoplay. \<open>ev_pending\<close> counts
  it.\<close>

inductive ev_internal :: "event_video \<Rightarrow> event_video \<Rightarrow> bool" where
  commit: "ev_visible s \<noteq> ev_committed s \<Longrightarrow> ev_internal s (ev_commit s)"
| dispatch: "tasks (ev_media s) \<noteq> [] \<Longrightarrow> ev_internal s (ev_dispatch s)"
| autoplay: "autoplaying (ev_media s) \<and> paused (ev_media s) \<Longrightarrow>
              ev_internal s (s\<lparr>ev_media := media_autoplay (ev_media s)\<rparr>)"

definition ev_pending :: "event_video \<Rightarrow> nat" where
  "ev_pending s =
     length (tasks (ev_media s)) + (if ev_visible s \<noteq> ev_committed s then 1 else 0)
     + (if autoplaying (ev_media s) \<and> paused (ev_media s) then 1 else 0)"

section \<open>The hero video\<close>

record hero_video =
  hero_media :: media
  hero_visible :: bool
  hero_committed :: bool
  hero_observed :: "bool option"

text \<open>The effect on \<open>isHeroVisible\<close>: play when visible, pause otherwise.\<close>

definition hero_effect :: "bool \<Rightarrow> media \<Rightarrow> media" where
  "hero_effect v m = (if v then media_play m else media_pause m)"

text \<open>After mount: the effect ran with \<open>isHeroVisible = false\<close> and paused the video.\<close>

definition hero_init :: hero_video where
  "hero_init = \<lparr>hero_media = hero_effect False media_init, hero_visible = False,
                hero_committed = False, hero_observed = None\<rparr>"

definition hero_observe :: "bool \<Rightarrow> hero_video \<Rightarrow> hero_video" where
  "hero_observe b s = s\<lparr>hero_visible := b, hero_observed := Some b\<rparr>"

definition hero_commit :: "hero_video \<Rightarrow> hero_video" where
  "hero_commit s = s\<lparr>hero_committed := hero_visible s, hero_media := hero_effect (hero_visible s) (hero_media s)\<rparr>"

text \<open>The hero has no \<open>pause\<close> listener: a queued \<open>pause\<close> event only leaves the queue.\<close>

definition hero_dispatch :: "hero_video \<Rightarrow> hero_video" where
  "hero_dispatch s = s\<lparr>hero_media := (hero_media s)\<lparr>tasks := drop 1 (tasks (hero_media s))\<rparr>\<rparr>"

inductive hero_step :: "hero_video \<Rightarrow> hero_video \<Rightarrow> bool" where
  observe: "hero_observed s \<noteq> Some b \<Longrightarrow> hero_step s (hero_observe b s)"
| commit: "hero_visible s \<noteq> hero_committed s \<Longrightarrow> hero_step s (hero_commit s)"
| dispatch: "tasks (hero_media s) \<noteq> [] \<Longrightarrow> hero_step s (hero_dispatch s)"
| autoplay: "autoplaying (hero_media s) \<and> paused (hero_media s) \<Longrightarrow>
              hero_step s (s\<lparr>hero_media := media_autoplay (hero_media s)\<rparr>)"

inductive hero_reachable :: "hero_video \<Rightarrow> bool" where
  init: "hero_reachable hero_init"
| step: "hero_reachable s \<Longrightarrow> hero_step s s' \<Longrightarrow> hero_reachable s'"

section \<open>Embedded frames\<close>

text \<open>\<open>VideoItem\<close>; an absent \<open>embed\<close> is \<open>False\<close>.\<close>

record video_item =
  vi_title :: jsstr
  vi_body :: jsstr
  vi_src :: jsstr
  vi_poster :: jsstr
  vi_embed :: bool

text \<open>\<open>isActivated\<close> and \<open>isLoaded\<close> of a \<open>VideoTile\<close>.\<close>

record tile_state =
  tile_activated :: bool
  tile_loaded :: bool

definition tile_init :: tile_state where
  "tile_init = \<lparr>tile_activated = False, tile_loaded = False\<rparr>"

definition tile_iframe_src :: "video_item \<Rightarrow> jsstr" where
  "tile_iframe_src it = vi_src it @ js ''?rel=0&modestbranding=1&playsinline=1&autoplay=1''"

text \<open>What a tile renders: the poster button, the iframe (with the loading overlay while
  not loaded), or an \<open>EventVideo\<close> for a non-embedded item.\<close>

datatype tile_view = TilePoster | TileFrame bool jsstr | TileVideo jsstr

definition video_tile_view :: "video_item \<Rightarrow> tile_state \<Rightarrow> tile_view" where
  "video_tile_view it s =
     (if vi_embed it then
        (if \<not> tile_activated s then TilePoster else TileFrame (\<not> tile_loaded s) (tile_iframe_src it))
      else TileVideo (vi_src it))"

text \<open>The poster button exists only before activation, the iframe's \<open>onLoad\<close> only after.\<close>

inductive tile_step :: "video_item \<Rightarrow> tile_state \<Rightarrow> tile_state \<Rightarrow> bool" where
  activate: "vi_embed it \<Longrightarrow> \<not> tile_activated s \<Longrightarrow> tile_step it s (s\<lparr>tile_activated := True\<rparr>)"
| load: "vi_embed it \<Longrightarrow> tile_activated s \<Longrightarrow> tile_step it s (s\<lparr>tile_loaded := True\<rparr>)"

text \<open>\<open>shouldLoad\<close> and \<open>isLoaded\<close> of a \<open>MapFrame\<close>, and whether its observer is
  still connected (it disconnects after the first intersection).\<close>

record map_frame =
  mf_should_load :: bool
  mf_loaded :: bool
  mf_observing :: bool

definition mf_init :: map_frame where
  "mf_init = \<lparr>mf_should_load = False, mf_loaded = False, mf_observing = True\<rparr>"

definition mf_observe :: "bool \<Rightarrow> map_frame \<Rightarrow> map_frame" where
  "mf_observe b s = (if b then s\<lparr>mf_should_load := True, mf_observing := False\<rparr> else s)"

definition mf_click :: "map_frame \<Rightarrow> map_frame" where
  "mf_click s = s\<lparr>mf_should_load := True\<rparr>"

definition mf_onload :: "map_frame \<Rightarrow> map_frame" where
  "mf_onload s = s\<lparr>mf_loaded := True\<rparr>"

datatype map_view = MapPlaceholder | MapLoading | MapShown

definition map_frame_view :: "map_frame \<Rightarrow> map_view" where
  "map_frame_view s =
     (if \<not> mf_should_load s then MapPlaceholder else if \<not> mf_loaded s then MapLoading else MapShown)"

inductive mf_step :: "map_frame \<Rightarrow> map_frame \<Rightarrow> bool" where
  observe: "mf_observing s \<Longrightarrow> mf_step s (mf_observe b s)"
| click: "\<not> mf_should_load s \<Longrightarrow> mf_step s (mf_click s)"
| onload: "mf_should_load s \<Longrightarrow> mf_step s (mf_onload s)"

section \<open>Lemmas\<close>

subsection \<open>Embedded frames\<close>

text \<open>Once a tile shows its iframe, or a map frame its iframe, every later step keeps
  it (the state is two monotone flags).\<close>

lemma tile_step_keeps_frame:
  "tile_step it s s' \<Longrightarrow> video_tile_view it s \<noteq> TilePoster \<Longrightarrow> video_tile_view it s' \<noteq> TilePoster"
  by (induction rule: tile_step.induct) (auto simp: video_tile_view_def)

lemma mf_step_keeps_frame:
  "mf_step s s' \<Longrightarrow> map_frame_view s \<noteq> MapPlaceholder \<Longrightarrow> map_frame_view s' \<noteq> MapPlaceholder"
  by (induction rule: mf_step.induct) (auto simp: map_frame_view_def mf_observe_def mf_click_def mf_onload_def split: if_splits)

subsection \<open>EventVideo\<close>

text \<open>While the registered listeners see the video as visible, it plays or a
  \<open>pause\<close> event is pending (whose listener will resume it).\<close>

lemma ev_step_inv:
  assumes "ev_step s s'" and "ev_committed s \<longrightarrow> \<not> paused (ev_media s) \<or> tasks (ev_media s) \<noteq> []"
  shows "ev_committed s' \<longrightarrow> \<not> paused (ev_media s') \<or> tasks (ev_media s') \<noteq> []"
  using assms
proof (induction rule: ev_step.induct)
  case (observe s b)
  then show ?case by (auto simp: ev_observe_def media_pause_def)
next
  case (commit s)
  then show ?case by (auto simp: ev_commit_def media_play_def ensure_play_def)
next
  case (dispatch s)
  then show ?case
    by (auto simp: ev_dispatch_def ensure_play_def media_play_def Let_def
        split: list.splits media_task.splits)
next
  case (autoplay s)
  then show ?case by (simp add: media_autoplay_def)
next
  case (fullscreen s)
  then show ?case by (auto simp: ev_end_fullscreen_def ensure_play_def media_play_def)
next
  case (loaded s)
  then show ?case by (simp add: ev_loaded_data_def)
qed

lemma ev_reachable_inv:
  "ev_reachable s \<Longrightarrow> ev_committed s \<longrightarrow> \<not> paused (ev_media s) \<or> tasks (ev_media s) \<noteq> []"
  by (induction rule: ev_reachable.induct) (auto simp: ev_init_def dest: ev_step_inv)

text \<open>\<open>isLoaded\<close> is constant: nothing sets it to false.\<close>

lemma ev_reachable_loaded: "ev_reachable s \<Longrightarrow> ev_loaded s"
  by (induction rule: ev_reachable.induct)
     (auto simp: ev_init_def elim: ev_step.cases simp add: ev_observe_def ev_commit_def ev_dispatch_def
      ev_end_fullscreen_def ev_loaded_data_def Let_def split: list.split media_task.split)

text \<open>The two orders of the commit and the \<open>pause\<close> event after the video leaves the
  view, from a settled visible state.\<close>

lemma ev_leave_commit_first:
  assumes "ev_visible s" "ev_committed s" "tasks (ev_media s) = []" "\<not> paused (ev_media s)"
  shows "ev_dispatch (ev_commit (ev_observe False s)) =
           s\<lparr>ev_media := (ev_media s)\<lparr>paused := True, autoplaying := False\<rparr>,
             ev_visible := False, ev_committed := False, ev_observed := Some False\<rparr>"
  using assms
  by (simp add: ev_dispatch_def ev_commit_def ev_observe_def media_pause_def ensure_play_def)

lemma ev_leave_event_first:
  assumes "ev_visible s" "ev_committed s" "tasks (ev_media s) = []" "\<not> paused (ev_media s)"
  shows "ev_commit (ev_dispatch (ev_observe False s)) =
           s\<lparr>ev_media := (ev_media s)\<lparr>paused := False, autoplaying := False\<rparr>,
             ev_visible := False, ev_committed := False, ev_observed := Some False\<rparr>"
  using assms
  by (simp add: ev_dispatch_def ev_commit_def ev_observe_def media_pause_def ensure_play_def
      media_play_def)

lemma ev_reachable_steps:
  "ev_reachable s \<Longrightarrow> ev_step s s' \<Longrightarrow> ev_step s' s'' \<Longrightarrow> ev_reachable s''"
  by (blast intro: ev_reachable.step)

lemma ev_internal_step: "ev_internal s s' \<Longrightarrow> ev_step s s'"
  by (induction rule: ev_internal.induct) (auto intro: ev_step.intros)

lemma ev_internal_visible: "ev_internal s s' \<Longrightarrow> ev_visible s' = ev_visible s"
  by (induction rule: ev_internal.induct)
     (auto simp: ev_commit_def ev_dispatch_def Let_def split: list.split media_task.split)

lemma ev_internal_pending: "ev_internal s s' \<Longrightarrow> ev_pending s' < ev_pending s"
  by (induction rule: ev_internal.induct)
     (auto simp: ev_pending_def ev_commit_def ev_dispatch_def ensure_play_def media_play_def
      media_autoplay_def Let_def split: list.split media_task.split)

lemma ev_internal_terminal:
  "(\<nexists>s'. ev_internal s s') \<longleftrightarrow>
     ev_visible s = ev_committed s \<and> tasks (ev_media s) = [] \<and> \<not> (autoplaying (ev_media s) \<and> paused (ev_media s))"
  by (auto intro: ev_internal.intros elim: ev_internal.cases)

lemma ev_internal_settles: "\<exists>s'. ev_internal\<^sup>*\<^sup>* s s' \<and> (\<nexists>s''. ev_internal s' s'')"
proof (induction s rule: measure_induct_rule [of ev_pending])
  case (less s)
  show ?case
  proof (cases "\<exists>s'. ev_internal s s'")
    case True
    then obtain s1 where s1: "ev_internal s s1" by blast
    from less [OF ev_internal_pending [OF s1]] obtain s' where
      "ev_internal\<^sup>*\<^sup>* s1 s'" "\<nexists>s''. ev_internal s' s''" by blast
    with s1 show ?thesis by (blast intro: converse_rtranclp_into_rtranclp)
  next
    case False
    then show ?thesis by blast
  qed
qed

lemma ev_internal_rtranclp_reachable:
  "ev_internal\<^sup>*\<^sup>* s s' \<Longrightarrow> ev_reachable s \<Longrightarrow> ev_reachable s' \<and> ev_visible s' = ev_visible s"
  by (induction rule: rtranclp_induct) (auto intro: ev_reachable.step ev_internal_step dest: ev_internal_visible)

lemma offscreen_playing_step:
  assumes "ev_step s s'" and "offscreen_playing s" and "ev_observed s' \<noteq> Some True"
  shows "offscreen_playing s'"
  using assms
  by (induction rule: ev_step.induct)
     (auto simp: offscreen_playing_def ev_observe_def ev_end_fullscreen_def ensure_play_def ev_loaded_data_def)

subsection \<open>Hero video\<close>

lemma hero_step_inv:
  assumes "hero_step s s'"
    and "(paused (hero_media s) \<longleftrightarrow> \<not> hero_committed s) \<and> \<not> autoplaying (hero_media s)"
  shows "(paused (hero_media s') \<longleftrightarrow> \<not> hero_committed s') \<and> \<not> autoplaying (hero_media s')"
  using assms
  by (induction rule: hero_step.induct)
     (auto simp: hero_observe_def hero_commit_def hero_effect_def media_pause_def media_play_def
      hero_dispatch_def)

section \<open>Properties\<close>

text \<open>
  C33 (invariant). Once React has committed that an \<open>EventVideo\<close> is in view and no
  \<open>pause\<close> event is pending, the video plays.
\<close>

theorem event_video_plays_when_visible:
  assumes "ev_reachable s" and "ev_visible s" and "ev_committed s" and "tasks (ev_media s) = []"
  shows "\<not> paused (ev_media s)"
  using ev_reachable_inv [OF assms(1)] assms(3,4) by simp

theorem event_video_plays_when_visible_witness:
  "\<not> paused (ev_media (ev_commit (ev_observe True ev_init)))"
proof -
  have r: "ev_reachable (ev_commit (ev_observe True ev_init))"
    by (rule ev_reachable_steps [OF ev_reachable.init ev_step.observe ev_step.commit])
       (simp_all add: ev_init_def ev_observe_def)
  show ?thesis
    by (rule event_video_plays_when_visible [OF r])
       (simp_all add: ev_init_def ev_observe_def ev_commit_def media_init_def ensure_play_def media_play_def)
qed

text \<open>
  C34 (ordering). When a playing \<open>EventVideo\<close> leaves the view, the outcome depends on
  the order of two queued pieces of work: if React commits \<open>isVisible = false\<close>
  before the \<open>pause\<close> event is dispatched, the video stays paused; if the event comes
  first, the listener registered by the previous commit still sees \<open>isVisible =
  true\<close> and calls \<open>play()\<close>, and the video plays although it is out of view.
\<close>

theorem event_video_leave_order:
  assumes "ev_visible s" "ev_committed s" "tasks (ev_media s) = []" "\<not> paused (ev_media s)"
  shows "paused (ev_media (ev_dispatch (ev_commit (ev_observe False s))))
         \<and> \<not> paused (ev_media (ev_commit (ev_dispatch (ev_observe False s))))
         \<and> \<not> ev_visible (ev_commit (ev_dispatch (ev_observe False s)))"
  using ev_leave_commit_first [OF assms] ev_leave_event_first [OF assms] by simp

theorem event_video_leave_order_witness:
  "paused (ev_media (ev_dispatch (ev_commit (ev_observe False (ev_commit (ev_observe True ev_init))))))
   \<and> \<not> paused (ev_media (ev_commit (ev_dispatch (ev_observe False (ev_commit (ev_observe True ev_init))))))"
proof -
  have "paused (ev_media (ev_dispatch (ev_commit (ev_observe False (ev_commit (ev_observe True ev_init))))))
        \<and> \<not> paused (ev_media (ev_commit (ev_dispatch (ev_observe False (ev_commit (ev_observe True ev_init))))))
        \<and> \<not> ev_visible (ev_commit (ev_dispatch (ev_observe False (ev_commit (ev_observe True ev_init)))))"
    by (rule event_video_leave_order)
       (simp_all add: ev_init_def ev_observe_def ev_commit_def media_init_def ensure_play_def media_play_def)
  then show ?thesis by blast
qed

text \<open>
  C35 (safety, violated). The race is reachable and stable: from mount, the schedule
  observe in view, commit, observe out of view, dispatch the \<open>pause\<close> event, commit,
  leaves the video playing out of view with nothing pending, and every later step that
  is not the observer reporting the video back in view (a commit, a queued event,
  autoplay, the end of fullscreen) keeps it so, since no listener or effect that could
  pause it runs.
\<close>

theorem event_video_offscreen_race:
  "ev_reachable (ev_commit (ev_dispatch (ev_observe False (ev_commit (ev_observe True ev_init)))))
   \<and> (\<forall>s'. (\<lambda>s t. ev_step s t \<and> ev_observed t \<noteq> Some True)\<^sup>*\<^sup>*
             (ev_commit (ev_dispatch (ev_observe False (ev_commit (ev_observe True ev_init))))) s'
           \<longrightarrow> offscreen_playing s')"
proof (intro conjI allI impI)
  let ?s2 = "ev_commit (ev_observe True ev_init)"
  have r2: "ev_reachable ?s2"
    by (rule ev_reachable_steps [OF ev_reachable.init ev_step.observe ev_step.commit])
       (simp_all add: ev_init_def ev_observe_def)
  have r4: "ev_reachable (ev_dispatch (ev_observe False ?s2))"
    by (rule ev_reachable_steps [OF r2 ev_step.observe ev_step.dispatch])
       (simp_all add: ev_init_def ev_observe_def ev_commit_def media_init_def ensure_play_def
        media_play_def media_pause_def)
  show "ev_reachable (ev_commit (ev_dispatch (ev_observe False ?s2)))"
    by (rule ev_reachable.step [OF r4 ev_step.commit])
       (simp add: ev_init_def ev_observe_def ev_commit_def ev_dispatch_def media_init_def
        ensure_play_def media_play_def media_pause_def)
  have p: "offscreen_playing (ev_commit (ev_dispatch (ev_observe False ?s2)))"
    by (simp add: offscreen_playing_def ev_init_def ev_observe_def ev_commit_def ev_dispatch_def
        media_init_def ensure_play_def media_play_def media_pause_def)
  fix s'
  assume "(\<lambda>s t. ev_step s t \<and> ev_observed t \<noteq> Some True)\<^sup>*\<^sup>* (ev_commit (ev_dispatch (ev_observe False ?s2))) s'"
  then show "offscreen_playing s'"
    by (induction rule: rtranclp_induct) (auto simp: p intro: offscreen_playing_step)
qed

theorem event_video_offscreen_race_witness:
  "offscreen_playing (ev_end_fullscreen (ev_commit (ev_dispatch (ev_observe False (ev_commit (ev_observe True ev_init))))))"
proof -
  let ?r = "ev_commit (ev_dispatch (ev_observe False (ev_commit (ev_observe True ev_init))))"
  have "ev_step ?r (ev_end_fullscreen ?r)" by (rule ev_step.fullscreen)
  moreover have "ev_observed (ev_end_fullscreen ?r) \<noteq> Some True"
    by (simp add: ev_end_fullscreen_def ev_commit_def ev_dispatch_def ev_observe_def ev_init_def
        media_init_def media_pause_def media_play_def ensure_play_def Let_def)
  ultimately have "(\<lambda>s t. ev_step s t \<and> ev_observed t \<noteq> Some True)\<^sup>*\<^sup>* ?r (ev_end_fullscreen ?r)"
    by (blast intro: r_into_rtranclp)
  with event_video_offscreen_race show ?thesis by blast
qed

text \<open>
  C36 (liveness). Once the observer has reported an \<open>EventVideo\<close> in view, the work
  left to the browser and React (the commit, the queued \<open>pause\<close> events, autoplay) can
  always run to completion, and however it is scheduled, it ends with the video
  playing. With C39 (that work cannot go on forever) the video eventually plays.
\<close>

theorem event_video_eventually_plays:
  assumes "ev_reachable s" and "ev_visible s"
  shows "(\<exists>s'. ev_internal\<^sup>*\<^sup>* s s' \<and> (\<nexists>s''. ev_internal s' s''))
         \<and> (\<forall>s'. ev_internal\<^sup>*\<^sup>* s s' \<and> (\<nexists>s''. ev_internal s' s'') \<longrightarrow> \<not> paused (ev_media s'))"
proof (intro conjI allI impI)
  show "\<exists>s'. ev_internal\<^sup>*\<^sup>* s s' \<and> (\<nexists>s''. ev_internal s' s'')" by (rule ev_internal_settles)
next
  fix s' assume s': "ev_internal\<^sup>*\<^sup>* s s' \<and> (\<nexists>s''. ev_internal s' s'')"
  with ev_internal_rtranclp_reachable assms have "ev_reachable s'" "ev_visible s'" by blast+
  with s' ev_reachable_inv show "\<not> paused (ev_media s')"
    unfolding ev_internal_terminal by metis
qed

theorem event_video_eventually_plays_witness:
  "ev_internal\<^sup>*\<^sup>* (ev_observe True ev_init) (ev_commit (ev_observe True ev_init))
   \<and> \<not> paused (ev_media (ev_commit (ev_observe True ev_init)))"
proof -
  let ?s = "ev_observe True ev_init" and ?s' = "ev_commit (ev_observe True ev_init)"
  have r: "ev_reachable ?s" by (rule ev_reachable.step [OF ev_reachable.init ev_step.observe]) (simp add: ev_init_def)
  have v: "ev_visible ?s" by (simp add: ev_observe_def)
  have i: "ev_internal\<^sup>*\<^sup>* ?s ?s'"
    by (rule r_into_rtranclp, rule ev_internal.commit) (simp add: ev_init_def ev_observe_def)
  have "\<nexists>s''. ev_internal ?s' s''"
    unfolding ev_internal_terminal
    by (simp add: ev_init_def ev_observe_def ev_commit_def media_init_def ensure_play_def media_play_def)
  with i conjunct2 [OF event_video_eventually_plays [OF r v]] show ?thesis by blast
qed

text \<open>
  C37 (invariant). The hero video has no such race: in every reachable state it is
  paused exactly when the last committed \<open>isHeroVisible\<close> is false, and autoplay
  never starts it (the mount effect's \<open>pause()\<close> cleared the autoplaying flag).
\<close>

theorem hero_paused_iff_hidden:
  assumes "hero_reachable s"
  shows "(paused (hero_media s) \<longleftrightarrow> \<not> hero_committed s) \<and> \<not> autoplaying (hero_media s)"
  using assms
  by (induction rule: hero_reachable.induct)
     (auto simp: hero_init_def hero_effect_def media_pause_def media_init_def dest: hero_step_inv)

theorem hero_paused_iff_hidden_witness:
  "\<not> paused (hero_media (hero_commit (hero_observe True hero_init)))"
proof -
  have "hero_reachable (hero_commit (hero_observe True hero_init))"
    by (rule hero_reachable.step [OF hero_reachable.step [OF hero_reachable.init hero_step.observe] hero_step.commit])
       (simp_all add: hero_init_def hero_observe_def)
  from hero_paused_iff_hidden [OF this] show ?thesis
    by (simp add: hero_commit_def hero_observe_def)
qed

text \<open>
  C39 (termination). The work the browser and React do on their own for an
  \<open>EventVideo\<close> terminates: no infinite sequence of commits, \<open>pause\<close> events and
  autoplay exists, from any state, since each of them lowers the number of pending
  pieces of work (a \<open>pause\<close> listener resumes the video without queuing another
  \<open>pause\<close>, and a commit runs only when \<open>isVisible\<close> changed).
\<close>

theorem event_video_internal_terminates: "\<nexists>f. \<forall>i. ev_internal (f i) (f (Suc i))"
proof -
  have "wf {(s', s). ev_internal s s'}"
    by (rule wf_subset [OF wf_measure [of ev_pending]]) (auto dest: ev_internal_pending)
  then show ?thesis by (simp add: wf_iff_no_infinite_down_chain)
qed

end
