(* ===== verification/FloatingPromo.thy ===== *)
theory FloatingPromo
  imports ClickClassifier
begin

text \<open>
  The floating promotion of \<open>src/src/app/components/FloatingPromo.tsx\<close>, rendered by
  the root layout on every page: one boolean \<open>open\<close>, toggled by a round button whose
  content is the emoji U+1F384 (a surrogate pair in UTF-16) and whose name is given by
  \<open>aria-label\<close>; while open, a panel with the discount code is shown above it. The
  rendered tree is what the click classifier reads (styling classes are left out).
\<close>

section \<open>State and rendering\<close>

record promo =
  promo_open :: bool

definition promo_init :: promo where
  "promo_init = \<lparr>promo_open = False\<rparr>"

text \<open>\<open>onClick={() => setOpen((v) => !v)}\<close>\<close>

definition promo_toggle :: "promo \<Rightarrow> promo" where
  "promo_toggle s = s\<lparr>promo_open := \<not> promo_open s\<rparr>"

definition tree_emoji :: jsstr where
  "tree_emoji = [0xD83C, 0xDF84]"

definition gift_emoji :: jsstr where
  "gift_emoji = [0xD83C, 0xDF81]"

definition promo_panel :: node where
  "promo_panel =
     Elem (js ''div'') []
       [Elem (js ''div'') [] [Text (js ''Kod rabatowy'')],
        Elem (js ''div'') [] [Text (gift_emoji @ js '' ''), Elem (js ''span'') [] [Text (js ''kod'')]]]"

definition promo_button :: node where
  "promo_button =
     Elem (js ''button'')
       [(js ''type'', js ''button''),
        (js ''aria-label'', js ''Poka'' @ [0x17C] @ js '' kod rabatowy'')]
       [Text tree_emoji]"

definition promo_render :: "promo \<Rightarrow> node" where
  "promo_render s = Elem (js ''div'') [] ((if promo_open s then [promo_panel] else []) @ [promo_button])"

section \<open>Lemmas\<close>

lemma promo_toggle_funpow: "promo_open ((promo_toggle ^^ n) promo_init) = odd n"
  by (induction n) (simp_all add: promo_init_def promo_toggle_def)

lemma promo_button_label: "label_param promo_button = Some (JStr tree_emoji)"
proof -
  have g: "getLabel promo_button = Some tree_emoji"
    by (simp add: getLabel_def promo_button_def tree_emoji_def MAX_LABEL_LENGTH_def collapse_runs_Cons
        js_ws_def js_trim_def)
  have "js_trim (js_to_lower tree_emoji) = tree_emoji"
    by (simp add: tree_emoji_def lower_unit_def js_trim_def js_ws_def)
  moreover have "map_of LABEL_MAP tree_emoji = None"
    by (simp add: LABEL_MAP_def tree_emoji_def)
  moreover have "tree_emoji \<notin> set object_prototype_keys"
    by (simp add: object_prototype_keys_def tree_emoji_def)
  ultimately show ?thesis
    by (simp add: label_param_def g normalizeLabel_def js_obj_get_def tree_emoji_def)
qed

lemma promo_button_events:
  "\<not> is_ignored promo_button \<and> is_clickable promo_button
   \<and> click_events env promo_button =
       Inr [(js ''ui_click'', [(js ''label'', Some (JStr tree_emoji)), (js ''href'', None)])]"
proof -
  have "detectLanguageSwitch (Some (JStr tree_emoji)) = Inr None"
    by (simp add: detectLanguageSwitch_def tree_emoji_def lower_unit_def)
  moreover have "get_attribute promo_button (js ''data-analytics-event'') = None"
    and "getHref env promo_button = None"
    and "\<not> is_ignored promo_button \<and> is_clickable promo_button"
    by (simp_all add: promo_button_def getHref_def is_anchor_def is_ignored_def is_clickable_def)
  ultimately show ?thesis
    by (simp add: promo_button_label click_events_def generic_event_def event_name_of_def)
qed

lemma promo_nearest_button:
  "node_at (promo_render s) [if promo_open s then 1 else 0] = Some promo_button
   \<and> nearest_clickable (promo_render s) [if promo_open s then 1 else 0] = Some promo_button"
proof -
  have c: "is_element promo_button \<and> is_clickable promo_button"
    using promo_button_events by (simp add: promo_button_def)
  show ?thesis
    by (cases "promo_open s") (simp_all add: promo_render_def nearest_clickable_def c)
qed

lemma promo_panel_unclickable: "x \<in> set (all_nodes promo_panel) \<Longrightarrow> \<not> is_clickable x"
  by (auto simp: promo_panel_def is_clickable_def)

end
