(* ===== verification/Layout.thy ===== *)
theory Layout
  imports FloatingPromo TrackerLifecycle
begin

text \<open>
  The root layout of \<open>src/src/app/layout.tsx\<close>, which wraps every page: its metadata,
  the document tree it renders around a page (the \<open>html\<close> element with
  \<open>lang="pl"\<close> and the dark theme class, a head, and a body holding the starfield
  background and a column with the app bar, the page, the footer and the floating
  promotion), and its two analytics children: \<open>AnalyticsTracker\<close>, which renders
  nothing and registers the click listener when it mounts, and the GA4 scripts, which
  run after hydration. The head (which Next.js assembles from the metadata), the
  starfield, the app bar and the footer come from files outside the sources and are
  parameters; the theme and i18n providers render their children and no element of
  their own. Styling classes are left out.
\<close>

section \<open>Metadata and tree\<close>

record page_metadata =
  md_title :: jsstr
  md_description :: jsstr

definition metadata :: page_metadata where
  "metadata =
     \<lparr>md_title = js ''Alvernia Planet '' @ [0x2013] @ js '' Wycieczki edukacyjne'',
      md_description = js ''Wycieczki i warsztaty edukacyjne. Rezerwuj online.''\<rparr>"

definition initialLocale :: jsstr where
  "initialLocale = js ''pl''"

text \<open>The parts of the page that come from outside the sources.\<close>

record layout_parts =
  lp_head :: node
  lp_starfield :: node
  lp_appbar :: node
  lp_footer :: node

definition root_layout :: "layout_parts \<Rightarrow> node list \<Rightarrow> promo \<Rightarrow> node" where
  "root_layout parts children s =
     Elem (js ''html'') [(js ''lang'', initialLocale), (js ''class'', js ''theme-dark'')]
       [lp_head parts,
        Elem (js ''body'') []
          [lp_starfield parts,
           Elem (js ''div'') []
             ([lp_appbar parts] @ children @ [lp_footer parts, promo_render s])]]"

text \<open>Where the promotion sits in the document: body, column, after the app bar, the
  page and the footer.\<close>

definition promo_path :: "node list \<Rightarrow> nat list" where
  "promo_path children = [1, 1, length children + 2]"

text \<open>The page after hydration: the tracker's effect has run, then the
  \<open>afterInteractive\<close> GA4 scripts (rendered for a truthy measurement id).\<close>

definition layout_start :: "jsstr option \<Rightarrow> nat \<Rightarrow> page" where
  "layout_start gaMeasurementId now = ga_load gaMeasurementId now (tracker_mount init_page)"

text \<open>\<open>loading.tsx\<close>: the screen shown in place of a page while it loads, a pulsing
  logo, a rotating glow and a caption. The theme only selects a shadow class, so the
  document is the same in both themes.\<close>

definition Loading :: node where
  "Loading =
     Elem (js ''div'') []
       [Elem (js ''div'') []
          [Elem (js ''img'') [(js ''alt'', js ''Alvernia Planet''), (js ''src'', js ''/logo_alvernia_planet_RGB_crop.jpg'')] []],
        Elem (js ''div'') [] [],
        Elem (js ''p'') [] [Text ([0x141] @ js ''adowanie wszech'' @ [0x15B] @ js ''wiata'' @ [0x2026])]]"

text \<open>A layout with empty placeholders for the parts outside the sources.\<close>

definition example_parts :: layout_parts where
  "example_parts =
     \<lparr>lp_head = Elem (js ''head'') [] [], lp_starfield = Elem (js ''canvas'') [] [],
      lp_appbar = Elem (js ''header'') [] [], lp_footer = Elem (js ''footer'') [] []\<rparr>"

section \<open>Lemmas\<close>

lemma node_at_promo_path:
  "node_at (root_layout parts children s) (promo_path children) = Some (promo_render s)"
  by (simp add: root_layout_def promo_path_def nth_append)

lemma path_nodes_promo_path:
  "path_nodes (root_layout parts children s) (promo_path children) =
     [root_layout parts children s,
      Elem (js ''body'') []
          [lp_starfield parts,
           Elem (js ''div'') [] ([lp_appbar parts] @ children @ [lp_footer parts, promo_render s])],
      Elem (js ''div'') [] ([lp_appbar parts] @ children @ [lp_footer parts, promo_render s]),
      promo_render s]"
  by (simp add: root_layout_def promo_path_def nth_append)

lemma layout_ancestors_unclickable:
  "x \<in> set (path_nodes (root_layout parts children s) (promo_path children)) \<Longrightarrow>
     x \<noteq> promo_render s \<Longrightarrow> \<not> is_clickable x"
  unfolding path_nodes_promo_path by (auto simp: root_layout_def is_clickable_def initialLocale_def)

lemma layout_start_reachable: "reachable (layout_start gaMeasurementId now)"
  unfolding layout_start_def
  by (rule reachable.step [OF reachable.step [OF reachable.init lc_step.mount] lc_step.ga])
     (simp add: init_page_def)

lemma layout_start_state:
  "layout_start (Some gaId) now =
     \<lparr>listeners = [0], next_handler = 1, tracker = Some 0,
      sink = Some (layout_analytics (Some gaId) now \<lparr>gtag_defined = False, data_layer = []\<rparr>),
      reported = []\<rparr>"
  by (simp add: layout_start_def ga_load_def tracker_mount_def init_page_def add_listener_def Let_def)

text \<open>Nothing on the loading screen is clickable, so clicks on it record nothing.\<close>

lemma loading_clicks_untracked: "onDocumentClick env Loading path g = Inr g"
proof (cases rule: onDocumentClick_cases [of env Loading path g])
  case (classified t c)
  from nearest_clickable_SomeD [OF classified(3)] show ?thesis
    by (auto simp: Loading_def is_clickable_def)
qed

section \<open>Properties\<close>

text \<open>
  C38 (functional, cross-component). On any page of the site, once the tracker has
  mounted and the GA4 bootstrap has run with a measurement id, a click on the floating
  promotion's button (open or closed) leaves the data layer holding the bootstrap's two
  calls and one \<open>ui_click\<close> whose label is the button's text, the two UTF-16 code units
  of the emoji, not its accessible name, and no href. While the panel is open, a click
  anywhere in it (the heading, the code, the gift emoji) changes nothing on the page: no
  node between it and the document is clickable.
\<close>

theorem layout_promo_clicks:
  assumes "gaId \<noteq> []" and "promo_open s'" and "node_at (promo_render s') (0 # p) \<noteq> None"
  shows "sink (document_click env (root_layout parts children s)
                 (promo_path children @ [if promo_open s then 1 else 0]) (layout_start (Some gaId) now)) =
           Some \<lparr>gtag_defined = True,
                 data_layer = [[AStr (js ''js''), ADate now],
                   [AStr (js ''config''), AStr gaId, AParams [(js ''anonymize_ip'', Some (JBool True))]],
                   event_entry (js ''ui_click'') [(js ''label'', Some (JStr tree_emoji)), (js ''href'', None)]]\<rparr>
         \<and> document_click env (root_layout parts children s') (promo_path children @ 0 # p) st = st"
proof
  let ?L = "root_layout parts children s" and ?q = "promo_path children @ [if promo_open s then 1 else 0]"
  let ?w = "layout_analytics (Some gaId) now \<lparr>gtag_defined = False, data_layer = []\<rparr>"
  note nb = promo_nearest_button [of s]
  have at: "node_at ?L ?q = Some promo_button"
    using nb by (simp add: node_at_append node_at_promo_path)
  have near: "nearest_clickable ?L ?q = Some promo_button"
    unfolding nearest_clickable_def
    using find_nearest_subtree [OF at, of is_clickable "[]"] promo_button_events
    by (simp add: promo_button_def)
  have g: "gtag_defined ?w" using assms(1) by (simp add: layout_analytics_def ga4_init_def gtag_def)
  have "is_element promo_button" by (simp add: promo_button_def)
  from onDocumentClick_eq [OF at this g, of env] near promo_button_events
  have "onDocumentClick env ?L ?q (Some ?w) =
          Inr (Some (?w\<lparr>data_layer := data_layer ?w @
            [event_entry (js ''ui_click'') [(js ''label'', Some (JStr tree_emoji)), (js ''href'', None)]]\<rparr>))"
    by (simp add: emitted_def)
  with assms(1) show "sink (document_click env ?L ?q (layout_start (Some gaId) now)) = Some \<lparr>gtag_defined = True,
                 data_layer = [[AStr (js ''js''), ADate now],
                   [AStr (js ''config''), AStr gaId, AParams [(js ''anonymize_ip'', Some (JBool True))]],
                   event_entry (js ''ui_click'') [(js ''label'', Some (JStr tree_emoji)), (js ''href'', None)]]\<rparr>"
    by (simp add: layout_start_state document_click_def layout_analytics_def ga4_init_def gtag_def)
next
  let ?L = "root_layout parts children s'" and ?q = "promo_path children @ 0 # p"
  obtain t where t: "node_at (promo_render s') (0 # p) = Some t" using assms(3) by blast
  then have at: "node_at ?L ?q = Some t" by (simp add: node_at_append node_at_promo_path)
  have "path_nodes ?L ?q = path_nodes ?L (promo_path children) @ tl (path_nodes (promo_render s') (0 # p))"
    by (rule path_nodes_append [OF node_at_promo_path])
  moreover have "tl (path_nodes (promo_render s') (0 # p)) = path_nodes promo_panel p"
    using assms(2) by (simp add: promo_render_def)
  moreover have "\<not> is_clickable (promo_render s')" by (simp add: promo_render_def is_clickable_def)
  ultimately have "\<forall>x \<in> set (path_nodes ?L ?q). \<not> is_clickable x"
    using layout_ancestors_unclickable path_nodes_all_nodes promo_panel_unclickable by fastforce
  then have "nearest_clickable ?L ?q = None"
    unfolding nearest_clickable_def find_None_iff set_rev by blast
  then have "\<forall>g. onDocumentClick env ?L ?q g = Inr g"
    using at by (blast intro: onDocumentClick_unclassified)
  then show "document_click env ?L ?q st = st" by (rule document_click_unclassified)
qed

theorem layout_promo_clicks_witness:
  "sink (document_click example_env (root_layout example_parts [] promo_init) (promo_path [] @ [0])
          (layout_start (Some (js ''G-TEST'')) 0)) =
     Some \<lparr>gtag_defined = True,
           data_layer = [[AStr (js ''js''), ADate 0],
             [AStr (js ''config''), AStr (js ''G-TEST''), AParams [(js ''anonymize_ip'', Some (JBool True))]],
             event_entry (js ''ui_click'') [(js ''label'', Some (JStr tree_emoji)), (js ''href'', None)]]\<rparr>
   \<and> document_click example_env (root_layout example_parts [] (promo_toggle promo_init)) (promo_path [] @ [0, 1, 1])
       init_page = init_page"
proof -
  have o: "promo_open (promo_toggle promo_init)" by (simp add: promo_toggle_def promo_init_def)
  have "node_at (promo_render (promo_toggle promo_init)) [0, 1, 1] \<noteq> None"
    using o by (simp add: promo_render_def promo_panel_def)
  from layout_promo_clicks [of "js ''G-TEST''" "promo_toggle promo_init" "[1, 1]" example_env example_parts "[]"
      promo_init 0 init_page, OF _ o this]
  show ?thesis by (simp add: promo_init_def)
qed

end
