(* ===== verification/EventsPage.thy ===== *)
theory EventsPage
  imports MediaPlayback LangSwitcher
begin

text \<open>
  The markup of the events page \<open>src/src/app/wydarzenia/page.tsx\<close> that the click
  tracker reads: the video showcase (\<open>VIDEO_SHOWCASE\<close>, one \<open>VideoTile\<close> per item in
  a grid under the section title), the tile's three renderings (the poster button
  before activation, the YouTube iframe with its loading overlay after, and an
  \<open>EventVideo\<close> for a non-embedded item), the \<open>EventVideo\<close> markup, and the
  page's interface strings \<open>UI_TEXT\<close>. The tiles' and the videos' state machines are
  in \<open>MediaPlayback\<close>. The \<open>Card\<close> around a section comes from outside the sources
  and is left out (it only wraps), as are styling classes and inline styles. React
  sets \<open>muted\<close> as a property, so it is no attribute of the video element; an absent
  optional string prop is the empty string (both are falsy where the code tests them).
\<close>

section \<open>Data\<close>

record video_showcase =
  vs_title :: jsstr
  vs_items :: "video_item list"

definition VIDEO_SHOWCASE :: "lang \<Rightarrow> video_showcase" where
  "VIDEO_SHOWCASE l =
     (case l of
        PL \<Rightarrow>
     \<lparr>vs_title = js ''Zobacz wideo z wydarze'' @ [0x144],
       vs_items =
         [\<lparr>vi_title = js ''Koncert w kopule'',
          vi_body = js ''Atmosfera live w sferycznej scenie.'',
          vi_src = js ''https://www.youtube.com/embed/jt6zh-vaFNc'',
          vi_poster = js ''https://img.youtube.com/vi/jt6zh-vaFNc/hqdefault.jpg'',
          vi_embed = True\<rparr>,
          \<lparr>vi_title = js ''Bankiet i gala'',
          vi_body = js ''Wieczorna aran'' @ [0x17C] @ js ''acja z eleganck'' @ [0x105] @ js '' opraw'' @ [0x105] @ js ''.'',
          vi_src = js ''https://www.youtube.com/embed/PWtTaxqxufE'',
          vi_poster = js ''https://img.youtube.com/vi/PWtTaxqxufE/hqdefault.jpg'',
          vi_embed = True\<rparr>,
          \<lparr>vi_title = js ''Club / afterparty'',
          vi_body = [0x15A] @ js ''wiat'' @ [0x142] @ js ''a i d'' @ [0x17A] @ js ''wi'' @ [0x119] @ js ''k w klubowym wydaniu.'',
          vi_src = js ''https://www.youtube.com/embed/BkdKk5Jc_RA'',
          vi_poster = js ''https://img.youtube.com/vi/BkdKk5Jc_RA/hqdefault.jpg'',
          vi_embed = True\<rparr>]\<rparr>
      | EN \<Rightarrow>
     \<lparr>vs_title = js ''Event video highlights'',
       vs_items =
         [\<lparr>vi_title = js ''Concert in the dome'',
          vi_body = js ''Live atmosphere on a spherical stage.'',
          vi_src = js ''https://www.youtube.com/embed/jt6zh-vaFNc'',
          vi_poster = js ''https://img.youtube.com/vi/jt6zh-vaFNc/hqdefault.jpg'',
          vi_embed = True\<rparr>,
          \<lparr>vi_title = js ''Banquet and gala'',
          vi_body = js ''Evening setup with elegant styling.'',
          vi_src = js ''https://www.youtube.com/embed/PWtTaxqxufE'',
          vi_poster = js ''https://img.youtube.com/vi/PWtTaxqxufE/hqdefault.jpg'',
          vi_embed = True\<rparr>,
          \<lparr>vi_title = js ''Club / afterparty'',
          vi_body = js ''Lights and sound in a club vibe.'',
          vi_src = js ''https://www.youtube.com/embed/BkdKk5Jc_RA'',
          vi_poster = js ''https://img.youtube.com/vi/BkdKk5Jc_RA/hqdefault.jpg'',
          vi_embed = True\<rparr>]\<rparr>)"

record ui_text =
  loadingVideo :: jsstr
  loadingMap :: jsstr
  contactHeading :: jsstr
  addressHeading :: jsstr
  mapButton :: jsstr
  mapTitle :: jsstr
  videoFallback :: jsstr

definition UI_TEXT :: "lang \<Rightarrow> ui_text" where
  "UI_TEXT l =
     (case l of
        PL \<Rightarrow>
     \<lparr>loadingVideo = [0x141] @ js ''adowanie wideo...'',
       loadingMap = [0x141] @ js ''adowanie mapy...'',
       contactHeading = js ''Kontakt'',
       addressHeading = js ''Adres'',
       mapButton = js ''Zobacz na mapie'',
       mapTitle = js ''Mapa Alvernia Planet'',
       videoFallback = js ''Twoja przegl'' @ [0x105] @ js ''darka nie obs'' @ [0x142] @ js ''uguje elementu wideo.''\<rparr>
      | EN \<Rightarrow>
     \<lparr>loadingVideo = js ''Loading video...'',
       loadingMap = js ''Loading map...'',
       contactHeading = js ''Contact'',
       addressHeading = js ''Address'',
       mapButton = js ''View on map'',
       mapTitle = js ''Map '' @ [0x2013] @ js '' Alvernia Planet'',
       videoFallback = js ''Your browser does not support the video element.''\<rparr>)"

section \<open>Markup\<close>

text \<open>The \<open>preload\<close> values of a media element.\<close>

datatype preload = PreloadAuto | PreloadMetadata | PreloadNone

fun preload_attr :: "preload \<Rightarrow> jsstr" where
  "preload_attr PreloadAuto = js ''auto''"
| "preload_attr PreloadMetadata = js ''metadata''"
| "preload_attr PreloadNone = js ''none''"

text \<open>\<open>EventVideoProps\<close>: an optional prop is \<open>None\<close> when the caller omits it.\<close>

record event_video_props =
  evp_src :: jsstr
  evp_srcWebm :: "jsstr option"
  evp_poster :: "jsstr option"
  evp_className :: "jsstr option"
  evp_loadingLabel :: jsstr
  evp_fallbackText :: jsstr
  evp_preload :: "preload option"

text \<open>An optional string prop used as a condition (\<open>poster ? ... : ...\<close>): present and
  non-empty.\<close>

definition truthy_prop :: "jsstr option \<Rightarrow> jsstr list" where
  "truthy_prop v = (case v of Some x \<Rightarrow> if x \<noteq> [] then [x] else [] | None \<Rightarrow> [])"

text \<open>\<open>EventVideo\<close>: a wrapper with the video (its sources inside) and a gradient overlay;
  \<open>preload\<close> defaults to \<open>auto\<close>, the poster and the WebM source are rendered when truthy.
  The class names are styling, and \<open>loadingLabel\<close> and \<open>fallbackText\<close> are not rendered.\<close>

definition event_video_node :: "event_video_props \<Rightarrow> node" where
  "event_video_node p =
     Elem (js ''div'') []
       [Elem (js ''video'')
          ([(js ''autoplay'', []), (js ''loop'', []), (js ''playsinline'', []),
            (js ''preload'', preload_attr (case evp_preload p of None \<Rightarrow> PreloadAuto | Some x \<Rightarrow> x))]
           @ map (\<lambda>v. (js ''poster'', v)) (truthy_prop (evp_poster p)))
          ([Elem (js ''source'') [(js ''src'', evp_src p), (js ''type'', js ''video/mp4'')] []]
           @ map (\<lambda>v. Elem (js ''source'') [(js ''src'', v), (js ''type'', js ''video/webm'')] [])
               (truthy_prop (evp_srcWebm p))),
        Elem (js ''div'') [(js ''aria-hidden'', js ''true'')] []]"

text \<open>The poster button of a tile not yet activated: the poster area, the
  \<open>Odtw\<oacute>rz\<close> badge and the title.\<close>

definition tile_poster :: "video_item \<Rightarrow> node" where
  "tile_poster it =
     Elem (js ''button'')
       [(js ''type'', js ''button''), (js ''aria-label'', js ''Odtw'' @ [0xF3] @ js ''rz: '' @ vi_title it)]
       [Elem (js ''div'') [] [],
        Elem (js ''div'') [] [Elem (js ''span'') [] [Text ([0x25B6] @ js '' Odtw'' @ [0xF3] @ js ''rz'')]],
        Elem (js ''div'') [] [Elem (js ''p'') [] [Text (vi_title it)]]]"

definition tile_frame :: "jsstr \<Rightarrow> video_item \<Rightarrow> tile_state \<Rightarrow> node" where
  "tile_frame loadingLabel it s =
     Elem (js ''div'') []
       [Elem (js ''div'') []
          ((if tile_loaded s then [] else [Elem (js ''div'') [] [Text loadingLabel]])
           @ [Elem (js ''iframe'')
                [(js ''src'', tile_iframe_src it), (js ''title'', vi_title it),
                 (js ''allow'', js ''accelerometer; autoplay; clipboard-write; encrypted-media; gyroscope; picture-in-picture; web-share''),
                 (js ''allowfullscreen'', []), (js ''loading'', js ''lazy'')] []])]"

text \<open>\<open>VideoTileProps\<close>.\<close>

record video_tile_props =
  vtp_item :: video_item
  vtp_loadingLabel :: jsstr
  vtp_fallbackText :: jsstr

definition video_tile :: "video_tile_props \<Rightarrow> tile_state \<Rightarrow> node" where
  "video_tile p s =
     (let it = vtp_item p in
      if vi_embed it then (if \<not> tile_activated s then tile_poster it else tile_frame (vtp_loadingLabel p) it s)
      else Elem (js ''div'') []
        [event_video_node
           \<lparr>evp_src = vi_src it, evp_srcWebm = None, evp_poster = Some (vi_poster it),
            evp_className = Some (js ''h-48 sm:h-52 md:h-56''), evp_loadingLabel = vtp_loadingLabel p,
            evp_fallbackText = vtp_fallbackText p, evp_preload = None\<rparr>])"

text \<open>The props of the showcase's tiles.\<close>

definition showcase_tile_props :: "lang \<Rightarrow> video_item \<Rightarrow> video_tile_props" where
  "showcase_tile_props l it =
     \<lparr>vtp_item = it, vtp_loadingLabel = loadingVideo (UI_TEXT l), vtp_fallbackText = videoFallback (UI_TEXT l)\<rparr>"

text \<open>The showcase section inside its card: the title, then the grid of tiles, the
  \<open>i\<close>-th tile with the \<open>i\<close>-th tile state.\<close>

definition showcase_grid :: "lang \<Rightarrow> tile_state list \<Rightarrow> node" where
  "showcase_grid l ss =
     Elem (js ''div'') []
       [Elem (js ''div'') [] [Elem (js ''h2'') [] [Text (vs_title (VIDEO_SHOWCASE l))]],
        Elem (js ''div'') []
          (map (\<lambda>(it, s). video_tile (showcase_tile_props l it) s)
             (zip (vs_items (VIDEO_SHOWCASE l)) ss))]"

text \<open>The React handler a click in the showcase grid reaches (the path is taken from the
  grid): the poster button's \<open>onClick={() => setIsActivated(true)}\<close> of the tile whose
  button holds the target. No other element of the grid has a click handler.\<close>

fun showcase_click :: "lang \<Rightarrow> tile_state list \<Rightarrow> nat list \<Rightarrow> tile_state list" where
  "showcase_click l ss (k # i # p) =
     (if k = 1 \<and> i < length (vs_items (VIDEO_SHOWCASE l)) \<and> i < length ss
         \<and> vi_embed (vs_items (VIDEO_SHOWCASE l) ! i) \<and> \<not> tile_activated (ss ! i)
         \<and> node_at (tile_poster (vs_items (VIDEO_SHOWCASE l) ! i)) p \<noteq> None
      then ss[i := (ss ! i)\<lparr>tile_activated := True\<rparr>] else ss)"
| "showcase_click l ss _ = ss"

section \<open>Lemmas\<close>

text \<open>An \<open>EventVideo\<close> renders no text at all, whatever its props: neither its
  \<open>loadingLabel\<close> nor its \<open>fallbackText\<close> ever reaches the document.\<close>

lemma event_video_no_text: "text_content (event_video_node p) = []"
  by (cases "evp_poster p"; cases "evp_srcWebm p") (simp_all add: event_video_node_def truthy_prop_def)

lemma VIDEO_SHOWCASE_embed: "list_all vi_embed (vs_items (VIDEO_SHOWCASE l))"
  by (cases l) (simp_all add: VIDEO_SHOWCASE_def)

lemma tile_poster_labels:
  "list_all (\<lambda>it. getLabel (tile_poster it) = Some (([0x25B6] @ js '' Odtw'' @ [0xF3] @ js ''rz'') @ vi_title it))
     (vs_items (VIDEO_SHOWCASE l))"
  by (cases l) (simp_all add: VIDEO_SHOWCASE_def getLabel_def tile_poster_def collapse_runs_Cons
      js_trim_def js_ws_def MAX_LABEL_LENGTH_def)

lemma tile_poster_plain:
  "list_all (\<lambda>it. label_param (tile_poster it) = Some (JStr (([0x25B6] @ js '' Odtw'' @ [0xF3] @ js ''rz'') @ vi_title it))
     \<and> detectLanguageSwitch (Some (JStr (([0x25B6] @ js '' Odtw'' @ [0xF3] @ js ''rz'') @ vi_title it))) = Inr None)
     (vs_items (VIDEO_SHOWCASE l))"
  using tile_poster_labels [of l]
  by (cases l) (simp_all add: VIDEO_SHOWCASE_def label_param_def normalizeLabel_def js_obj_get_def
      LABEL_MAP_def object_prototype_keys_def detectLanguageSwitch_def lower_unit_def js_trim_def js_ws_def)

lemma tile_poster_events:
  assumes "it \<in> set (vs_items (VIDEO_SHOWCASE l))"
  shows "\<not> is_ignored (tile_poster it) \<and> is_element (tile_poster it) \<and> is_clickable (tile_poster it)
         \<and> click_events env (tile_poster it) =
             Inr [(js ''ui_click'', [(js ''label'', Some (JStr (([0x25B6] @ js '' Odtw'' @ [0xF3] @ js ''rz'') @ vi_title it))),
                                    (js ''href'', None)])]"
proof -
  have "label_param (tile_poster it) = Some (JStr (([0x25B6] @ js '' Odtw'' @ [0xF3] @ js ''rz'') @ vi_title it))
     \<and> detectLanguageSwitch (Some (JStr (([0x25B6] @ js '' Odtw'' @ [0xF3] @ js ''rz'') @ vi_title it))) = Inr None"
    using assms tile_poster_plain [of l] by (auto simp: list_all_iff)
  moreover have "get_attribute (tile_poster it) (js ''data-analytics-event'') = None"
    and "getHref env (tile_poster it) = None"
    and "\<not> is_ignored (tile_poster it) \<and> is_element (tile_poster it) \<and> is_clickable (tile_poster it)"
    by (simp_all add: tile_poster_def getHref_def is_anchor_def is_ignored_def is_clickable_def)
  ultimately show ?thesis
    by (simp add: click_events_def generic_event_def event_name_of_def)
qed

lemma tile_poster_inner_unclickable:
  "x \<in> set (tl (path_nodes (tile_poster it) p)) \<Longrightarrow> \<not> is_clickable x"
proof (cases p)
  case (Cons j p')
  assume x: "x \<in> set (tl (path_nodes (tile_poster it) p))"
  then obtain c where ch: "child_at (tile_poster it) j = Some c" and xc: "x \<in> set (path_nodes c p')"
    using Cons by (cases "child_at (tile_poster it) j") auto
  have "c \<in> set [Elem (js ''div'') [] [],
        Elem (js ''div'') [] [Elem (js ''span'') [] [Text ([0x25B6] @ js '' Odtw'' @ [0xF3] @ js ''rz'')]],
        Elem (js ''div'') [] [Elem (js ''p'') [] [Text (vi_title it)]]]"
    using ch by (auto simp: tile_poster_def less_Suc_eq split: if_splits)
  with path_nodes_all_nodes [OF xc] show ?thesis by (auto simp: is_clickable_def)
qed simp

lemma node_at_showcase_tile:
  assumes "i < length (vs_items (VIDEO_SHOWCASE l))" and "i < length ss"
  shows "node_at (showcase_grid l ss) [1, i] =
           Some (video_tile (showcase_tile_props l (vs_items (VIDEO_SHOWCASE l) ! i)) (ss ! i))"
  using assms by (simp add: showcase_grid_def)

text \<open>A target inside the poster button of a tile not yet activated: the button is its
  nearest clickable ancestor, wherever the grid sits in the document.\<close>

lemma showcase_poster_nearest:
  assumes "i < length (vs_items (VIDEO_SHOWCASE l))" and "i < length ss" and "\<not> tile_activated (ss ! i)"
    and "node_at root q = Some (showcase_grid l ss)"
    and "node_at (tile_poster (vs_items (VIDEO_SHOWCASE l) ! i)) p = Some t"
  shows "node_at root (q @ [1, i] @ p) = Some t
         \<and> nearest_clickable root (q @ [1, i] @ p) = Some (tile_poster (vs_items (VIDEO_SHOWCASE l) ! i))"
proof -
  let ?it = "vs_items (VIDEO_SHOWCASE l) ! i"
  have mem: "?it \<in> set (vs_items (VIDEO_SHOWCASE l))" using assms(1) by simp
  then have "vi_embed ?it" using VIDEO_SHOWCASE_embed [of l] by (simp add: list_all_iff)
  with node_at_showcase_tile [OF assms(1,2)] assms(3)
  have tile: "node_at (showcase_grid l ss) [1, i] = Some (tile_poster ?it)"
    by (simp add: video_tile_def showcase_tile_props_def)
  have at: "node_at root (q @ [1, i]) = Some (tile_poster ?it)"
    using assms(4) tile by (simp add: node_at_append)
  then have "node_at root (q @ [1, i] @ p) = Some t"
    using assms(5) by (simp add: node_at_append [of root "q @ [1, i]" p, simplified])
  moreover have "nearest_clickable root (q @ [1, i] @ p) = Some (tile_poster ?it)"
    unfolding nearest_clickable_def append_assoc [symmetric]
    by (rule find_nearest_subtree [OF at])
       (use tile_poster_events [OF mem] tile_poster_inner_unclickable in blast)+
  ultimately show ?thesis ..
qed

lemma showcase_click_poster:
  assumes "i < length (vs_items (VIDEO_SHOWCASE l))" and "i < length ss" and "\<not> tile_activated (ss ! i)"
    and "node_at (tile_poster (vs_items (VIDEO_SHOWCASE l) ! i)) p \<noteq> None"
  shows "showcase_click l ss ([1, i] @ p) = ss[i := (ss ! i)\<lparr>tile_activated := True\<rparr>]"
  using assms VIDEO_SHOWCASE_embed [of l] by (simp add: list_all_iff)

section \<open>Properties\<close>

text \<open>
  C14 (functional, cross-component). In the video showcase, in either language, a
  click on a tile that has not been activated, or on anything inside its poster button
  (the badge, the title), appends one \<open>ui_click\<close> event whose label is the button's
  \<open>textContent\<close>: the Polish badge text \<open>\<triangleright> Odtw\<oacute>rz\<close> immediately followed by
  the title, with no separating white space (\<open>\<triangleright> Odtw\<oacute>rzKoncert w kopule\<close>),
  also on the English page; the button's accessible name is not what is reported.
\<close>

theorem tile_poster_click_label:
  assumes "i < length (vs_items (VIDEO_SHOWCASE l))" and "i < length ss" and "\<not> tile_activated (ss ! i)"
    and "node_at root q = Some (showcase_grid l ss)"
    and "node_at (tile_poster (vs_items (VIDEO_SHOWCASE l) ! i)) p = Some t" and "is_element t"
    and "gtag_defined w"
  shows "onDocumentClick env root (q @ [1, i] @ p) (Some w) =
           Inr (Some (w\<lparr>data_layer := data_layer w @
             [event_entry (js ''ui_click'')
                [(js ''label'', Some (JStr (([0x25B6] @ js '' Odtw'' @ [0xF3] @ js ''rz'') @ vi_title (vs_items (VIDEO_SHOWCASE l) ! i)))),
                 (js ''href'', None)]]\<rparr>))"
proof -
  from showcase_poster_nearest [OF assms(1-5)]
  have t: "node_at root (q @ [1, i] @ p) = Some t"
    and n: "nearest_clickable root (q @ [1, i] @ p) = Some (tile_poster (vs_items (VIDEO_SHOWCASE l) ! i))"
    by blast+
  note ev = tile_poster_events [OF nth_mem [OF assms(1)], of env]
  from n onDocumentClick_eq [OF t assms(6,7), of env] ev show ?thesis by (simp add: emitted_def)
qed

theorem tile_poster_click_label_witness:
  "onDocumentClick example_env (showcase_grid EN [tile_init, tile_init, tile_init]) ([] @ [1, 0] @ [2, 0])
     (Some \<lparr>gtag_defined = True, data_layer = []\<rparr>) =
   Inr (Some \<lparr>gtag_defined = True, data_layer =
     [event_entry (js ''ui_click'')
        [(js ''label'', Some (JStr (([0x25B6] @ js '' Odtw'' @ [0xF3] @ js ''rz'') @ js ''Concert in the dome''))), (js ''href'', None)]]\<rparr>)"
proof -
  have "node_at (tile_poster (vs_items (VIDEO_SHOWCASE EN) ! 0)) [2, 0] =
          Some (Elem (js ''p'') [] [Text (js ''Concert in the dome'')])"
    by (simp add: tile_poster_def VIDEO_SHOWCASE_def)
  from tile_poster_click_label [of 0 EN "[tile_init, tile_init, tile_init]" "showcase_grid EN [tile_init, tile_init, tile_init]" "[]", OF _ _ _ _ this]
  show ?thesis by (simp add: VIDEO_SHOWCASE_def tile_init_def)
qed

end
