(* ===== verification/PageMarkup.thy ===== *)
theory PageMarkup
  imports ClickClassifier
begin

text \<open>
  What the pages of the site share when the click tracker reads them: \<open>Card\<close>
  (\<open>src/app/components/Card\<close>, outside the sources, taken to wrap its children in one
  element), the test that a subtree holds no clickable node, and the outcome every
  click on a content page should have, \<open>plain_click\<close>: nothing recorded, or exactly
  one \<open>ui_click\<close> with a non-empty string label. A page whose clickable nodes all
  yield one plainly labelled \<open>ui_click\<close> has only plain clicks
  (\<open>plain_click_page\<close>).
\<close>

definition Card :: "node list \<Rightarrow> node" where
  "Card children = Elem (js ''div'') [] children"

fun no_clickable :: "node \<Rightarrow> bool" where
  "no_clickable (Text s) = True"
| "no_clickable (Elem t a cs) = (\<not> is_clickable (Elem t a cs) \<and> (\<forall>c \<in> set cs. no_clickable c))"

definition plain_click :: "page_env \<Rightarrow> node \<Rightarrow> nat list \<Rightarrow> window \<Rightarrow> bool" where
  "plain_click env root path w \<longleftrightarrow>
     onDocumentClick env root path (Some w) = Inr (Some w)
     \<or> (\<exists>lbl h. lbl \<noteq> [] \<and> onDocumentClick env root path (Some w) =
          Inr (Some (w\<lparr>data_layer := data_layer w @
            [event_entry (js ''ui_click'') [(js ''label'', Some (JStr lbl)), (js ''href'', h)]]\<rparr>)))"

section \<open>Lemmas\<close>

lemma is_clickable_Elem [simp]:
  "is_clickable (Elem t a cs) \<longleftrightarrow>
     map_of a (js ''data-analytics-label'') \<noteq> None \<or> map_of a (js ''data-analytics-event'') \<noteq> None
     \<or> t = js ''a'' \<or> t = js ''button'' \<or> map_of a (js ''role'') = Some (js ''button'')"
  and is_clickable_Text [simp]: "\<not> is_clickable (Text s)"
  by (simp_all add: is_clickable_def)

lemma no_clickable_all_nodes: "no_clickable n \<Longrightarrow> x \<in> set (all_nodes n) \<Longrightarrow> \<not> is_clickable x"
proof (induction n)
  case (Text s)
  then show ?case by simp
next
  case (Elem t a cs)
  then show ?case by auto
qed

lemma no_clickable_root: "no_clickable n \<Longrightarrow> \<not> is_clickable n"
  by (cases n) simp_all

lemma clickable_only_root:
  "x \<in> set (all_nodes (Elem t a cs)) \<Longrightarrow> is_clickable x \<Longrightarrow> \<forall>c \<in> set cs. no_clickable c \<Longrightarrow> x = Elem t a cs"
  using no_clickable_all_nodes by auto

text \<open>A click below a subtree without clickable nodes, reached through non-clickable
  ancestors, has no clickable ancestor at all.\<close>

lemma nearest_clickable_none_below:
  assumes "node_at root q = Some b" and "\<forall>x \<in> set (path_nodes root q). \<not> is_clickable x"
    and "no_clickable b"
  shows "nearest_clickable root (q @ p) = None"
proof -
  have "\<forall>x \<in> set (tl (path_nodes b p)). \<not> is_clickable x"
    using no_clickable_all_nodes [OF assms(3)] path_nodes_all_nodes by (metis list.sel(2) list.set_sel(2))
  with assms(2) show ?thesis
    by (auto simp: nearest_clickable_def path_nodes_append [OF assms(1)] find_None_iff)
qed

text \<open>A clickable node whose label is plain: no \<open>LABEL_MAP\<close> key, no prototype member, no
  language name, and no event attribute.\<close>

lemma plain_click_events:
  assumes "getLabel c = Some lbl" and "map_of LABEL_MAP (js_trim (js_to_lower lbl)) = None"
    and "js_trim (js_to_lower lbl) \<notin> set object_prototype_keys"
    and "detectLanguageSwitch (Some (JStr lbl)) = Inr None"
    and "get_attribute c (js ''data-analytics-event'') = None"
  shows "click_events env c =
           Inr [(js ''ui_click'', [(js ''label'', Some (JStr lbl)), (js ''href'', map_option JStr (getHref env c))])]"
  using assms getLabel_Some [OF assms(1)]
  by (simp add: click_events_def generic_event_def event_name_of_def label_param_def normalizeLabel_Some
      js_or_def)

lemmas label_eval = getLabel_def collapse_runs_Cons js_trim_def js_ws_def MAX_LABEL_LENGTH_def
  LABEL_MAP_def object_prototype_keys_def detectLanguageSwitch_def lower_unit_def

lemma plain_click_page:
  assumes "gtag_defined w"
    and "\<And>c. c \<in> set (all_nodes root) \<Longrightarrow> is_clickable c \<Longrightarrow>
           \<exists>lbl. lbl \<noteq> [] \<and> click_events env c =
             Inr [(js ''ui_click'', [(js ''label'', Some (JStr lbl)), (js ''href'', map_option JStr (getHref env c))])]"
  shows "plain_click env root path w"
proof (cases rule: onDocumentClick_cases [of env root path "Some w"])
  case unchanged
  then show ?thesis by (simp add: plain_click_def)
next
  case (classified t c)
  from nearest_clickable_SomeD [OF classified(3)] assms(2)
  obtain lbl where lbl: "lbl \<noteq> []" and
    "click_events env c =
       Inr [(js ''ui_click'', [(js ''label'', Some (JStr lbl)), (js ''href'', map_option JStr (getHref env c))])]"
    by blast
  with classified(5) assms(1)
  have "onDocumentClick env root path (Some w) =
          Inr (Some (w\<lparr>data_layer := data_layer w @
            [event_entry (js ''ui_click'') [(js ''label'', Some (JStr lbl)),
               (js ''href'', map_option JStr (getHref env c))]]\<rparr>))"
    by (simp add: track_all_gtag emitted_def)
  with lbl show ?thesis unfolding plain_click_def by blast
qed

end
