(* ===== verification/EventsPageRender.thy ===== *)
theory EventsPageRender
  imports EventsPage PageMarkup
begin

text \<open>
  The whole document that \<open>EventsPage\<close> of \<open>src/src/app/wydarzenia/page.tsx\<close>
  renders, in either language, for any state of its video tiles and of its map frame:
  the hero header with its video, the three feature cards (\<open>COPY\<close>, \<open>SECOND\<close>,
  \<open>THIRD\<close>, each beside an \<open>EventVideo\<close>), the video showcase, the four dome cards
  (\<open>DOMES\<close>), the gallery card and the contact card with \<open>MapFrame\<close>. \<open>Card\<close>
  (a component outside the sources) is taken to wrap its children in one element;
  \<open>Link\<close> and \<open>Image\<close> of Next.js render an anchor and an image. Styling, refs and
  animation props are left out, as is \<open>PREVIEW_IMG\<close>, which the page never reads.
  The map's \<open>src\<close> is written with \<open>&amp;\<close> in a JSX string, which JSX decodes to
  \<open>&\<close>. The properties follow a click on a tile's poster (C12) and on the map
  frame's load button (C9) through the tracker, the element's handler and the next
  render.
\<close>

section \<open>Copy\<close>

record copy_text =
  copy_title :: jsstr
  copy_tag :: jsstr
  copy_venueLabel :: jsstr
  copy_bullets :: "jsstr list"

definition COPY :: "lang \<Rightarrow> copy_text" where
  "COPY l =
     (case l of
        PL \<Rightarrow>
       \<lparr>copy_title = js ''Wyj'' @ [0x105] @ js ''tkowe miejsce na event'',
        copy_tag = js ''wydarzenia'',
        copy_venueLabel = js ''Alvernia Planet'',
        copy_bullets =
          [js ''To idealne miejsce na organizacj'' @ [0x119] @ js '' wyszukanego eventu'',
           js ''Przyci'' @ [0x105] @ js ''ga uwag'' @ [0x119] @ js '' nawet najbardziej wymagaj'' @ [0x105] @ js ''cego klienta'',
           js ''Wyj'' @ [0x105] @ js ''tkowe miejsce na skal'' @ [0x119] @ js '' '' @ [0x15B] @ js ''wiatow'' @ [0x105],
           js ''Unikatowa infrastruktura'',
           js ''Odosobniona lokalizacja zapewniaj'' @ [0x105] @ js ''ca prywatno'' @ [0x15B] @ [0x107] @ js '' i bezpiecze'' @ [0x144] @ js ''stwo'']\<rparr>
      | EN \<Rightarrow>
       \<lparr>copy_title = js ''A one-of-a-kind venue for events'',
        copy_tag = js ''events'',
        copy_venueLabel = js ''Alvernia Planet'',
        copy_bullets =
          [js ''A perfect place to host a refined event'',
           js ''Captures the attention of even the most demanding clients'',
           js ''A unique venue of world-class scale'',
           js ''Truly distinctive infrastructure'',
           js ''Secluded location providing privacy and security'']\<rparr>)"

text \<open>\<open>DomeContent\<close>; \<open>SECOND\<close> and \<open>THIRD\<close> have the same shape.\<close>

record dome_content =
  dc_title :: jsstr
  dc_bullets :: "jsstr list"

definition SECOND :: "lang \<Rightarrow> dome_content" where
  "SECOND l =
     (case l of
        PL \<Rightarrow>
       \<lparr>dc_title = js ''Nieograniczone mo'' @ [0x17C] @ js ''liwo'' @ [0x15B] @ js ''ci zorganizowania:'',
        dc_bullets =
          [js ''Ekskluzywnych event'' @ [0xF3] @ js ''w korporacyjnych'',
           js ''Spotka'' @ [0x144] @ js '' kluczowych klient'' @ [0xF3] @ js ''w'',
           js ''Targ'' @ [0xF3] @ js ''w bran'' @ [0x17C] @ js ''owych'',
           js ''Konferencji prasowej'',
           js ''Szkole'' @ [0x144] @ js '' i wyk'' @ [0x142] @ js ''ad'' @ [0xF3] @ js ''w'',
           js ''Pokaz'' @ [0xF3] @ js ''w mody'',
           js ''Koncert'' @ [0xF3] @ js ''w'',
           js ''Prezentacji'']\<rparr>
      | EN \<Rightarrow>
       \<lparr>dc_title = js ''Unlimited possibilities to host'',
        dc_bullets =
          [js ''Exclusive corporate events'',
           js ''Key client meetings'',
           js ''Industry trade fairs'',
           js ''Press conferences'',
           js ''Trainings and lectures'',
           js ''Fashion shows'',
           js ''Concerts'',
           js ''Product presentations'']\<rparr>)"

definition THIRD :: "lang \<Rightarrow> dome_content" where
  "THIRD l =
     (case l of
        PL \<Rightarrow>
       \<lparr>dc_title = js ''Co nas wyr'' @ [0xF3] @ [0x17C] @ js ''nia?'',
        dc_bullets =
          [js ''Niespotykana architektura'',
           js ''Dwa studia '' @ [0x2013] @ js '' kopu'' @ [0x142] @ js ''y, ka'' @ [0x17C] @ js ''de o powierzchni 2 000 m'' @ [0xB2],
           js ''Ponadnormatywne wjazdy do wn'' @ [0x119] @ js ''trza kopu'' @ [0x142] @ js '' przez naprzeciwleg'' @ [0x142] @ js ''e bramy'',
           js ''Ka'' @ [0x17C] @ js ''da z kopu'' @ [0x142] @ js '' mo'' @ [0x17C] @ js ''e pomie'' @ [0x15B] @ js ''ci'' @ [0x107] @ js '' 1 200 os'' @ [0xF3] @ js ''b'',
           js ''Sklepienie centralne ponad 16 m'',
           js ''Spektakularna akustyka'',
           js ''Parking na ponad 200 samochod'' @ [0xF3] @ js ''w i autobus'' @ [0xF3] @ js ''w oraz l'' @ [0x105] @ js ''dowisko dla helikopter'' @ [0xF3] @ js ''w'',
           js ''Zaplecze: gastronomiczne, garderoby, charakteryzatornie'']\<rparr>
      | EN \<Rightarrow>
       \<lparr>dc_title = js ''What makes us unique?'',
        dc_bullets =
          [js ''Unconventional architecture'',
           js ''Two studios '' @ [0x2013] @ js '' domes, each with 2,000 m'' @ [0xB2] @ js '' of floor space'',
           js ''Oversized drive-through access via opposite gates'',
           js ''Each dome can host up to 1,200 people'',
           js ''Central dome height over 16 m'',
           js ''Spectacular acoustics'',
           js ''Parking for 200+ cars & buses plus a helipad'',
           js ''Back-of-house: catering, dressing rooms, make-up rooms'']\<rparr>)"

record domes_copy =
  k3 :: dome_content
  k4 :: dome_content
  k7 :: dome_content
  k10k12 :: dome_content

definition DOMES :: "lang \<Rightarrow> domes_copy" where
  "DOMES l =
     (case l of
        PL \<Rightarrow>
       \<lparr>k3 = \<lparr>dc_title = js ''Kopu'' @ [0x142] @ js ''a K3'',
          dc_bullets =
            [js ''Powierzchnia 2 000 m'' @ [0xB2],
             js ''Wysoko'' @ [0x15B] @ [0x107] @ js '' 16 m'',
             js ''Przy'' @ [0x142] @ [0x105] @ js ''cza elektryczne do 1 MW'',
             js ''Kratownica '' @ [0x2013] @ js '' ud'' @ [0x17A] @ js ''wig do 1 tony'',
             js ''Klimatyzowane garderoby z prysznicami'',
             js ''Klimatyzacja'',
             js ''Dwie bramy 4m '' @ [0xD7] @ js '' 4,5m (swobodny przejazd TIR)'',
             js ''Dopuszczalne obci'' @ [0x105] @ [0x17C] @ js ''enie posadzki dla form scenograficznych'']\<rparr>,
        k4 = \<lparr>dc_title = js ''Kopu'' @ [0x142] @ js ''a K4'',
          dc_bullets =
            [js ''Powierzchnia 2 000 m'' @ [0xB2],
             js ''Wysoko'' @ [0x15B] @ [0x107] @ js '' 16 m'',
             js ''Przy'' @ [0x142] @ [0x105] @ js ''cza elektryczne do 1 MW'',
             js ''Stanowiska do charakteryzacji'',
             js ''Klimatyzacja'',
             js ''Kratownica o ud'' @ [0x17A] @ js ''wigu do 2 ton'',
             js ''Dwie bramy 4m '' @ [0xD7] @ js '' 4,5m (swobodny przejazd TIR)'',
             js ''Dopuszczalne obci'' @ [0x105] @ [0x17C] @ js ''enie posadzki dla form scenograficznych'']\<rparr>,
        k7 = \<lparr>dc_title = js ''Kopu'' @ [0x142] @ js ''a K7'',
          dc_bullets =
            [js ''Ekran 10.2 '' @ [0xD7] @ js '' 4.2 m'',
             js ''Projektor 4K'',
             js ''Certyfikat Dolby Premier'',
             js ''76 foteli'']\<rparr>,
        k10k12 = \<lparr>dc_title = js ''Kopu'' @ [0x142] @ js ''y K10 i K12'',
          dc_bullets =
            [js ''Kopu'' @ [0x142] @ js ''y dwupoziomowe'',
             js ''Powierzchnia 600 m'' @ [0xB2]]\<rparr>\<rparr>
      | EN \<Rightarrow>
       \<lparr>k3 = \<lparr>dc_title = js ''Dome K3'',
          dc_bullets =
            [js ''Floor area 2,000 m'' @ [0xB2],
             js ''Height 16 m'',
             js ''Electrical connections up to 1 MW'',
             js ''Truss '' @ [0x2013] @ js '' load capacity up to 1 ton'',
             js ''Air-conditioned dressing rooms with showers'',
             js ''Air conditioning'',
             js ''Two gates 4 m '' @ [0xD7] @ js '' 4.5 m (truck drive-through)'',
             js ''Floor load capacity suitable for scenic structures'']\<rparr>,
        k4 = \<lparr>dc_title = js ''Dome K4'',
          dc_bullets =
            [js ''Floor area 2,000 m'' @ [0xB2],
             js ''Height 16 m'',
             js ''Electrical connections up to 1 MW'',
             js ''Make-up stations'',
             js ''Air conditioning'',
             js ''Truss with up to 2-ton capacity'',
             js ''Two gates 4 m '' @ [0xD7] @ js '' 4.5 m (truck drive-through)'',
             js ''Floor load capacity suitable for scenic structures'']\<rparr>,
        k7 = \<lparr>dc_title = js ''Dome K7'',
          dc_bullets =
            [js ''Screen 10.2 '' @ [0xD7] @ js '' 4.2 m'',
             js ''4K projector'',
             js ''Dolby Premier certificate'',
             js ''76 seats'']\<rparr>,
        k10k12 = \<lparr>dc_title = js ''Domes K10 and K12'',
          dc_bullets =
            [js ''Two-level domes'',
             js ''Floor area 600 m'' @ [0xB2]]\<rparr>\<rparr>)"

section \<open>Markup\<close>

text \<open>A list entry with a check mark, the line in a \<open>p\<close> (feature cards) or a
  \<open>span\<close> (dome cards).\<close>

definition check_item :: "jsstr \<Rightarrow> jsstr \<Rightarrow> node" where
  "check_item tag line =
     Elem (js ''li'') [] [Elem (js ''span'') [] [Text ([0x2713])], Elem tag [] [Text line]]"

definition hero_header :: "lang \<Rightarrow> node" where
  "hero_header l =
     Elem (js ''header'') []
       [Elem (js ''div'') []
          [Elem (js ''div'') []
             [Elem (js ''video'')
                [(js ''autoplay'', []), (js ''loop'', []), (js ''playsinline'', []), (js ''preload'', js ''metadata''),
                 (js ''poster'', js ''/wydarzenia/AP_wydarzenia_poster.webp'')]
                [Elem (js ''source'') [(js ''src'', js ''/wydarzenia/AP_wydarzenia.mp4''), (js ''type'', js ''video/mp4'')] [],
                 Elem (js ''source'') [(js ''src'', js ''/wydarzenia/AP_wydarzenia.webm''), (js ''type'', js ''video/webm'')] [],
                 Text (videoFallback (UI_TEXT l))],
              Elem (js ''div'') [] [],
              Elem (js ''div'') []
                [Elem (js ''div'') []
                   [Elem (js ''p'') [] [Text (copy_tag (COPY l))],
                    Elem (js ''h1'') [] [Text (copy_title (COPY l))]]]]]]"

definition event_poster :: jsstr where
  "event_poster = js ''/wydarzenia/AP_wydarzenia_poster.webp''"

text \<open>The props of the cards' \<open>EventVideo\<close>s: the video, the common poster, a layout
  class, and the page's loading and fallback texts.\<close>

definition page_video :: "lang \<Rightarrow> jsstr \<Rightarrow> jsstr \<Rightarrow> event_video_props" where
  "page_video l src cls =
     \<lparr>evp_src = src, evp_srcWebm = None, evp_poster = Some event_poster, evp_className = Some cls,
      evp_loadingLabel = loadingVideo (UI_TEXT l), evp_fallbackText = videoFallback (UI_TEXT l),
      evp_preload = None\<rparr>"

definition intro_card :: "lang \<Rightarrow> node" where
  "intro_card l =
     Elem (js ''li'') []
       [Elem (js ''div'') []
          [Elem (js ''div'') [] [Elem (js ''ul'') [] (map (check_item (js ''p'')) (copy_bullets (COPY l)))],
           event_video_node (page_video l (js ''/wydarzenia/bankiet1.mp4'') (js ''md:order-1''))]]"

text \<open>The second and third cards: a titled list beside an \<open>EventVideo\<close>.\<close>

definition feature_card :: "dome_content \<Rightarrow> event_video_props \<Rightarrow> node" where
  "feature_card c video =
     Elem (js ''li'') []
       [Card
          [Elem (js ''div'') []
             [Elem (js ''div'') []
                [Elem (js ''h2'') [] [Text (dc_title c)], Elem (js ''div'') [] [],
                 Elem (js ''ul'') [] (map (check_item (js ''p'')) (dc_bullets c))],
              event_video_node video]]]"

definition showcase_card :: "lang \<Rightarrow> tile_state list \<Rightarrow> node" where
  "showcase_card l ss = Elem (js ''li'') [] [Card [showcase_grid l ss]]"

definition dome_card :: "dome_content \<Rightarrow> node" where
  "dome_card d =
     Card [Elem (js ''div'') []
             [Elem (js ''h3'') [] [Text (dc_title d)], Elem (js ''div'') [] [],
              Elem (js ''ul'') [] (map (check_item (js ''span'')) (dc_bullets d))]]"

definition domes_section :: "lang \<Rightarrow> node" where
  "domes_section l =
     Elem (js ''li'') []
       [Elem (js ''div'') []
          [Elem (js ''div'') []
             (map dome_card [k3 (DOMES l), k4 (DOMES l), k7 (DOMES l), k10k12 (DOMES l)])]]"

definition gallery_link :: node where
  "gallery_link = Elem (js ''a'') [(js ''href'', js ''/galeria'')] [Text (js ''Przejd'' @ [0x17A] @ js '' do galerii'')]"

definition gallery_card :: node where
  "gallery_card =
     Elem (js ''li'') []
       [Card
          [Elem (js ''div'') []
             [Elem (js ''img'') [(js ''alt'', js ''Mapa obiektu Alvernia Planet''), (js ''src'', js ''/wydarzenia/mapka.webp'')] [],
              Elem (js ''div'') [(js ''aria-hidden'', js ''true'')] []],
           Elem (js ''div'') []
             [gallery_link]]]"

definition map_load_button :: node where
  "map_load_button = Elem (js ''button'') [(js ''type'', js ''button'')] [Text (js ''Za'' @ [0x142] @ js ''aduj map'' @ [0x119])]"

text \<open>\<open>MapFrameProps\<close>.\<close>

record map_frame_props =
  mfp_src :: jsstr
  mfp_loadingLabel :: jsstr
  mfp_title :: jsstr

definition map_frame_node :: "map_frame_props \<Rightarrow> map_frame \<Rightarrow> node" where
  "map_frame_node p s =
     Elem (js ''div'') []
       ((if \<not> mf_should_load s then
           [Elem (js ''div'') []
              [Elem (js ''span'') [] [Text (mfp_loadingLabel p)],
               map_load_button]]
         else if \<not> mf_loaded s then [Elem (js ''div'') [] [Text (mfp_loadingLabel p)]]
         else [])
        @ (if mf_should_load s then
             [Elem (js ''iframe'')
                [(js ''title'', mfp_title p), (js ''src'', mfp_src p), (js ''loading'', js ''lazy''),
                 (js ''referrerpolicy'', js ''no-referrer-when-downgrade''), (js ''allowfullscreen'', [])] []]
           else []))"

definition MAP_EMBED_SRC :: jsstr where
  "MAP_EMBED_SRC = js ''https://www.google.com/maps?q=Alvernia+Planet,+Nieporaz,+Ferdynanda+Wspania%C5%82ego+1&output=embed''"

definition tel_link :: node where
  "tel_link = Elem (js ''a'') [(js ''href'', js ''tel:+48723999099'')] [Text (js ''+48 723 999 099'')]"

definition mail_link :: node where
  "mail_link = Elem (js ''a'') [(js ''href'', js ''mailto:b.jacon@gremi.pl'')] [Text (js ''b.jacon@gremi.pl'')]"

definition maps_link :: "lang \<Rightarrow> node" where
  "maps_link l =
     Elem (js ''a'')
       [(js ''href'', js ''https://maps.app.goo.gl/a45HTibANAsDAi7u7''), (js ''target'', js ''_blank''),
        (js ''rel'', js ''noopener noreferrer'')]
       [Text (mapButton (UI_TEXT l))]"

definition contact_card :: "lang \<Rightarrow> map_frame \<Rightarrow> node" where
  "contact_card l mf =
     Elem (js ''li'') []
       [Card
          [Elem (js ''div'') []
             [Elem (js ''div'') []
                [Elem (js ''h3'') [] [Text (contactHeading (UI_TEXT l))], Elem (js ''div'') [] [],
                 Elem (js ''div'') []
                   [Elem (js ''div'') []
                      [Elem (js ''p'') [] [Text (js ''BARTEK JACO'' @ [0x143])],
                       Elem (js ''p'') [] [Text (js ''Specjalista ds. sprzeda'' @ [0x17C] @ js ''y'')],
                       Elem (js ''p'') [] [tel_link],
                       Elem (js ''p'') [] [mail_link]]]],
              Elem (js ''div'') []
                [Elem (js ''h4'') [] [Text (addressHeading (UI_TEXT l))],
                 Elem (js ''p'') [] [Text (js ''Alvernia Planet'')],
                 Elem (js ''p'') [] [Text (js ''Nieporaz, ul. Ferdynanda Wspania'' @ [0x142] @ js ''ego 1'')],
                 Elem (js ''p'') [] [Text (js ''32-566 Alwernia'')],
                 map_frame_node
                   \<lparr>mfp_src = MAP_EMBED_SRC, mfp_loadingLabel = loadingMap (UI_TEXT l),
                    mfp_title = mapTitle (UI_TEXT l)\<rparr> mf,
                 maps_link l]]]]"

text \<open>The page: the hero header, then the list of cards.\<close>

definition events_page :: "lang \<Rightarrow> tile_state list \<Rightarrow> map_frame \<Rightarrow> node" where
  "events_page l ss mf =
     Elem (js ''main'') []
       [Elem (js ''section'') []
          [hero_header l,
           Elem (js ''section'') []
             [Elem (js ''ul'') []
                [intro_card l,
                 feature_card (SECOND l) (page_video l (js ''/wydarzenia/banket4.mp4'') (js ''md:order-2'')),
                 feature_card (THIRD l) (page_video l (js ''/wydarzenia/bankiet3.mp4'') (js ''md:order-1'')),
                 showcase_card l ss, domes_section l, gallery_card, contact_card l mf]]]]"

text \<open>Where the showcase grid sits in the page: \<open>main\<close>, the outer and the inner
  section, the list of cards, the fourth card, its \<open>Card\<close>.\<close>

definition showcase_path :: "nat list" where
  "showcase_path = [0, 1, 0, 3, 0, 0]"

text \<open>Where the \<open>MapFrame\<close> sits: the seventh card (contact), its \<open>Card\<close>, the grid, the
  address column, after the heading and the three address lines.\<close>

definition mapframe_path :: "nat list" where
  "mapframe_path = [0, 1, 0, 6, 0, 0, 1, 4]"

section \<open>Lemmas\<close>

lemma no_clickable_check_item [simp]:
  "no_clickable (check_item t line) \<longleftrightarrow> t \<noteq> js ''a'' \<and> t \<noteq> js ''button''"
  by (simp add: check_item_def)

lemma no_clickable_event_video_node [simp]: "no_clickable (event_video_node p)"
  by (cases "evp_poster p"; cases "evp_srcWebm p") (auto simp: event_video_node_def truthy_prop_def)

lemma no_clickable_sections:
  "no_clickable (hero_header l)" "no_clickable (intro_card l)" "no_clickable (feature_card c v)"
  "no_clickable (domes_section l)"
  by (simp_all add: hero_header_def intro_card_def feature_card_def domes_section_def dome_card_def Card_def)

lemma video_tile_clickable:
  "x \<in> set (all_nodes (video_tile p s)) \<Longrightarrow> is_clickable x \<Longrightarrow> x = tile_poster (vtp_item p)"
  by (auto simp: video_tile_def Let_def tile_poster_def tile_frame_def event_video_node_def truthy_prop_def
      split: if_splits option.splits)

lemma showcase_card_clickable:
  "x \<in> set (all_nodes (showcase_card l ss)) \<Longrightarrow> is_clickable x \<Longrightarrow>
     \<exists>it \<in> set (vs_items (VIDEO_SHOWCASE l)). x = tile_poster it"
  by (fastforce simp: showcase_card_def Card_def showcase_grid_def showcase_tile_props_def
      dest: video_tile_clickable set_zip_leftD)

lemma gallery_card_clickable:
  "x \<in> set (all_nodes gallery_card) \<Longrightarrow> is_clickable x \<Longrightarrow> x = gallery_link"
  by (auto simp: gallery_card_def Card_def gallery_link_def)

lemma map_frame_node_clickable:
  "x \<in> set (all_nodes (map_frame_node p s)) \<Longrightarrow> is_clickable x \<Longrightarrow> x = map_load_button"
  by (auto simp: map_frame_node_def map_load_button_def split: if_splits)


lemma link_clickable:
  "x \<in> set (all_nodes tel_link) \<Longrightarrow> is_clickable x \<Longrightarrow> x = tel_link"
  "x \<in> set (all_nodes mail_link) \<Longrightarrow> is_clickable x \<Longrightarrow> x = mail_link"
  "x \<in> set (all_nodes (maps_link l)) \<Longrightarrow> is_clickable x \<Longrightarrow> x = maps_link l"
  "x \<in> set (all_nodes gallery_link) \<Longrightarrow> is_clickable x \<Longrightarrow> x = gallery_link"
  "x \<in> set (all_nodes map_load_button) \<Longrightarrow> is_clickable x \<Longrightarrow> x = map_load_button"
  unfolding tel_link_def mail_link_def maps_link_def gallery_link_def map_load_button_def
  by (rule clickable_only_root; simp)+

lemma contact_card_clickable:
  "x \<in> set (all_nodes (contact_card l mf)) \<Longrightarrow> is_clickable x \<Longrightarrow>
     x = tel_link \<or> x = mail_link \<or> x = maps_link l \<or> x = map_load_button"
  by (auto simp: contact_card_def Card_def dest: link_clickable map_frame_node_clickable)

lemmas sections_unclickable =
  no_clickable_all_nodes [OF no_clickable_sections(1)] no_clickable_all_nodes [OF no_clickable_sections(2)]
  no_clickable_all_nodes [OF no_clickable_sections(3)] no_clickable_all_nodes [OF no_clickable_sections(4)]

lemma events_page_clickable:
  assumes "x \<in> set (all_nodes (events_page l ss mf))" and "is_clickable x"
  shows "(\<exists>it \<in> set (vs_items (VIDEO_SHOWCASE l)). x = tile_poster it)
         \<or> x = gallery_link \<or> x = tel_link \<or> x = mail_link \<or> x = maps_link l \<or> x = map_load_button"
  using assms
  by (auto simp: events_page_def
      dest: sections_unclickable showcase_card_clickable gallery_card_clickable contact_card_clickable)


lemma page_links_events:
  "click_events env gallery_link =
     Inr [(js ''ui_click'', [(js ''label'', Some (JStr (js ''Przejd'' @ [0x17A] @ js '' do galerii''))),
                            (js ''href'', map_option JStr (getHref env gallery_link))])]"
  "click_events env tel_link =
     Inr [(js ''ui_click'', [(js ''label'', Some (JStr (js ''+48 723 999 099''))),
                            (js ''href'', map_option JStr (getHref env tel_link))])]"
  "click_events env mail_link =
     Inr [(js ''ui_click'', [(js ''label'', Some (JStr (js ''b.jacon@gremi.pl''))),
                            (js ''href'', map_option JStr (getHref env mail_link))])]"
  "click_events env map_load_button =
     Inr [(js ''ui_click'', [(js ''label'', Some (JStr (js ''Za'' @ [0x142] @ js ''aduj map'' @ [0x119]))),
                            (js ''href'', map_option JStr (getHref env map_load_button))])]"
  by (rule plain_click_events;
      simp add: gallery_link_def tel_link_def mail_link_def map_load_button_def label_eval)+

lemma maps_link_events:
  "click_events env (maps_link l) =
     Inr [(js ''ui_click'', [(js ''label'', Some (JStr (mapButton (UI_TEXT l)))),
                            (js ''href'', map_option JStr (getHref env (maps_link l)))])]"
  by (cases l) (rule plain_click_events; simp add: maps_link_def UI_TEXT_def label_eval)+

lemma events_page_click_events:
  assumes "c \<in> set (all_nodes (events_page l ss mf))" and "is_clickable c"
  shows "\<exists>lbl. lbl \<noteq> [] \<and>
           click_events env c =
             Inr [(js ''ui_click'', [(js ''label'', Some (JStr lbl)), (js ''href'', map_option JStr (getHref env c))])]"
proof -
  from events_page_clickable [OF assms]
  show ?thesis
  proof (elim disjE bexE)
    fix it assume "it \<in> set (vs_items (VIDEO_SHOWCASE l))" and c: "c = tile_poster it"
    with tile_poster_events [of it l env] show ?thesis by (simp add: tile_poster_def getHref_def is_anchor_def)
  qed (auto simp: page_links_events maps_link_events UI_TEXT_def split: lang.split)
qed

lemma events_page_clicks_plain:
  "gtag_defined w \<Longrightarrow> plain_click env (events_page l ss mf) path w"
  by (erule plain_click_page) (erule (1) events_page_click_events)

lemma node_at_showcase_path: "node_at (events_page l ss mf) showcase_path = Some (showcase_grid l ss)"
  by (simp add: events_page_def showcase_path_def showcase_card_def Card_def)

lemma showcase_path_unclickable:
  "\<forall>x \<in> set (path_nodes (events_page l ss mf) showcase_path). \<not> is_clickable x"
  by (simp add: events_page_def showcase_path_def showcase_card_def Card_def showcase_grid_def)

text \<open>An activated tile (and a tile of a plain video) holds nothing clickable: the iframe
  and its loading overlay, or an \<open>EventVideo\<close>.\<close>

lemma no_clickable_video_tile:
  "tile_activated s \<or> \<not> vi_embed (vtp_item p) \<Longrightarrow> no_clickable (video_tile p s)"
  by (auto simp: video_tile_def Let_def tile_frame_def)

lemma showcase_tile_unclickable:
  assumes "i < length (vs_items (VIDEO_SHOWCASE l))" and "i < length ss" and "tile_activated (ss ! i)"
  shows "nearest_clickable (events_page l ss mf) (showcase_path @ [1, i] @ p) = None"
proof -
  let ?tile = "video_tile (showcase_tile_props l (vs_items (VIDEO_SHOWCASE l) ! i)) (ss ! i)"
  have at: "node_at (events_page l ss mf) (showcase_path @ [1, i]) = Some ?tile"
    using node_at_showcase_path node_at_showcase_tile [OF assms(1,2)] by (simp add: node_at_append)
  have "\<forall>x \<in> set (path_nodes (events_page l ss mf) (showcase_path @ [1, i])). \<not> is_clickable x"
    using showcase_path_unclickable [of l ss mf] no_clickable_root [OF no_clickable_video_tile] assms(3)
    by (simp add: path_nodes_append [OF node_at_showcase_path] showcase_grid_def assms(1,2)
        showcase_tile_props_def)
  with at no_clickable_video_tile [of "ss ! i"] assms(3)
  show ?thesis using nearest_clickable_none_below by (metis append_assoc)
qed

lemma node_at_mapframe_path:
  "node_at (events_page l ss mf) mapframe_path =
     Some (map_frame_node \<lparr>mfp_src = MAP_EMBED_SRC, mfp_loadingLabel = loadingMap (UI_TEXT l),
                           mfp_title = mapTitle (UI_TEXT l)\<rparr> mf)"
  by (simp add: events_page_def mapframe_path_def contact_card_def Card_def)

lemma mapframe_path_unclickable:
  "\<forall>x \<in> set (path_nodes (events_page l ss mf) mapframe_path). \<not> is_clickable x"
  by (simp add: events_page_def mapframe_path_def contact_card_def Card_def map_frame_node_def)

text \<open>Once \<open>shouldLoad\<close> is set the map frame holds nothing clickable: the loading
  overlay and the iframe.\<close>

lemma no_clickable_map_frame_loading: "mf_should_load s \<Longrightarrow> no_clickable (map_frame_node p s)"
  by (simp add: map_frame_node_def)

lemma map_frame_button_at:
  "\<not> mf_should_load s \<Longrightarrow> node_at (map_frame_node p s) [0, 1] = Some map_load_button"
  by (simp add: map_frame_node_def)

section \<open>Properties\<close>

text \<open>
  C9 (safety, cross-component: click listener, \<open>MapFrame\<close> state, page markup). On the
  events page, in either language, a click on the map frame's load button is seen first
  by the tracker, on the page as it is: one \<open>ui_click\<close> labelled with the button's
  hard-coded Polish text (\<open>Zaladuj mape\<close>, with its Polish letters). Its \<open>onClick\<close> then sets \<open>shouldLoad\<close>, the
  frame shows the map (or its loading overlay), and from then on no click inside the map
  frame is recorded.
\<close>

theorem map_frame_click_tracked_once:
  assumes "\<not> mf_should_load mf" and "gtag_defined w"
  shows "let w' = w\<lparr>data_layer := data_layer w @
                    [event_entry (js ''ui_click'')
                       [(js ''label'', Some (JStr (js ''Za'' @ [0x142] @ js ''aduj map'' @ [0x119]))),
                        (js ''href'', None)]]\<rparr>
         in onDocumentClick env (events_page l ss mf) (mapframe_path @ [0, 1]) (Some w) = Inr (Some w')
            \<and> map_frame_view (mf_click mf) \<noteq> MapPlaceholder
            \<and> (\<forall>p. onDocumentClick env (events_page l ss (mf_click mf)) (mapframe_path @ p) (Some w')
                     = Inr (Some w'))"
proof -
  have at: "node_at (events_page l ss mf) (mapframe_path @ [0, 1]) = Some map_load_button"
    using node_at_mapframe_path map_frame_button_at [OF assms(1)] by (simp add: node_at_append)
  have n: "nearest_clickable (events_page l ss mf) (mapframe_path @ [0, 1]) = Some map_load_button"
    unfolding nearest_clickable_def
    using find_nearest_subtree [OF at, of is_clickable "[]"] by (simp add: map_load_button_def)
  have ev: "click_events env map_load_button =
     Inr [(js ''ui_click'', [(js ''label'', Some (JStr (js ''Za'' @ [0x142] @ js ''aduj map'' @ [0x119]))),
                            (js ''href'', None)])]"
    using page_links_events(4) by (simp add: map_load_button_def getHref_def is_anchor_def)
  have sl: "mf_should_load (mf_click mf)" by (simp add: mf_click_def)
  have "nearest_clickable (events_page l ss (mf_click mf)) (mapframe_path @ p) = None" for p
    by (rule nearest_clickable_none_below [OF node_at_mapframe_path mapframe_path_unclickable
          no_clickable_map_frame_loading [OF sl]])
  then have "onDocumentClick env (events_page l ss (mf_click mf)) (mapframe_path @ p) g = Inr g" for p g
    by (cases "node_at (events_page l ss (mf_click mf)) (mapframe_path @ p)")
       (auto intro: onDocumentClick_no_target onDocumentClick_unclassified)
  with n onDocumentClick_eq [OF at _ assms(2), of env] ev sl show ?thesis
    by (simp add: emitted_def Let_def map_frame_view_def is_ignored_def map_load_button_def)
qed

theorem map_frame_click_tracked_once_witness:
  "onDocumentClick example_env (events_page EN [tile_init, tile_init, tile_init] mf_init)
       (mapframe_path @ [0, 1]) (Some \<lparr>gtag_defined = True, data_layer = []\<rparr>) =
     Inr (Some \<lparr>gtag_defined = True, data_layer =
       [event_entry (js ''ui_click'')
          [(js ''label'', Some (JStr (js ''Za'' @ [0x142] @ js ''aduj map'' @ [0x119]))), (js ''href'', None)]]\<rparr>)
   \<and> map_frame_view (mf_click mf_init) \<noteq> MapPlaceholder
   \<and> onDocumentClick example_env (events_page EN [tile_init, tile_init, tile_init] (mf_click mf_init))
       (mapframe_path @ [0]) (Some \<lparr>gtag_defined = True, data_layer =
       [event_entry (js ''ui_click'')
          [(js ''label'', Some (JStr (js ''Za'' @ [0x142] @ js ''aduj map'' @ [0x119]))), (js ''href'', None)]]\<rparr>) =
     Inr (Some \<lparr>gtag_defined = True, data_layer =
       [event_entry (js ''ui_click'')
          [(js ''label'', Some (JStr (js ''Za'' @ [0x142] @ js ''aduj map'' @ [0x119]))), (js ''href'', None)]]\<rparr>)"
  using map_frame_click_tracked_once [of mf_init "\<lparr>gtag_defined = True, data_layer = []\<rparr>"
      example_env EN "[tile_init, tile_init, tile_init]"]
  by (simp add: mf_init_def Let_def)

text \<open>
  C12 (functional, cross-component: click listener, \<open>VideoTile\<close> state, page markup).
  A click on the poster of a showcase tile, anywhere inside its button, is seen first by
  the tracker's capture listener, on the page as it is: it records one \<open>ui_click\<close>
  labelled with the poster's text. The button's own handler then activates the tile,
  which React renders as the iframe. From then on no click inside that tile is recorded:
  each tile reports the one click that starts it.
\<close>

theorem showcase_click_tracked_once:
  assumes "i < length (vs_items (VIDEO_SHOWCASE l))" and "i < length ss" and "\<not> tile_activated (ss ! i)"
    and "node_at (tile_poster (vs_items (VIDEO_SHOWCASE l) ! i)) p = Some t" and "is_element t"
    and "gtag_defined w"
  shows "let ss' = showcase_click l ss ([1, i] @ p);
             w' = w\<lparr>data_layer := data_layer w @
                    [event_entry (js ''ui_click'')
                       [(js ''label'', Some (JStr (([0x25B6] @ js '' Odtw'' @ [0xF3] @ js ''rz'')
                                                   @ vi_title (vs_items (VIDEO_SHOWCASE l) ! i)))),
                        (js ''href'', None)]]\<rparr>
         in onDocumentClick env (events_page l ss mf) (showcase_path @ [1, i] @ p) (Some w) = Inr (Some w')
            \<and> tile_activated (ss' ! i)
            \<and> (\<forall>p'. onDocumentClick env (events_page l ss' mf) (showcase_path @ [1, i] @ p') (Some w')
                       = Inr (Some w'))"
proof -
  let ?it = "vs_items (VIDEO_SHOWCASE l) ! i"
  let ?ss' = "showcase_click l ss ([1, i] @ p)"
  from showcase_poster_nearest [OF assms(1-3) node_at_showcase_path assms(4)]
  have t: "node_at (events_page l ss mf) (showcase_path @ [1, i] @ p) = Some t"
    and n: "nearest_clickable (events_page l ss mf) (showcase_path @ [1, i] @ p) = Some (tile_poster ?it)"
    by blast+
  note ev = tile_poster_events [OF nth_mem [OF assms(1)], of env]
  have ss': "?ss' = ss[i := (ss ! i)\<lparr>tile_activated := True\<rparr>]"
    by (rule showcase_click_poster [OF assms(1-3)]) (simp add: assms(4))
  then have act: "tile_activated (?ss' ! i)" and len: "i < length ?ss'" using assms(2) by simp_all
  have "nearest_clickable (events_page l ?ss' mf) (showcase_path @ [1, i] @ p') = None" for p'
    by (rule showcase_tile_unclickable [OF assms(1) len act])
  then have "onDocumentClick env (events_page l ?ss' mf) (showcase_path @ [1, i] @ p') g = Inr g" for p' g
    by (cases "node_at (events_page l ?ss' mf) (showcase_path @ [1, i] @ p')")
       (auto intro: onDocumentClick_no_target onDocumentClick_unclassified)
  with n onDocumentClick_eq [OF t assms(5,6), of env] ev act show ?thesis
    by (simp add: emitted_def Let_def)
qed

theorem showcase_click_tracked_once_witness:
  "onDocumentClick example_env (events_page EN [tile_init, tile_init, tile_init] mf_init)
       (showcase_path @ [1, 0] @ [2, 0]) (Some \<lparr>gtag_defined = True, data_layer = []\<rparr>) =
     Inr (Some \<lparr>gtag_defined = True, data_layer =
       [event_entry (js ''ui_click'')
          [(js ''label'', Some (JStr (([0x25B6] @ js '' Odtw'' @ [0xF3] @ js ''rz'') @ js ''Concert in the dome''))),
           (js ''href'', None)]]\<rparr>)
   \<and> tile_activated (showcase_click EN [tile_init, tile_init, tile_init] ([1, 0] @ [2, 0]) ! 0)
   \<and> onDocumentClick example_env
       (events_page EN (showcase_click EN [tile_init, tile_init, tile_init] ([1, 0] @ [2, 0])) mf_init)
       (showcase_path @ [1, 0] @ [0]) (Some \<lparr>gtag_defined = True, data_layer =
       [event_entry (js ''ui_click'')
          [(js ''label'', Some (JStr (([0x25B6] @ js '' Odtw'' @ [0xF3] @ js ''rz'') @ js ''Concert in the dome''))),
           (js ''href'', None)]]\<rparr>) =
     Inr (Some \<lparr>gtag_defined = True, data_layer =
       [event_entry (js ''ui_click'')
          [(js ''label'', Some (JStr (([0x25B6] @ js '' Odtw'' @ [0xF3] @ js ''rz'') @ js ''Concert in the dome''))),
           (js ''href'', None)]]\<rparr>)"
proof -
  have "node_at (tile_poster (vs_items (VIDEO_SHOWCASE EN) ! 0)) [2, 0] =
          Some (Elem (js ''p'') [] [Text (js ''Concert in the dome'')])"
    by (simp add: tile_poster_def VIDEO_SHOWCASE_def)
  from showcase_click_tracked_once [of 0 EN "[tile_init, tile_init, tile_init]" "[2, 0]"
      "Elem (js ''p'') [] [Text (js ''Concert in the dome'')]" "\<lparr>gtag_defined = True, data_layer = []\<rparr>"
      example_env mf_init, OF _ _ _ this]
  show ?thesis by (simp add: VIDEO_SHOWCASE_def tile_init_def Let_def)
qed

end
