(* ===== verification/DirectionsPage.thy ===== *)
theory DirectionsPage
  imports Directions PageMarkup
begin

text \<open>
  The document \<open>JakDojechacPage\<close> of \<open>src/src/app/jak-dojechac/page.tsx\<close> renders
  for a page state: the header from \<open>COPY\<close> (here \<open>DIRECTIONS_COPY\<close>, as the
  events page has a \<open>COPY\<close> of its own), a card with the two tab buttons, the
  current list (its heading and one item button per entry, as in \<open>Directions\<close>) and
  the map area (the load button before \<open>shouldLoadMap\<close>, the iframe of
  \<open>mapSrc\<close> after), and a card with an image. Icons, styling and animation props are
  left out; \<open>Card\<close> is as in \<open>PageMarkup\<close>, \<open>Image\<close> of Next.js renders an image.
  The property (C32) follows a click on the attractions tab through the tracker, the
  tab's handler and the default-route effect.
\<close>

record jak_copy =
  jc_tag :: jsstr
  jc_title :: jsstr
  jc_subtitle :: jsstr
  jc_nearbyTitle :: jsstr
  jc_mapTitle :: jsstr
  jc_unit :: jsstr

definition DIRECTIONS_COPY :: "lang \<Rightarrow> jak_copy" where
  "DIRECTIONS_COPY l =
     (case l of
        PL \<Rightarrow>
       \<lparr>jc_tag = js ''Dojazd'',
        jc_title = js ''Jak dojecha'' @ [0x107],
        jc_subtitle = js ''Obiekt zlokalizowany przy autostradzie A4, pomi'' @ [0x119] @ js ''dzy Krakowem i Katowicami.'',
        jc_nearbyTitle = js ''W pobli'' @ [0x17C] @ js ''u'',
        jc_mapTitle = js ''Mapa dojazdu '' @ [0x2013] @ js '' Alvernia Planet'',
        jc_unit = js ''km''\<rparr>
      | EN \<Rightarrow>
       \<lparr>jc_tag = js ''Getting here'',
        jc_title = js ''How to get here'',
        jc_subtitle = js ''Located by the A4 highway between Krak'' @ [0xF3] @ js ''w and Katowice.'',
        jc_nearbyTitle = js ''Nearby'',
        jc_mapTitle = js ''Directions map '' @ [0x2013] @ js '' Alvernia Planet'',
        jc_unit = js ''km''\<rparr>)"

definition routes_tab_button :: node where
  "routes_tab_button = Elem (js ''button'') [(js ''type'', js ''button'')] [Text (js ''Dojazdy'')]"

definition attractions_tab_button :: node where
  "attractions_tab_button = Elem (js ''button'') [(js ''type'', js ''button'')] [Text (js ''Atrakcje'')]"

definition dir_load_button :: node where
  "dir_load_button = Elem (js ''button'') [(js ''type'', js ''button'')] [Text (js ''Za'' @ [0x142] @ js ''aduj map'' @ [0x119])]"

definition map_area :: "directions_state \<Rightarrow> node" where
  "map_area s =
     Elem (js ''div'') []
       [if \<not> should_load_map s then Elem (js ''div'') [] [dir_load_button]
        else Elem (js ''iframe'')
               [(js ''title'', jc_mapTitle (DIRECTIONS_COPY (ds_locale s))), (js ''src'', map_src s), (js ''loading'', js ''lazy''),
                (js ''allowfullscreen'', []), (js ''referrerpolicy'', js ''no-referrer-when-downgrade'')] []]"

definition list_heading :: "directions_state \<Rightarrow> jsstr" where
  "list_heading s =
     (if active_tab s = Routes then jc_nearbyTitle (DIRECTIONS_COPY (ds_locale s)) else js ''Atrakcje w okolicy'')"

definition directions_page :: "directions_state \<Rightarrow> node" where
  "directions_page s =
     Elem (js ''main'') []
       [Elem (js ''div'') []
          [Elem (js ''header'') []
             [Elem (js ''p'') [] [Text (jc_tag (DIRECTIONS_COPY (ds_locale s)))],
              Elem (js ''h1'') [] [Text (jc_title (DIRECTIONS_COPY (ds_locale s)))],
              Elem (js ''p'') [] [Text (jc_subtitle (DIRECTIONS_COPY (ds_locale s)))]],
           Card
             [Elem (js ''div'') [] [routes_tab_button, attractions_tab_button],
              Elem (js ''div'') []
                [Elem (js ''div'') []
                   [Elem (js ''h2'') [] [Text (list_heading s)], Elem (js ''div'') [] [],
                    Elem (js ''ul'') [] (map (\<lambda>it. Elem (js ''li'') [] [item_button s it]) (current_list s))],
                 map_area s]],
           Card
             [Elem (js ''div'') []
                [Elem (js ''div'') []
                   [Elem (js ''img'') [(js ''alt'', js ''Atrakcje w okolicy''), (js ''src'', js ''/atrakcje.webp'')] []]]]]]"

section \<open>Lemmas\<close>

lemma item_button_clickable:
  "x \<in> set (all_nodes (item_button s it)) \<Longrightarrow> is_clickable x \<Longrightarrow> x = item_button s it"
  unfolding item_button_def by (rule clickable_only_root) (simp_all add: item_icon_def)

lemma dir_buttons_clickable:
  "x \<in> set (all_nodes routes_tab_button) \<Longrightarrow> is_clickable x \<Longrightarrow> x = routes_tab_button"
  "x \<in> set (all_nodes attractions_tab_button) \<Longrightarrow> is_clickable x \<Longrightarrow> x = attractions_tab_button"
  "x \<in> set (all_nodes dir_load_button) \<Longrightarrow> is_clickable x \<Longrightarrow> x = dir_load_button"
  unfolding routes_tab_button_def attractions_tab_button_def dir_load_button_def
  by (rule clickable_only_root; simp)+

lemma map_area_clickable:
  "x \<in> set (all_nodes (map_area s)) \<Longrightarrow> is_clickable x \<Longrightarrow> x = dir_load_button"
  by (auto simp: map_area_def dest: dir_buttons_clickable split: if_splits)

lemma directions_page_clickable:
  assumes "x \<in> set (all_nodes (directions_page s))" and "is_clickable x"
  shows "x = routes_tab_button \<or> x = attractions_tab_button \<or> x = dir_load_button
         \<or> (\<exists>it \<in> set (current_list s). x = item_button s it)"
  using assms
  by (auto simp: directions_page_def Card_def dest: dir_buttons_clickable map_area_clickable item_button_clickable)

lemma dir_buttons_events:
  "click_events env routes_tab_button =
     Inr [(js ''ui_click'', [(js ''label'', Some (JStr (js ''Dojazdy''))),
                            (js ''href'', map_option JStr (getHref env routes_tab_button))])]"
  "click_events env attractions_tab_button =
     Inr [(js ''ui_click'', [(js ''label'', Some (JStr (js ''Atrakcje''))),
                            (js ''href'', map_option JStr (getHref env attractions_tab_button))])]"
  "click_events env dir_load_button =
     Inr [(js ''ui_click'', [(js ''label'', Some (JStr (js ''Za'' @ [0x142] @ js ''aduj map'' @ [0x119]))),
                            (js ''href'', map_option JStr (getHref env dir_load_button))])]"
  by (rule plain_click_events;
      simp add: routes_tab_button_def attractions_tab_button_def dir_load_button_def label_eval)+

lemma directions_page_click_events:
  assumes "c \<in> set (all_nodes (directions_page s))" and "is_clickable c"
  shows "\<exists>lbl. lbl \<noteq> [] \<and>
           click_events env c =
             Inr [(js ''ui_click'', [(js ''label'', Some (JStr lbl)), (js ''href'', map_option JStr (getHref env c))])]"
proof -
  from directions_page_clickable [OF assms]
  show ?thesis
  proof (elim disjE bexE)
    fix it assume "it \<in> set (current_list s)" and c: "c = item_button s it"
    then have "it \<in> set (NEARBY (ds_locale s)) \<or> it \<in> set (ATTRACTIONS (ds_locale s))"
      by (auto simp: current_list_def split: if_splits)
    with item_button_events [of it "ds_locale s" s env] c show ?thesis
      by (simp add: item_button_def getHref_def is_anchor_def)
  qed (auto simp: dir_buttons_events)
qed

lemma directions_page_clicks_plain:
  "gtag_defined w \<Longrightarrow> plain_click env (directions_page s) path w"
  by (erule plain_click_page) (erule (1) directions_page_click_events)

section \<open>Properties\<close>

text \<open>
  C32 (safety, cross-component: tab button, click listener, page state, default-route
  effect). On the getting-there page showing the routes, in either language, a click on
  the second tab button is seen first by the tracker on the page as it is: one
  \<open>ui_click\<close> labelled with its hard-coded Polish text \<open>Atrakcje\<close>. Its handler then
  switches the tab and the default-route effect selects the first attraction: the list
  heading is that of the attractions, exactly that first attraction is pressed, and the
  map shows the route from it. Pressing the tab again leaves the page as it is.
\<close>

theorem directions_tab_click:
  assumes "active_tab s = Routes" and "gtag_defined w"
  shows "onDocumentClick env (directions_page s) [0, 1, 0, 1] (Some w) =
           Inr (Some (w\<lparr>data_layer := data_layer w @
             [event_entry (js ''ui_click'') [(js ''label'', Some (JStr (js ''Atrakcje''))), (js ''href'', None)]]\<rparr>))
         \<and> (\<exists>s'. select_tab Attractions now s = Some s'
              \<and> list_heading s' = js ''Atrakcje w okolicy''
              \<and> pressed_items s' = [hd (ATTRACTIONS (ds_locale s))]
              \<and> embed_origin (map_src s') = Some (item_label (hd (ATTRACTIONS (ds_locale s))))
              \<and> select_tab Attractions now' s' = Some s')"
proof -
  have at: "node_at (directions_page s) [0, 1, 0, 1] = Some attractions_tab_button"
    by (simp add: directions_page_def Card_def)
  have n: "nearest_clickable (directions_page s) [0, 1, 0, 1] = Some attractions_tab_button"
    unfolding nearest_clickable_def
    using find_nearest_subtree [OF at, of is_clickable "[]"] by (simp add: attractions_tab_button_def)
  have ev: "click_events env attractions_tab_button =
     Inr [(js ''ui_click'', [(js ''label'', Some (JStr (js ''Atrakcje''))), (js ''href'', None)])]"
    using dir_buttons_events(2) by (simp add: attractions_tab_button_def getHref_def is_anchor_def)
  have click: "onDocumentClick env (directions_page s) [0, 1, 0, 1] (Some w) =
           Inr (Some (w\<lparr>data_layer := data_layer w @
             [event_entry (js ''ui_click'') [(js ''label'', Some (JStr (js ''Atrakcje''))), (js ''href'', None)]]\<rparr>))"
    using onDocumentClick_eq [OF at _ assms(2), of env] n ev
    by (simp add: emitted_def is_ignored_def attractions_tab_button_def)
  obtain s' where d: "default_route now (s\<lparr>active_tab := Attractions\<rparr>) = Some s'"
    using default_route_Some by blast
  then have sel: "select_tab Attractions now s = Some s'" using assms(1) by (simp add: select_tab_def)
  from default_route_props [OF d] default_route_keeps [OF d]
  have inv: "dir_inv s'" and cl: "current_list s' = ATTRACTIONS (ds_locale s)"
    and o: "active_origin s' = Some (item_label (hd (ATTRACTIONS (ds_locale s))))"
    and tab: "active_tab s' = Attractions"
    by (simp_all add: current_list_def)
  have hd_in: "hd (ATTRACTIONS (ds_locale s)) \<in> set (current_list s')"
    using current_list_nonempty [of s'] cl by simp
  have pr: "pressed_items s' = [hd (ATTRACTIONS (ds_locale s))]"
    using filter_distinct_single [OF current_list_distinct hd_in] o
    by (simp add: pressed_items_def selectedLabel_def)
  have "\<exists>(it::nearby_item) k. active_origin s' = Some (item_label it)
          \<and> buildDirectionsEmbed (item_label it) False k = Some (map_src s')"
    using inv by (auto simp: dir_inv_def)
  then obtain it k where "active_origin s' = Some (item_label (it::nearby_item))"
    and b: "buildDirectionsEmbed (item_label it) False k = Some (map_src s')"
    by blast
  with o embed_origin_build [OF b]
  have "embed_origin (map_src s') = Some (item_label (hd (ATTRACTIONS (ds_locale s))))" by simp
  with click sel pr tab show ?thesis by (auto simp: list_heading_def select_tab_def)
qed

theorem directions_tab_click_witness:
  "onDocumentClick example_env (directions_page (the (directions_mount EN 0))) [0, 1, 0, 1]
       (Some \<lparr>gtag_defined = True, data_layer = []\<rparr>) =
     Inr (Some \<lparr>gtag_defined = True, data_layer =
       [event_entry (js ''ui_click'') [(js ''label'', Some (JStr (js ''Atrakcje''))), (js ''href'', None)]]\<rparr>)
   \<and> (\<exists>s'. select_tab Attractions 5 (the (directions_mount EN 0)) = Some s'
        \<and> list_heading s' = js ''Atrakcje w okolicy''
        \<and> pressed_items s' = [hd (ATTRACTIONS EN)]
        \<and> embed_origin (map_src s') = Some (item_label (hd (ATTRACTIONS EN)))
        \<and> select_tab Attractions 6 s' = Some s')"
proof -
  have m: "active_tab (the (directions_mount EN 0)) = Routes \<and> ds_locale (the (directions_mount EN 0)) = EN"
    using directions_mount_state conjunct1 [OF directions_mount_reachable] by blast
  then show ?thesis
    using directions_tab_click [of "the (directions_mount EN 0)" "\<lparr>gtag_defined = True, data_layer = []\<rparr>"
        example_env 5 6]
    by simp
qed

end
