(* ===== verification/GaScript.thy ===== *)
theory GaScript
  imports Analytics Uri
begin

text \<open>
  The text of the GA4 bootstrap script of \<open>src/src/app/layout.tsx\<close> (lines 49-56):
  a template literal into which the measurement id is interpolated, unescaped, between
  the two single quotes of the second argument of the \<open>config\<close> call. The browser
  reads the id back by lexing that ECMAScript single-quoted string literal. This theory
  models the template (\<open>ga4_init_script\<close>), the lexer of a single-quoted literal
  (\<open>sq_body\<close>, \<open>sq_escape\<close>, ECMAScript \<open>SingleStringCharacters\<close>), the position
  of the literal in the script (\<open>script_config_arg\<close>), and what running the script does
  to the window (\<open>run_ga4_script\<close>), related to the bootstrap of \<open>Analytics\<close>.
\<close>

section \<open>Code units of the script text\<close>

definition sq :: code_unit where "sq = 0x27"
definition bs :: code_unit where "bs = 0x5C"
definition LF :: code_unit where "LF = 10"
definition CR :: code_unit where "CR = 13"

lemmas script_units = sq_def bs_def LF_def CR_def

text \<open>A single-quoted JavaScript string literal of a plain text.\<close>

definition quoted :: "string \<Rightarrow> jsstr" where
  "quoted s = [sq] @ js s @ [sq]"

definition indent :: "nat \<Rightarrow> jsstr" where
  "indent n = replicate n 0x20"

section \<open>The template\<close>

text \<open>
  The child of \<open><Script id="ga4-init">\<close>: the template literal of lines 50-55, a line
  break, four lines indented by sixteen spaces, a line break and the fourteen spaces
  before the closing backquote. \<open>${gaMeasurementId}\<close> is replaced by the id as it is.
\<close>

definition config_call_prefix :: jsstr where
  "config_call_prefix = js ''gtag('' @ quoted ''config'' @ js '', '' @ [sq]"

definition config_tail :: jsstr where
  "config_tail = js '', { anonymize_ip: true });'' @ [LF] @ indent 14"

definition script_head :: jsstr where
  "script_head =
     [LF] @ indent 16 @ js ''window.dataLayer = window.dataLayer || [];'' @ [LF]
     @ indent 16 @ js ''function gtag(){dataLayer.push(arguments);}'' @ [LF]
     @ indent 16 @ js ''gtag('' @ quoted ''js'' @ js '', new Date());'' @ [LF]
     @ indent 16"

definition ga4_init_script :: "jsstr \<Rightarrow> jsstr" where
  "ga4_init_script gaMeasurementId =
     script_head @ config_call_prefix @ gaMeasurementId @ [sq] @ config_tail"

section \<open>Lexing a single-quoted string literal\<close>

text \<open>
  The ways lexing the literal fails. \<open>Unterminated\<close>: a line feed or carriage return,
  or the end of the text, before the closing quote (a \<open>SyntaxError\<close>).
  \<open>BadEscape\<close>: \<open>\x\<close> or \<open>\u\<close> not followed by its hex digits (a \<open>SyntaxError\<close>).
  \<open>UnsupportedEscape\<close>: the legacy octal escapes \<open>\1\<close> to \<open>\9\<close> and \<open>\0\<close> before a
  digit, and \<open>\u{...}\<close>, which the model does not decode. \<open>NoConfigCall\<close>: the
  script has no \<open>config\<close> call to read.
\<close>

datatype script_error = Unterminated | BadEscape | UnsupportedEscape | NoConfigCall

definition is_digit :: "code_unit \<Rightarrow> bool" where
  "is_digit c \<longleftrightarrow> 0x30 \<le> c \<and> c \<le> 0x39"

text \<open>A run of hex digits, read as a number (most significant first).\<close>

fun hex_num :: "nat \<Rightarrow> jsstr \<Rightarrow> nat option" where
  "hex_num v [] = Some v"
| "hex_num v (d # ds) = (case hex_val d of None \<Rightarrow> None | Some a \<Rightarrow> hex_num (16 * v + a) ds)"

text \<open>\<open>\x\<close> takes two hex digits and \<open>\u\<close> four: the code unit they denote and the rest.\<close>

definition hex_escape :: "nat \<Rightarrow> jsstr \<Rightarrow> script_error + jsstr \<times> jsstr" where
  "hex_escape n ds =
     (if n \<le> length ds then
        (case hex_num 0 (take n ds) of None \<Rightarrow> Inl BadEscape | Some v \<Rightarrow> Inr ([of_nat v], drop n ds))
      else Inl BadEscape)"

text \<open>The value of a \<open>SingleEscapeCharacter\<close> or \<open>NonEscapeCharacter\<close>.\<close>

definition single_escape :: "code_unit \<Rightarrow> code_unit" where
  "single_escape d =
     (if d = 0x62 then 8 else if d = 0x66 then 12 else if d = 0x6E then 10
      else if d = 0x72 then 13 else if d = 0x74 then 9 else if d = 0x76 then 11 else d)"

text \<open>
  The text after a backslash: the code units the escape stands for and the rest of the
  literal. A line terminator after the backslash is a \<open>LineContinuation\<close> and stands
  for nothing (\<open>CR LF\<close> counts as one).
\<close>

fun sq_escape :: "jsstr \<Rightarrow> script_error + jsstr \<times> jsstr" where
  "sq_escape [] = Inl Unterminated"
| "sq_escape (d # ds) =
     (if d = CR then Inr ([], (case ds of e # es \<Rightarrow> if e = LF then es else ds | [] \<Rightarrow> []))
      else if d = LF \<or> d = 0x2028 \<or> d = 0x2029 then Inr ([], ds)
      else if d = 0x78 then hex_escape 2 ds
      else if d = 0x75 then (if ds \<noteq> [] \<and> hd ds = 0x7B then Inl UnsupportedEscape else hex_escape 4 ds)
      else if d = 0x30 \<and> \<not> (ds \<noteq> [] \<and> is_digit (hd ds)) then Inr ([0], ds)
      else if is_digit d then Inl UnsupportedEscape
      else Inr ([single_escape d], ds))"

text \<open>
  The characters of the literal after its opening quote, accumulated in \<open>acc\<close>: the value
  of the literal and the text after its closing quote. The paragraph and line separators
  U+2028 and U+2029 are allowed inside a literal (ES2019).
\<close>

function sq_body :: "jsstr \<Rightarrow> jsstr \<Rightarrow> script_error + jsstr \<times> jsstr" where
  "sq_body acc [] = Inl Unterminated"
| "sq_body acc (c # cs) =
     (if c = sq then Inr (acc, cs)
      else if c = LF \<or> c = CR then Inl Unterminated
      else if c = bs then
        (case sq_escape cs of Inl e \<Rightarrow> Inl e | Inr (v, rest) \<Rightarrow> sq_body (acc @ v) rest)
      else sq_body (acc @ [c]) cs)"
  by pat_completeness auto
termination
  by (relation "measure (\<lambda>(acc, s). length s)")
     (auto simp: hex_escape_def elim!: sq_escape.elims split: if_splits option.splits list.splits)

section \<open>Finding the literal\<close>

text \<open>The text after the first occurrence of \<open>pat\<close>.\<close>

fun after_first :: "jsstr \<Rightarrow> jsstr \<Rightarrow> jsstr option" where
  "after_first pat [] = (if pat = [] then Some [] else None)"
| "after_first pat (c # cs) =
     (if starts_with pat (c # cs) then Some (drop (length pat) (c # cs)) else after_first pat cs)"

text \<open>The second argument of the \<open>config\<close> call of a script: the value of the literal that
  follows \<open>gtag('config', \<close> and the text after it.\<close>

definition script_config_arg :: "jsstr \<Rightarrow> script_error + jsstr \<times> jsstr" where
  "script_config_arg text =
     (case after_first config_call_prefix text of
        None \<Rightarrow> Inl NoConfigCall
      | Some rest \<Rightarrow> sq_body [] rest)"

text \<open>The ids the template carries intact: no quote, backslash, line feed or carriage return.\<close>

definition sq_plain :: "jsstr \<Rightarrow> bool" where
  "sq_plain s \<longleftrightarrow> list_all (\<lambda>c. c \<noteq> sq \<and> c \<noteq> bs \<and> c \<noteq> LF \<and> c \<noteq> CR) s"

text \<open>
  Escaping a text for a single-quoted literal (quote, backslash, line feed, carriage
  return), which the template does not apply. It serves to state what interpolating an
  escaped id would give.
\<close>

fun sq_encode :: "jsstr \<Rightarrow> jsstr" where
  "sq_encode [] = []"
| "sq_encode (c # cs) =
     (if c = sq \<or> c = bs then [bs, c] else if c = LF then [bs, 0x6E]
      else if c = CR then [bs, 0x72] else [c]) @ sq_encode cs"

section \<open>Running the script\<close>

text \<open>
  What the inline script does to the window. A literal that does not lex as ECMAScript
  (\<open>Unterminated\<close>, \<open>BadEscape\<close>) is an early \<open>SyntaxError\<close>: no statement of the script
  runs. A script that is the template around the id the browser reads runs its four
  statements, which \<open>ga4_init\<close> models. Any other text (an id with a quote, whose tail
  is lexed as code) is outside the model (\<open>None\<close>).
\<close>

definition run_ga4_script :: "jsstr \<Rightarrow> nat \<Rightarrow> window \<Rightarrow> window option" where
  "run_ga4_script text now w =
     (case script_config_arg text of
        Inl Unterminated \<Rightarrow> Some w
      | Inl BadEscape \<Rightarrow> Some w
      | Inl _ \<Rightarrow> None
      | Inr (v, rest) \<Rightarrow> if text = ga4_init_script v then Some (ga4_init v now w) else None)"

section \<open>Lemmas\<close>

lemma starts_with_append_long:
  "length pat \<le> length xs \<Longrightarrow> starts_with pat (xs @ t) = starts_with pat xs"
  by (simp add: starts_with_def)

text \<open>The first occurrence in \<open>h @ pat\<close> lies at its end: then it is the first one in
  \<open>h @ pat @ t\<close> for every \<open>t\<close>, since an earlier one would end inside \<open>pat\<close>.\<close>

lemma after_first_append_tail:
  "after_first pat (h @ pat) = Some [] \<Longrightarrow> after_first pat (h @ pat @ t) = Some t"
proof (induction h)
  case Nil
  then show ?case by (cases pat; cases t) (auto simp: starts_with_def)
next
  case (Cons c h)
  have "\<not> starts_with pat (c # h @ pat)"
    using Cons.prems by (auto simp: starts_with_def)
  then show ?case
    using Cons by (simp add: starts_with_append_long [where xs = "c # h @ pat", simplified])
qed

lemma after_first_head: "after_first config_call_prefix (script_head @ config_call_prefix) = Some []"
  by code_simp

lemma script_config_arg_script:
  "script_config_arg (ga4_init_script x) = sq_body [] (x @ sq # config_tail)"
  using after_first_append_tail [OF after_first_head]
  by (simp add: script_config_arg_def ga4_init_script_def)

lemma sq_body_plain:
  "sq_plain a \<Longrightarrow> sq_body acc (a @ r) = sq_body (acc @ a) r"
  by (induction a arbitrary: acc) (auto simp: sq_plain_def)

lemma sq_body_tail: "sq_body acc config_tail = Inl Unterminated"
  by (simp add: config_tail_def script_units indent_def)

lemma sq_body_encode: "sq_body acc (sq_encode s @ sq # r) = Inr (acc @ s, r)"
  by (induction s arbitrary: acc) (auto simp: script_units single_escape_def is_digit_def)

lemmas sq_body_step = sq_body_plain sq_body_tail sq_body_encode

text \<open>
  C25 (roundtrip). The measurement id is read back from the rendered bootstrap script
  exactly when it contains no quote, backslash, line feed or carriage return: then the
  literal of the \<open>config\<close> call denotes the id and the rest of the call follows it
  intact, which is what \<open>ga4_init\<close> assumes. A quote inside the id ends the literal
  early: the browser reads only the part before it, and the rest of the id is lexed as
  script code. An id that ends with a backslash escapes the closing quote, and one with a
  line break breaks the literal: the script does not parse.
\<close>

theorem ga4_script_config_literal:
  assumes "sq_plain a"
  shows "script_config_arg (ga4_init_script a) = Inr (a, config_tail)
       \<and> script_config_arg (ga4_init_script (a @ sq # b)) = Inr (a, b @ sq # config_tail)
       \<and> script_config_arg (ga4_init_script (a @ [bs])) = Inl Unterminated
       \<and> script_config_arg (ga4_init_script (a @ LF # b)) = Inl Unterminated"
  using sq_body_plain [OF assms, of "[]"] sq_body_tail
  by (simp add: script_config_arg_script script_units is_digit_def single_escape_def)

theorem ga4_script_config_literal_witness:
  "script_config_arg (ga4_init_script (js ''G-12AB'')) = Inr (js ''G-12AB'', config_tail)
   \<and> script_config_arg (ga4_init_script (js ''G-12AB'' @ sq # js ''x'')) = Inr (js ''G-12AB'', js ''x'' @ sq # config_tail)
   \<and> script_config_arg (ga4_init_script (js ''G-12AB'' @ [bs])) = Inl Unterminated
   \<and> script_config_arg (ga4_init_script (js ''G-12AB'' @ LF # js ''x'')) = Inl Unterminated"
  using ga4_script_config_literal [of "js ''G-12AB''"]
  by (simp add: sq_plain_def script_units)

lemma ga4_script_encoded_id:
  "script_config_arg (ga4_init_script (sq_encode x)) = Inr (x, config_tail)"
  by (simp add: script_config_arg_script sq_body_encode)

lemma script_config_arg_plain:
  "sq_plain a \<Longrightarrow> script_config_arg (ga4_init_script (a @ r)) = sq_body a (r @ sq # config_tail)"
  using sq_body_plain [of a "[]"] by (simp add: script_config_arg_script)

text \<open>The bootstrap the rest of the development uses (\<open>layout_analytics\<close>) is what the
  rendered script does, for every id the template carries intact.\<close>

lemma run_ga4_script_layout:
  assumes "sq_plain gaId" and "gaId \<noteq> []"
  shows "run_ga4_script (ga4_init_script gaId) now w = Some (layout_analytics (Some gaId) now w)"
  using script_config_arg_plain [OF assms(1), of "[]"]
  by (simp add: run_ga4_script_def layout_analytics_def assms(2) script_units)

text \<open>With an id that ends in a backslash the script does not parse: \<open>gtag\<close> stays
  undefined, and every event the page tracks afterwards is dropped.\<close>

lemma run_ga4_script_backslash:
  assumes "sq_plain a" and "\<not> gtag_defined w"
  shows "run_ga4_script (ga4_init_script (a @ [bs])) now w = Some w
         \<and> track_all evs (Some w) = Some w"
  using script_config_arg_plain [OF assms(1), of "[bs]"] sq_body_tail track_all_no_gtag [OF assms(2)]
  by (simp add: run_ga4_script_def script_units is_digit_def single_escape_def)

end
