(* ===== verification/Spec2Isabelle.thy ===== *)
theory Spec2Isabelle
  imports TrackerLifecycle LangSwitcher Directions MediaPlayback Layout EventsPageRender DirectionsPage GaScript
begin

text \<open>
  \<^bold>\<open>A verification development of the AlverniaPlanet website.\<close>

  \<^bold>\<open>The program.\<close> A Next.js marketing site (sources under \<open>src/src\<close>). Apart from
  presentational markup, its behaviour lives in these parts:
  \<^item> \<open>app/components/AnalyticsTracker.tsx\<close>: a React component whose effect
    registers one capture-phase \<open>click\<close> listener on \<open>document\<close>. The listener finds
    the nearest clickable inclusive ancestor of the click target
    (\<open>closest("[data-analytics-label], [data-analytics-event], a, button, [role='button']")\<close>),
    honours \<open>data-analytics-ignore="true"\<close>, derives an event name, a label
    (\<open>getLabel\<close>, truncated to \<open>MAX_LABEL_LENGTH\<close> = 120 code units), a canonical
    label (\<open>normalizeLabel\<close> over \<open>LABEL_MAP\<close>), a link target (\<open>getHref\<close>), detects
    a language switch (\<open>detectLanguageSwitch\<close>) and calls \<open>trackEvent\<close> once or twice.
  \<^item> \<open>lib/analytics.ts\<close>: \<open>trackEvent\<close>, the sink, which forwards to \<open>window.gtag\<close>
    when it exists.
  \<^item> \<open>app/layout.tsx\<close>: the root layout around every page. It renders the document
    (body, starfield, a column with the app bar, the page, the footer and the
    promotion), mounts the tracker, and, when a GA measurement id is set, runs a script
    after hydration that defines \<open>gtag\<close> (it pushes onto \<open>window.dataLayer\<close>).
  \<^item> \<open>app/components/LangSwitcher.tsx\<close>: the PL/EN switch, which maps the current
    path to the other language (\<open>mapToEn\<close>, \<open>mapToPl\<close>) and navigates. Its buttons
    are in the document the tracker listens on.
  \<^item> \<open>app/jak-dojechac/page.tsx\<close>: a directions map whose origin is chosen from
    per-locale lists, with a default-route effect and lazy loading.
  \<^item> \<open>app/wydarzenia/page.tsx\<close>: autoplaying videos paused and resumed by
    intersection observers, effects and media event listeners; a showcase of
    click-to-play YouTube tiles; a lazily loaded map.
  \<^item> \<open>app/components/FloatingPromo.tsx\<close>: a toggled discount panel.

  \<^bold>\<open>Theories.\<close>
  \<^item> \<open>Prelude\<close>: JavaScript strings as lists of UTF-16 code units (\<open>16 word\<close>), with
    the library operations the code calls (\<open>trim\<close>, \<open>toLowerCase\<close>, \<open>startsWith\<close>,
    \<open>replace\<close> with a run-collapsing pattern), JavaScript values and truthiness, and the
    property read \<open>obj[key]\<close>, which also sees \<open>Object.prototype\<close>.
  \<^item> \<open>Dom\<close>: the document as a tree of elements and text nodes, the click target as a
    path from the document element, \<open>getAttribute\<close>, \<open>textContent\<close>, and
    \<open>closest\<close> as the DOM standard's upward walk, proved equal to the first match among
    the inclusive ancestors.
  \<^item> \<open>Analytics\<close>: the sink state (\<open>window\<close>: whether \<open>gtag\<close> is defined and the
    data layer), \<open>trackEvent\<close>, \<open>gtag\<close> and the layout's GA bootstrap; and the
    typing of data-layer entries (\<open>wf_entry\<close>: the call shapes GA4 is meant to
    receive), a specification, not code.
  \<^item> \<open>ClickClassifier\<close>: \<open>LABEL_MAP\<close>, \<open>getLabel\<close>, \<open>getHref\<close>, \<open>normalizeLabel\<close>,
    \<open>detectLanguageSwitch\<close>, the clickable selector and the listener itself
    (\<open>onDocumentClick\<close>, the \<open>handler\<close> closure of the source), which returns the new
    sink state or the JavaScript exception it throws (\<open>error + global\<close>). A
    specification of a click (\<open>nearest_clickable\<close>, \<open>click_events\<close>) states the
    contract without the walk and the sink; the refinement theorem relates the two.
  \<^item> \<open>TrackerLifecycle\<close>: the tracker's effect (\<open>tracker_mount\<close>: a fresh \<open>handler\<close>
    closure registered with \<open>addEventListener\<close>; \<open>tracker_unmount\<close>: its cleanup),
    the dispatch of a click to the registered listeners (\<open>document_click\<close>), the GA
    bootstrap at any time (\<open>ga_load\<close>), as the inductive step relation \<open>lc_step\<close> with
    \<open>reachable\<close> states from \<open>init_page\<close> and the invariant \<open>lc_inv\<close>, proved by rule
    induction; every entry the page ever records is well-typed.
  \<^item> \<open>LangSwitcher\<close>: \<open>OPTIONS\<close>, \<open>active_option\<close>, the tables \<open>EN_PATHS\<close> and
    \<open>PL_PATHS\<close>, \<open>mapToEn\<close> and \<open>mapToPl\<close> (their results are JavaScript values, as
    the tables are object literals), \<open>switchLocale\<close> over a state of locale, path and
    router navigations, and the rendered buttons (\<open>switcher_render\<close>, the mount guard,
    around \<open>switcher_div\<close>,
    \<open>switcher_button\<close>, \<open>flag_svg\<close>) as document trees the classifier can read.
  \<^item> \<open>Uri\<close>: \<open>encodeURIComponent\<close> of ECMAScript (code points, the unescaped set,
    UTF-8 percent-encoding, \<open>URIError\<close> on unpaired surrogates), a decoder, and the
    decimal rendering of a time value; the encoding is proved lossless and its output
    free of \<open>&\<close>.
  \<^item> \<open>Directions\<close>: the getting-there page: \<open>NEARBY\<close>, \<open>ATTRACTIONS\<close>,
    \<open>buildDirectionsEmbed\<close>, \<open>selectedLabel\<close> (\<open>activeOrigin ?? ""\<close>, so no button is
    pressed before an origin is chosen), the page state and its handlers and effects as the step
    relation \<open>dir_step\<close> from \<open>directions_mount\<close>, with the invariant \<open>dir_inv\<close>;
    and the item buttons (\<open>item_button\<close>) as the classifier reads them.
  \<^item> \<open>MediaPlayback\<close>: \<open>EventVideo\<close> and the hero video of the events page as
    interleavings of observer callbacks, React commits and media element tasks
    (\<open>ev_step\<close>, \<open>hero_step\<close>), and the page's \<open>VideoTile\<close> and \<open>MapFrame\<close>
    (\<open>tile_step\<close>, \<open>mf_step\<close>) with the views they render. The work the browser
    and React do for an \<open>EventVideo\<close> without the observer or the user
    (\<open>ev_internal\<close>: commits, queued \<open>pause\<close> events, autoplay) is counted by
    \<open>ev_pending\<close>, which every such step lowers.
  \<^item> \<open>EventsPage\<close>: the events page's data (\<open>VIDEO_SHOWCASE\<close>, \<open>UI_TEXT\<close>) and
    markup (\<open>event_video_node\<close> over the props record \<open>event_video_props\<close>, which
    renders no text, so its loading label and fallback text never show), the tile
    renderings \<open>tile_poster\<close>,
    \<open>tile_frame\<close> and \<open>video_tile\<close>, the grid \<open>showcase_grid\<close>) as the
    classifier reads them.
  \<^item> \<open>PageMarkup\<close>: what the content pages share: \<open>Card\<close> (outside the sources,
    taken to wrap its children in one element), \<open>no_clickable\<close>, and
    \<open>plain_click\<close>, the outcome a click on a content page should have (nothing
    recorded, or one \<open>ui_click\<close> with a non-empty string label), with the lemma that a
    page whose clickable nodes all have plain labels has only plain clicks.
  \<^item> \<open>DirectionsPage\<close>: the getting-there page's \<open>COPY\<close> table
    (\<open>DIRECTIONS_COPY\<close>) and the document it renders for a page state
    (\<open>directions_page\<close>: header, tab buttons, heading, item buttons, map area).
  \<^item> \<open>EventsPageRender\<close>: the events page's copy tables (\<open>COPY\<close>, \<open>SECOND\<close>,
    \<open>THIRD\<close>, \<open>DOMES\<close>) and the whole document \<open>EventsPage\<close> renders
    (\<open>events_page\<close>, one definition per card, \<open>map_frame_node\<close> for \<open>MapFrame\<close> over \<open>map_frame_props\<close>),
    for every language and every state of its tiles and map frame, with the inventory
    of its clickable elements (\<open>events_page_clickable\<close>).
  \<^item> \<open>FloatingPromo\<close>: the promotion's toggle and its rendered button and panel.
  \<^item> \<open>Layout\<close>: the root layout: \<open>metadata\<close>, the document \<open>root_layout\<close>
    around a page (head, starfield, app bar and footer are parameters, as they come from
    outside the sources), and the page after hydration, \<open>layout_start\<close>: the
    tracker's mount followed by the GA4 scripts, in this order, as React runs effects
    before \<open>afterInteractive\<close> scripts; and the loading screen of \<open>loading.tsx\<close>
    (\<open>Loading\<close>), on which nothing is clickable.
  \<^item> \<open>GaScript\<close>: the text of the GA4 bootstrap script (\<open>ga4_init_script\<close>, the
    template literal of \<open>layout.tsx\<close> with the measurement id interpolated), the
    lexer of an ECMAScript single-quoted string literal (\<open>sq_body\<close>, \<open>sq_escape\<close>:
    escapes, line continuations, the \<open>SyntaxError\<close>s as values of
    \<open>script_error\<close>), and the literal the browser reads as the \<open>config\<close> call's id
    (\<open>script_config_arg\<close>); what running the script does (\<open>run_ga4_script\<close>: nothing
    on a \<open>SyntaxError\<close>, \<open>ga4_init\<close> of the id read otherwise), proved equal to the
    \<open>layout_analytics\<close> bootstrap for every id the template carries intact
    (\<open>run_ga4_script_layout\<close>), which justifies modelling the bootstrap by its calls.
  \<^item> this theory: the properties that span the switcher or the content pages and the
    classifier.

  \<^bold>\<open>Properties.\<close>
  \<^item> Classifier (C1 to C8, C10, C13, C15, C16): refinement of the listener by the
    click specification; order and number of emitted events; silence without a
    clickable ancestor or with the ignore marker; the spec's language-switch scenario
    for every document and every language word (C5); the default event name;
    the exception for labels naming \<open>Object.prototype\<close> properties, and that it is
    the only one (the spec promises that no click throws); bounds and truncation of
    labels; idempotence of normalisation and
    its lookup (case- and space-insensitive, pass-through otherwise); language
    detection; the href rewriting. C11 applies the classifier to the two content pages
    as rendered (this theory): no click on the events page or the getting-there page
    throws or reports a language switch, each records at most one labelled
    \<open>ui_click\<close>. C14 applies it to the page's video tiles: their label runs
    the play badge and the title together. C12 (\<open>EventsPageRender\<close>) follows such a
    click through the tile's own handler (\<open>showcase_click\<close>): the tracker records it
    on the page as it was, the tile turns into its iframe, and no later click inside the
    tile is recorded. C9 does the same for the map frame's load button (\<open>mf_click\<close>):
    one \<open>ui_click\<close> with its hard-coded Polish label, then the map loads and the frame
    is silent.
  \<^item> Lifecycle (C17 to C20): exactly one listener while mounted, none otherwise, across
    the StrictMode remount; each click classified once; clicks before the bootstrap
    lost; the data layer append-only.
  \<^item> Switcher (C21 to C24): clicks on the switcher's own buttons are never reported as
    a language switch (they carry no readable label); \<open>switchLocale EN\<close> pushes one
    English path, on which \<open>mapToEn\<close> is idempotent, also from an empty path;
    \<open>mapToPl (mapToEn p) = p\<close> for Polish paths; the \<open>/en\<close>-prefix stripping of
    \<open>mapToPl\<close> on every Polish path \<open>/en\<close> followed by anything but a slash, such as
    \<open>/energylandia\<close> (and on \<open>/enconstructor\<close> it yields a prototype function).
  \<^item> Bootstrap script (C25): the measurement id is read back from the script text
    exactly when it has no quote, backslash or line break (a round trip through the
    template and the lexer); a quote ends the literal early and leaves the rest of the
    id as code; a trailing backslash or a line break makes the script a
    \<open>SyntaxError\<close>, after which \<open>gtag\<close> stays undefined and every event is dropped
    (\<open>run_ga4_script_backslash\<close>). An id escaped for the literal (\<open>sq_encode\<close>) would always be read
    back (\<open>ga4_script_encoded_id\<close>).
  \<^item> Sink (C26, C27): events after the bootstrap follow its two calls, and without a
    measurement id every event is dropped; every entry of the data layer in every
    reachable page state is a well-formed \<open>gtag\<close> call (a type invariant: no
    object ever reaches GA as a label).
  \<^item> Directions (C28 to C32): the map is always loaded (the lazy loading is dead code);
    exactly one item is pressed and the map shows its route; the origin is read back
    from the URL; a tab or locale change selects the first item; a click on the
    attractions tab (C32, \<open>DirectionsPage\<close>) is recorded with its hard-coded Polish
    label on the page as it was, then the tab, the heading, the pressed item and the
    map's route all switch to the first attraction; clicks on an item button are labelled with the name and the distance run together
    (C40), because \<open>getLabel\<close> reads \<open>textContent\<close>.
  \<^item> Videos (C33 to C37, C39): a committed visible \<open>EventVideo\<close> plays; the outcome
    of leaving the view depends on whether React's commit or the \<open>pause\<close> event comes
    first; the bad order is reachable and leaves the video playing out of view for good;
    once in view, the remaining work always completes (termination, C39, by the
    measure \<open>ev_pending\<close>) and every way of completing it leaves the video playing
    (liveness, C36); the hero video is paused exactly when hidden.
  \<^item> Layout (C38): on any page, after hydration, a click on the promotion's button
    records the bootstrap's calls and one \<open>ui_click\<close> with the emoji as label; clicks
    in its open panel change nothing.

  \<^bold>\<open>Modelling choices.\<close> Strings are UTF-16 code units, so \<open>slice(0, 120)\<close> counts
  what JavaScript counts. \<open>toLowerCase\<close> is exact on U+0000 to U+017F and on the code
  units whose lower case falls in that range; other scripts are left unchanged, which
  cannot change a comparison with the ASCII and Polish keys of the sources. Reading
  \<open>obj[key]\<close> on an object literal also finds the properties of
  \<open>Object.prototype\<close> (\<open>js_obj_get\<close>), which are functions (\<open>JObj\<close>). The URL
  parser behind \<open>new URL\<close> is a parameter of the model (\<open>parse_url\<close>): every theorem
  holds for every parser, and the examples use a small parser of \<open>https\<close> URLs and
  path-absolute references. \<open>Date.now()\<close> is a parameter of each step that calls it.
  Handler closures are named by the number of the effect run that created them, so the
  identity \<open>removeEventListener\<close> compares is explicit. The React runtime is
  represented by the steps it may take: mount only when unmounted, unmount only when
  mounted, and a commit (render plus passive effects) only when a dependency changed.
  Media elements keep the HTML state the code reads (\<open>paused\<close>, the autoplaying flag,
  queued \<open>pause\<close> events), and \<open>play()\<close> of a muted inline video succeeds. The
  router is the list of pushed paths. There are no loops without a bound: every
  recursion is structural or on the length of a list or a number, so no fuel is needed.
  The scheduler's own work for a video is a relation, not a loop; that it cannot go
  on forever is proved as well-foundedness (no infinite chain of \<open>ev_internal\<close>
  steps), not assumed. A \<open>Card\<close> is taken to wrap its content in one element, which
  is in the document (\<open>PageMarkup.Card\<close>). Component props are records (e.g.
  \<open>event_video_props\<close>), an omitted optional prop \<open>None\<close>.

  \<^bold>\<open>Not modelled.\<close> Styling classes, animation (\<open>framer-motion\<close> props), image
  loading, the events page's \<open>PREVIEW_IMG\<close> (never read) and the icons of the
  getting-there page (a generic \<open>svg\<close> stands for each): presentational, with no
  state and nothing the classifier reads. The theme and i18n providers, the app bar,
  the footer, the starfield and \<open>Card\<close> are imported but not part of the sources;
  \<open>Card\<close> is modelled from its use, the others are parameters of the layout. Of the
  GA4 scripts, the text of the inline script is modelled up to the \<open>config\<close> call's
  literal; the URL of the \<open>gtag.js\<close> script (the id interpolated unencoded into its
  query) and the JavaScript that an id with a quote would inject are not, since what
  they do depends on the server and on arbitrary code. The lexer does not decode the
  legacy octal escapes and \<open>\u{...}\<close> (\<open>UnsupportedEscape\<close>), which no theorem
  needs.
\<close>

section \<open>The language switcher under the click classifier\<close>

text \<open>
  C21 (safety, cross-component). The language switcher's buttons are invisible to the
  classifier's language detection: wherever the rendered switcher sits in the
  document, a click on an element inside one of its buttons (the button, its flag, a
  shape of the flag) appends exactly one event, \<open>ui_click\<close> with no label and no
  href, and never \<open>language_switch\<close>. The buttons name their language only in
  \<open>aria-label\<close>, which \<open>getLabel\<close> does not read, and their flag has no text.
\<close>

theorem switcher_click_no_language_switch:
  assumes sw: "LangSwitcher.switcher_render True loc = Some s"
    and q: "node_at root q = Some s"
    and t: "node_at root (q @ i # r) = Some t" and el: "is_element t" and g: "gtag_defined w"
  shows "ClickClassifier.onDocumentClick env root (q @ i # r) (Some w) =
           Inr (Some (w\<lparr>data_layer := data_layer w @
                 [event_entry (js ''ui_click'') [(js ''label'', None), (js ''href'', None)]]\<rparr>))"
proof -
  from t q have "node_at s (i # r) = Some t" by (simp add: node_at_append)
  then obtain b where b: "child_at s i = Some b" and "node_at b r = Some t"
    by (auto split: option.splits)
  from switcher_child [OF sw b] obtain opt where bo: "b = switcher_button loc opt" by blast
  have "path_nodes root (q @ i # r) = path_nodes root q @ path_nodes b r"
    using path_nodes_append [OF q, of "i # r"] b by simp
  then have "nearest_clickable root (q @ i # r) = Some b"
    using switcher_button_nearest [of loc opt r] bo by (simp add: nearest_clickable_def find_append)
  then show ?thesis
    using onDocumentClick_eq [OF t el g] switcher_button_events [of loc opt env] bo
    by (simp add: emitted_def)
qed

theorem switcher_click_no_language_switch_witness:
  "onDocumentClick example_env (Elem (js ''div'') [] (map (switcher_button (js ''pl'')) OPTIONS)) [1, 0, 2]
     (Some \<lparr>gtag_defined = True, data_layer = []\<rparr>) =
   Inr (Some \<lparr>gtag_defined = True,
              data_layer = [event_entry (js ''ui_click'') [(js ''label'', None), (js ''href'', None)]]\<rparr>)"
proof -
  let ?s = "Elem (js ''div'') [] (map (switcher_button (js ''pl'')) OPTIONS)"
  have sw: "switcher_render True (js ''pl'') = Some ?s" by (simp add: switcher_render_def switcher_div_def)
  have q: "node_at ?s [] = Some ?s" by simp
  have t: "node_at ?s ([] @ 1 # [0, 2]) = Some (Elem (js ''path'') [] [])"
    by (simp add: OPTIONS_def switcher_button_def)
  show ?thesis
    using switcher_click_no_language_switch [OF sw q t] by simp
qed

section \<open>The content pages under the click classifier\<close>

text \<open>
  C11 (safety, cross-component). On the events page, in either language and whatever
  the state of its video tiles and map frame, and on the getting-there page, in any
  state, a click anywhere never makes the listener throw and never reports a language
  switch: it records nothing, or exactly one \<open>ui_click\<close> with a non-empty string
  label. The pages' clickable elements are the tiles' poster buttons, the gallery,
  phone, mail and Google Maps links, the map load buttons, the two tab buttons and the
  item buttons, and none of their labels is an \<open>Object.prototype\<close> member or a
  language name.
\<close>

theorem site_pages_clicks_plain:
  assumes "gtag_defined w"
  shows "plain_click env (events_page l ss mf) path w \<and> plain_click env (directions_page s) path' w"
  using events_page_clicks_plain [OF assms] directions_page_clicks_plain [OF assms] by blast

theorem site_pages_clicks_plain_witness:
  "plain_click example_env (events_page EN [tile_init, tile_init, tile_init] mf_init) [0, 1, 0, 5, 0, 1, 0]
     \<lparr>gtag_defined = True, data_layer = []\<rparr>
   \<and> plain_click example_env (directions_page (directions_init PL)) [0, 1, 0, 0]
       \<lparr>gtag_defined = True, data_layer = []\<rparr>"
  by (rule site_pages_clicks_plain) simp

end
